(* ===== verification/Prelude.thy ===== *)
theory Prelude
  imports Complex_Main "HOL-Library.AList"
begin

text \<open>
  Shared vocabulary of the StreetWeave development.  JavaScript numbers are modelled
  as \<open>real\<close> (exact arithmetic: rounding, NaN and the infinities of IEEE doubles are
  not modelled); JavaScript objects used as dictionaries (\<open>Record<string, T>\<close>) are
  association lists, because the code depends on their key order (\<open>Object.keys\<close>,
  \<open>for ... in\<close>, \<open>Object.values\<close>, which enumerate string keys in insertion order);
  \<open>obj[k] = v\<close> is \<open>AList.update\<close>, which keeps the position of an existing key and
  appends a new one, as JavaScript does.  The JavaScript primitives the code relies
  on (\<open>%\<close>, \<open>Math.round\<close>, \<open>Math.atan2\<close>) are defined here with their ECMAScript
  meaning, and a thrown \<open>TypeError\<close> is a value of \<open>js_error\<close>.
\<close>

named_theorems js_simps "evaluation rules of the modelled JavaScript primitives"
named_theorems alist_simps "facts on association lists used as JavaScript objects"

type_synonym attrs = "(string \<times> real) list"
  \<comment> \<open>\<open>Record<string, number>\<close>: an edge's aggregated attributes\<close>
type_synonym stats = "(string \<times> (real \<times> real)) list"
  \<comment> \<open>\<open>Record<string, {min, max}>\<close>: an attribute statistics table\<close>
type_synonym pos = "real \<times> real"
  \<comment> \<open>a GeoJSON position \<open>[x, y]\<close>, conventionally \<open>[lon, lat]\<close>\<close>
type_synonym screen = "real \<times> real"
  \<comment> \<open>a projected layer point \<open>(x, y)\<close>\<close>

datatype js_error = TypeError
  \<comment> \<open>reading a property of \<open>undefined\<close>\<close>

subsection \<open>JavaScript numeric primitives\<close>

definition js_rem :: "real \<Rightarrow> real \<Rightarrow> real" where
  \<comment> \<open>ECMAScript \<open>x % y\<close> (for \<open>y \<noteq> 0\<close>): the remainder of the division truncated toward
      zero, with the sign of the dividend\<close>
  "js_rem x y = x - y * of_int (if 0 \<le> x / y then \<lfloor>x / y\<rfloor> else \<lceil>x / y\<rceil>)"

definition js_round :: "real \<Rightarrow> int" where
  \<comment> \<open>\<open>Math.round\<close>: round half up\<close>
  "js_round x = \<lfloor>x + 1 / 2\<rfloor>"

definition atan2 :: "real \<Rightarrow> real \<Rightarrow> real" where
  \<comment> \<open>\<open>Math.atan2(y, x)\<close> on finite arguments (signed zeros identified)\<close>
  "atan2 y x =
     (if 0 < x then arctan (y / x)
      else if x < 0 then (if 0 \<le> y then arctan (y / x) + pi else arctan (y / x) - pi)
      else if 0 < y then pi / 2
      else if y < 0 then - (pi / 2)
      else 0)"

definition bindE :: "'e + 'a \<Rightarrow> ('a \<Rightarrow> 'e + 'b) \<Rightarrow> 'e + 'b" where
  \<comment> \<open>sequencing of code that may throw: an exception skips the rest\<close>
  "bindE r f = (case r of Inl err \<Rightarrow> Inl err | Inr a \<Rightarrow> f a)"

fun foldE :: "('s \<Rightarrow> 'a \<Rightarrow> 'e + 's) \<Rightarrow> 's \<Rightarrow> 'a list \<Rightarrow> 'e + 's" where
  \<comment> \<open>a \<open>for\<close> loop whose body may throw\<close>
  "foldE f s [] = Inr s"
| "foldE f s (x # xs) = bindE (f s x) (\<lambda>s'. foldE f s' xs)"

fun sequenceE :: "('e + 'a) list \<Rightarrow> 'e + 'a list" where
  \<comment> \<open>run a list of computations in order; the first thrown error wins\<close>
  "sequenceE [] = Inr []"
| "sequenceE (r # rs) = bindE r (\<lambda>a. bindE (sequenceE rs) (\<lambda>as. Inr (a # as)))"

lemma js_round_eq_round [js_simps]: "js_round x = round x"
  by (simp add: js_round_def round_def)

lemma js_rem_nonneg [js_simps]:
  assumes "0 < y" and "0 \<le> x"
  shows "js_rem x y = x - y * of_int \<lfloor>x / y\<rfloor>"
  using assms by (simp add: js_rem_def)

lemma js_rem_range_nonneg:
  assumes "0 < y" and "0 \<le> x"
  shows "0 \<le> js_rem x y \<and> js_rem x y < y"
proof -
  have q: "of_int \<lfloor>x / y\<rfloor> \<le> x / y" "x / y < of_int \<lfloor>x / y\<rfloor> + 1"
    by linarith+
  have "y * of_int \<lfloor>x / y\<rfloor> \<le> y * (x / y)"
    using q(1) assms(1) by (intro mult_left_mono) auto
  then have "y * of_int \<lfloor>x / y\<rfloor> \<le> x" using assms(1) by simp
  moreover have "y * (x / y) < y * (of_int \<lfloor>x / y\<rfloor> + 1)"
    using q(2) assms(1) by (intro mult_strict_left_mono) auto
  then have "x < y * of_int \<lfloor>x / y\<rfloor> + y" using assms(1) by (simp add: algebra_simps)
  ultimately show ?thesis using assms by (simp add: js_rem_def)
qed

lemma js_rem_gt_neg:
  assumes "0 < y"
  shows "- y < js_rem x y"
proof (cases "0 \<le> x")
  case True
  then show ?thesis using js_rem_range_nonneg [OF assms True] assms by linarith
next
  case False
  with assms have neg: "x / y < 0" by (simp add: divide_less_0_iff)
  have c: "x / y \<le> of_int \<lceil>x / y\<rceil>" "of_int \<lceil>x / y\<rceil> < x / y + 1"
    by linarith+
  have "y * of_int \<lceil>x / y\<rceil> < y * (x / y + 1)"
    using c(2) assms by (intro mult_strict_left_mono) auto
  then have "y * of_int \<lceil>x / y\<rceil> < x + y" using assms by (simp add: algebra_simps)
  with neg show ?thesis by (simp add: js_rem_def)
qed

lemma js_rem_id [js_simps]:
  assumes "0 \<le> x" and "x < y"
  shows "js_rem x y = x"
proof -
  from assms have "\<lfloor>x / y\<rfloor> = 0" by (simp add: floor_eq_iff)
  with assms show ?thesis by (simp add: js_rem_def)
qed

lemma atan2_zero_nonneg [js_simps]: "0 \<le> x \<Longrightarrow> atan2 0 x = 0"
  by (simp add: atan2_def)

lemma sqrt_sum_sq_factor:
  assumes "x \<noteq> 0"
  shows "sqrt (x\<^sup>2 + y\<^sup>2) = \<bar>x\<bar> * sqrt (1 + (y / x)\<^sup>2)"
proof -
  have "x\<^sup>2 + y\<^sup>2 = x\<^sup>2 * (1 + (y / x)\<^sup>2)" using assms by (simp add: field_simps power2_eq_square)
  then show ?thesis by (simp add: real_sqrt_mult)
qed

text \<open>\<open>atan2\<close> is the polar angle: \<open>(x, y) = r (cos \<theta>, sin \<theta>)\<close> with \<open>r = |(x, y)|\<close>.\<close>

lemma atan2_polar:
  assumes "x \<noteq> 0 \<or> y \<noteq> 0"
  shows "sqrt (x\<^sup>2 + y\<^sup>2) * cos (atan2 y x) = x \<and> sqrt (x\<^sup>2 + y\<^sup>2) * sin (atan2 y x) = y"
proof (cases "x = 0")
  case True
  then have "y \<noteq> 0" using assms by simp
  then show ?thesis using True by (cases "0 < y") (auto simp: atan2_def)
next
  case False
  let ?s = "sqrt (1 + (y / x)\<^sup>2)"
  have s: "0 < ?s" by (simp add: add_pos_nonneg)
  have r: "sqrt (x\<^sup>2 + y\<^sup>2) = \<bar>x\<bar> * ?s" using False by (rule sqrt_sum_sq_factor)
  have c: "cos (arctan (y / x)) = 1 / ?s" by (simp add: cos_arctan)
  have sn: "sin (arctan (y / x)) = (y / x) / ?s" by (simp add: sin_arctan)
  show ?thesis
  proof (cases "0 < x")
    case True
    then show ?thesis using s r c sn by (simp add: atan2_def)
  next
    case neg: False
    with False have "x < 0" by simp
    then show ?thesis using s r c sn by (simp add: atan2_def cos_add sin_add cos_diff sin_diff)
  qed
qed

lemma polar_dot:
  assumes "x \<noteq> 0 \<or> y \<noteq> 0"
  shows "x * cos (atan2 y x) + y * sin (atan2 y x) = sqrt (x * x + y * y)"
proof -
  define c s d where "c = cos (atan2 y x)" and "s = sin (atan2 y x)" and "d = sqrt (x\<^sup>2 + y\<^sup>2)"
  have hx: "x = d * c" and hy: "y = d * s" using atan2_polar [OF assms] by (simp_all add: c_def s_def d_def)
  have one: "c * c + s * s = 1" by (simp add: c_def s_def flip: power2_eq_square)
  have "x * c + y * s = d * (c * c + s * s)" by (simp add: hx hy algebra_simps)
  then have "x * c + y * s = d" by (simp add: one)
  then show ?thesis by (simp add: c_def s_def d_def power2_eq_square)
qed

lemma sin_half_wave: "sin ((real i + 1 / 2) * pi) = (-1) ^ i"
proof -
  have "(real i + 1 / 2) * pi = real i * pi + pi / 2" by (simp add: algebra_simps)
  then show ?thesis by (simp add: sin_add cos_npi)
qed

lemma js_round_midpoint_between:
  "min a b \<le> js_round ((of_int a + of_int b) / 2) \<and> js_round ((of_int a + of_int b) / 2) \<le> max a b"
proof -
  have avg: "(m::real) \<le> x \<Longrightarrow> m \<le> y \<Longrightarrow> x \<le> M \<Longrightarrow> y \<le> M \<Longrightarrow>
      m \<le> (x + y) / 2 + 1 / 2 \<and> (x + y) / 2 + 1 / 2 < M + 1" for m x y M
    by argo
  have "of_int (min a b) \<le> (of_int a :: real)" "of_int (min a b) \<le> (of_int b :: real)"
    "of_int a \<le> (of_int (max a b) :: real)" "of_int b \<le> (of_int (max a b) :: real)"
    by (simp_all only: of_int_le_iff min.cobounded1 min.cobounded2 max.cobounded1 max.cobounded2)
  then have lo: "of_int (min a b) \<le> (of_int a + of_int b) / 2 + 1 / (2::real)"
    and hi: "(of_int a + of_int b) / 2 + 1 / 2 < of_int (max a b) + (1::real)"
    using avg by blast+
  show ?thesis unfolding js_round_def using lo hi by (simp add: le_floor_iff floor_le_iff)
qed

lemma bindE_simps [simp]: "bindE (Inl err) f = Inl err" "bindE (Inr a) f = f a"
  by (simp_all add: bindE_def)

lemma bindE_Inr_iff: "bindE r f = Inr b \<longleftrightarrow> (\<exists>a. r = Inr a \<and> f a = Inr b)"
  by (cases r) simp_all

subsection \<open>Association lists as JavaScript objects\<close>

lemma map_of_update_same [alist_simps]: "map_of (AList.update k v xs) k = Some v"
  by (simp add: update_conv')

lemma map_of_update_other [alist_simps]: "k' \<noteq> k \<Longrightarrow> map_of (AList.update k v xs) k' = map_of xs k'"
  by (simp add: update_conv')

lemma keys_update [alist_simps]: "fst ` set (AList.update k v xs) = insert k (fst ` set xs)"
  by (simp add: update_conv' flip: dom_map_of_conv_image_fst)

lemma distinct_keys_update [alist_simps]:
  "distinct (map fst xs) \<Longrightarrow> distinct (map fst (AList.update k v xs))"
  by (simp add: distinct_update)

text \<open>A loop \<open>for (k of ks) obj[k] = f(k)\<close> over an object.\<close>

lemma map_of_foldl_update [alist_simps]:
  "map_of (foldl (\<lambda>acc a. AList.update a (f a) acc) acc ks) k =
     (if k \<in> set ks then Some (f k) else map_of acc k)"
  by (induction ks arbitrary: acc) (auto simp: update_conv')

lemma distinct_foldl_update [alist_simps]:
  "distinct (map fst acc) \<Longrightarrow> distinct (map fst (foldl (\<lambda>acc a. AList.update a (f a) acc) acc ks))"
  by (induction ks arbitrary: acc) (auto simp: distinct_update)

lemma keys_foldl_update [alist_simps]:
  "fst ` set (foldl (\<lambda>acc a. AList.update a (f a) acc) acc ks) = fst ` set acc \<union> set ks"
proof -
  have "dom (map_of (foldl (\<lambda>acc a. AList.update a (f a) acc) acc ks)) = dom (map_of acc) \<union> set ks"
    by (auto simp: map_of_foldl_update split: if_splits)
  then show ?thesis by (simp add: dom_map_of_conv_image_fst)
qed

subsection \<open>Lists, folds and sorting\<close>

lemma foldl_foldl_concat: "foldl (\<lambda>st e. foldl f st (g e)) st es = foldl f st (concat (map g es))"
  by (induction es arbitrary: st) simp_all

lemma insort_key_map: "insort_key f (h x) (map h xs) = map h (insort_key (f \<circ> h) x xs)"
  by (induction xs) auto

lemma sort_key_map: "sort_key f (map h xs) = map h (sort_key (f \<circ> h) xs)"
  by (induction xs) (simp_all add: insort_key_map comp_def)

lemma Min_insert_min: "finite A \<Longrightarrow> Min (insert (min a b) A) = Min (insert a (insert b A :: real set))"
  by (cases "A = {}") (simp_all add: min.assoc)

lemma Max_insert_max: "finite A \<Longrightarrow> Max (insert (max a b) A) = Max (insert a (insert b A :: real set))"
  by (cases "A = {}") (simp_all add: max.assoc)

lemma update_append_fresh:
  "map_of xs k = None \<Longrightarrow> AList.update k v (xs @ [(k, w)]) = xs @ [(k, v)]"
  by (induction xs) (auto split: if_splits)

end
