(* ===== verification/Types.thy ===== *)
theory Types
  imports Prelude
begin

text \<open>
  The data model of \<open>src/streetweave/src/types/index.ts\<close>: coordinates
  (\<open>SegmentData\<close>), directed edges (\<open>PhysicalEdge\<close>), thematic points, the result of
  aggregation (\<open>AggregatedEdges\<close>), and the parsed layer specification
  (\<open>UnitType\<close>, \<open>ParsedSpec\<close>).  Optional fields of the TypeScript types are
  \<open>option\<close>s; string enumerations are datatypes with one constructor per literal; a
  style channel, typed \<open>string | number | undefined\<close>, is a \<open>style_name\<close>.
\<close>

record latlon =
  lat :: real
  lon :: real

record edge =
  point0 :: latlon
  point1 :: latlon
  bearing :: real
  edge_length :: real   \<comment> \<open>the field \<open>length\<close>\<close>
  attributes :: "attrs option"   \<comment> \<open>\<open>undefined\<close> before aggregation\<close>

text \<open>
  A cell of a thematic row, as \<open>d3.autoType\<close> produces it: a number, a string, a
  boolean or \<open>null\<close> (dates are not modelled).
\<close>

datatype cell = CNum real | CStr string | CBool bool | CNull

text \<open>
  A thematic point is the whole row object the loader keeps: its own keys in
  insertion order (the CSV columns, then \<open>lat\<close>/\<open>lon\<close> when those are new keys),
  together with the parsed coordinates it was accepted with.
\<close>

record tpoint =
  tlat :: real
  tlon :: real
  trow :: "(string \<times> cell) list"

record aggregated =
  edges :: "edge list"
  attributeStats :: stats

record thematic_data =
  tdata :: "tpoint list"
  tstats :: stats

datatype aggregation_type = AggSum | AggMean | AggMin | AggMax
datatype spatial_relation = Buffer | NN | Contains
datatype unit_kind = USegment | UNode
datatype draw_method = Line | Rect | Matrix
datatype orientation = Parallel | Perpendicular | Fixed
datatype alignment = Left | Center | Right

datatype style_name = SNum real | SStr string | SUndef
  \<comment> \<open>a style channel of the spec: a literal number, a string (hex colour literal or
      attribute name), or absent\<close>

record unit_spec =
  utype :: unit_kind
  density :: style_name
  umethod :: "draw_method option"
  opacity :: style_name
  color :: style_name
  squiggle :: "string option"
  dash :: "string option"
  width :: style_name
  height :: style_name
  chart :: "string option"   \<comment> \<open>the opaque chart template, as its JSON text\<close>
  rows :: "nat option"
  columns :: "nat option"
  orientation :: "orientation option"
  alignment :: "alignment option"

record relation_spec =
  spatial :: "spatial_relation option"
  rvalue :: "real option"
  rtype :: "aggregation_type option"

record layer_spec =
  layer_unit :: unit_spec
  physical_path :: string
  thematic_path :: string
  latColumn :: string
  lonColumn :: string
  relation :: "relation_spec option"
  zoom :: "(real \<times> real) option"

end
