(* ===== verification/Geometry.thy ===== *)
theory Geometry
  imports Types
begin

text \<open>
  Geometry primitives: \<open>calculateMidpoint\<close>, \<open>getCardinalDirection\<close> and
  \<open>offsetPoint\<close> of \<open>src/editor/src/utils/geoHelpers.ts\<close>; the two bearing folds
  that the renderers apply to an edge before drawing (the line convention of
  \<open>buildD3Instructions\<close> in \<open>d3Helpers.ts\<close> and the chart convention of
  \<open>drawVegaLiteEdges\<close> in \<open>vegaliteHelpers.ts\<close>); and the zoom-dependent
  \<open>getOffsetDistance\<close> and \<open>getAdjustedLineWidth\<close> of \<open>mapHelpers.ts\<close>, with the
  map's current zoom level as their argument.
\<close>

definition calculateMidpoint :: "latlon \<Rightarrow> latlon \<Rightarrow> latlon" where
  "calculateMidpoint c1 c2 = \<lparr>lat = (lat c1 + lat c2) / 2, lon = (lon c1 + lon c2) / 2\<rparr>"

definition directions :: "string list" where
  "directions = [''north'', ''northeast'', ''east'', ''southeast'', ''south'', ''southwest'',
                 ''west'', ''northwest'']"

definition getCardinalDirection :: "real \<Rightarrow> string option" where
  \<comment> \<open>\<open>directions[index]\<close> is \<open>undefined\<close> (\<open>None\<close>) when \<open>index\<close> is negative\<close>
  "getCardinalDirection b =
     (let index = js_rem (of_int \<lfloor>(b + 45 / 2) / 45\<rfloor>) 8
      in if 0 \<le> index \<and> index < 8 then Some (directions ! nat \<lfloor>index\<rfloor>) else None)"

definition offsetPoint :: "real \<Rightarrow> real \<Rightarrow> real \<Rightarrow> real \<Rightarrow> real \<times> real" where
  "offsetPoint la lo brg distance =
     (let R = 6378137; toRad = pi / 180; toDeg = 180 / pi;
          lat1 = la * toRad; lon1 = lo * toRad; brng = brg * toRad; dR = distance / R;
          lat2 = arcsin (sin lat1 * cos dR + cos lat1 * sin dR * cos brng);
          lon2 = lon1 + atan2 (sin brng * sin dR * cos lat1) (cos dR - sin lat1 * sin lat2)
      in (lat2 * toDeg, lon2 * toDeg))"

subsection \<open>The two bearing folds\<close>

definition normBearing :: "real \<Rightarrow> real" where
  "normBearing b = js_rem (js_rem b 360 + 360) 360"

definition swapEnds :: "edge \<Rightarrow> edge" where
  "swapEnds e = e\<lparr>point0 := point1 e, point1 := point0 e\<rparr>"

definition normalizeEdgeLine :: "edge \<Rightarrow> edge" where
  \<comment> \<open>\<open>buildD3Instructions\<close>: swap the ends when the bearing is at least 180\<close>
  "normalizeEdgeLine e =
     (let b = normBearing (bearing e)
      in if 180 \<le> b then (swapEnds e)\<lparr>bearing := b - 180\<rparr> else e\<lparr>bearing := b\<rparr>)"

definition normalizeEdgeChart :: "edge \<Rightarrow> edge" where
  \<comment> \<open>\<open>drawVegaLiteEdges\<close>: swap the ends when the bearing is below 180\<close>
  "normalizeEdgeChart e =
     (let b = normBearing (bearing e)
      in if b < 180 then (swapEnds e)\<lparr>bearing := js_rem (b - 180 + 360) 360\<rparr>
         else e\<lparr>bearing := b\<rparr>)"

subsection \<open>Zoom-dependent sizes\<close>

definition getAdjustedLineWidth :: "real \<Rightarrow> real \<Rightarrow> real" where
  "getAdjustedLineWidth z baseWidth =
     (if z \<le> 12 then baseWidth * 0.5
      else if 12 < z \<and> z \<le> 14 then baseWidth
      else if 14 < z \<and> z \<le> 16 then baseWidth * 1.2
      else if 16 < z \<and> z \<le> 17 then baseWidth * 1.5
      else if 17 < z \<and> z \<le> 18 then baseWidth * 2
      else baseWidth * 3)"

definition getOffsetDistance :: "real \<Rightarrow> real" where
  "getOffsetDistance z =
     (if 18 \<le> z then 6 else if z \<le> 16 then 15 else ((18 - z) / (18 - 16)) * 15)"

subsection \<open>Lemmas\<close>

lemma normBearing_range: "0 \<le> normBearing b \<and> normBearing b < 360"
proof -
  have "- 360 < js_rem b 360" by (rule js_rem_gt_neg) simp
  then have "0 \<le> js_rem b 360 + 360" by simp
  then show ?thesis unfolding normBearing_def by (rule js_rem_range_nonneg [rotated]) simp
qed

lemma normBearing_id: "0 \<le> b \<Longrightarrow> b < 360 \<Longrightarrow> normBearing b = b"
proof -
  assume b: "0 \<le> b" "b < 360"
  then have "js_rem b 360 = b" by (rule js_rem_id)
  moreover have "js_rem (b + 360) 360 = b"
  proof -
    from b have "\<lfloor>(b + 360) / 360\<rfloor> = 1" by (simp add: floor_eq_iff field_simps)
    with b show ?thesis by (simp add: js_rem_def)
  qed
  ultimately show ?thesis by (simp add: normBearing_def)
qed

lemma normBearing_idem [simp]: "normBearing (normBearing b) = normBearing b"
  using normBearing_range normBearing_id by blast

lemma swapEnds_swapEnds [simp]: "swapEnds (swapEnds e) = e"
  by (simp add: swapEnds_def)

lemma swapEnds_simps [simp]:
  "point0 (swapEnds e) = point1 e" "point1 (swapEnds e) = point0 e"
  "bearing (swapEnds e) = bearing e" "edge_length (swapEnds e) = edge_length e"
  "attributes (swapEnds e) = attributes e"
  by (simp_all add: swapEnds_def)

lemma swapEnds_bearing_update [simp]:
  "swapEnds (e\<lparr>bearing := b\<rparr>) = (swapEnds e)\<lparr>bearing := b\<rparr>"
  by (simp add: swapEnds_def)

lemma normalizeEdgeLine_cases:
  "normalizeEdgeLine e =
     (if 180 \<le> normBearing (bearing e)
      then (swapEnds e)\<lparr>bearing := normBearing (bearing e) - 180\<rparr>
      else e\<lparr>bearing := normBearing (bearing e)\<rparr>)"
  by (simp add: normalizeEdgeLine_def Let_def)

lemma normalizeEdgeChart_cases:
  "normalizeEdgeChart e =
     (if normBearing (bearing e) < 180
      then (swapEnds e)\<lparr>bearing := normBearing (bearing e) + 180\<rparr>
      else e\<lparr>bearing := normBearing (bearing e)\<rparr>)"
proof -
  let ?b = "normBearing (bearing e)"
  have "js_rem (?b - 180 + 360) 360 = ?b + 180" if "?b < 180"
  proof -
    have "?b - 180 + 360 = ?b + 180" by simp
    with that normBearing_range [of "bearing e"] show ?thesis by (simp add: js_rem_id)
  qed
  then show ?thesis by (simp add: normalizeEdgeChart_def Let_def)
qed

lemmas bearing_fold_simps = normalizeEdgeLine_cases normalizeEdgeChart_cases normBearing_range

lemma cauchy_schwarz2:
  fixes x y u v :: real
  shows "(x * u + y * v)\<^sup>2 \<le> (x\<^sup>2 + y\<^sup>2) * (u\<^sup>2 + v\<^sup>2)"
proof -
  have "(x\<^sup>2 + y\<^sup>2) * (u\<^sup>2 + v\<^sup>2) - (x * u + y * v)\<^sup>2 = (x * v - y * u)\<^sup>2"
    by (simp add: power2_eq_square algebra_simps)
  then show ?thesis by (metis diff_ge_0_iff_ge zero_le_power2)
qed

lemma unit_sphere_arg_bound:
  "\<bar>sin a * cos r + cos a * sin r * cos t\<bar> \<le> (1::real)"
proof -
  let ?x = "sin a" and ?y = "cos a" and ?u = "cos r" and ?v = "sin r * cos t"
  have cs: "(?x * ?u + ?y * ?v)\<^sup>2 \<le> (?x\<^sup>2 + ?y\<^sup>2) * (?u\<^sup>2 + ?v\<^sup>2)"
    by (rule cauchy_schwarz2)
  have "(cos t)\<^sup>2 \<le> 1" using abs_cos_le_one [of t] by (simp add: abs_square_le_1)
  then have "(sin r)\<^sup>2 * (cos t)\<^sup>2 \<le> (sin r)\<^sup>2" by (simp add: mult_left_le)
  then have "?v\<^sup>2 \<le> (sin r)\<^sup>2" by (simp add: power_mult_distrib)
  then have "?u\<^sup>2 + ?v\<^sup>2 \<le> 1" using sin_cos_squared_add [of r] by linarith
  with cs have "(?x * ?u + ?y * ?v)\<^sup>2 \<le> 1" by (simp add: sin_cos_squared_add)
  then show ?thesis by (simp add: abs_square_le_1 mult.assoc)
qed

subsection \<open>Properties\<close>

text \<open>Before drawing, the line renderer folds every edge bearing into [0, 180); the edge is either kept as it is or has its two end points swapped, and only its bearing field changes otherwise.\<close>

lemma normalizeEdgeLine_range:
  "0 \<le> bearing (normalizeEdgeLine e) \<and> bearing (normalizeEdgeLine e) < 180 \<and>
   (normalizeEdgeLine e = e\<lparr>bearing := bearing (normalizeEdgeLine e)\<rparr> \<or>
    normalizeEdgeLine e = (swapEnds e)\<lparr>bearing := bearing (normalizeEdgeLine e)\<rparr>)"
  using normBearing_range [of "bearing e"] by (auto simp: normalizeEdgeLine_cases)

text \<open>The line-renderer fold is idempotent: the redraw on every pan or zoom, which folds the same (already mutated) edges again, leaves them unchanged.\<close>

lemma normalizeEdgeLine_idem: "normalizeEdgeLine (normalizeEdgeLine e) = normalizeEdgeLine e"
  using normBearing_range [of "bearing e"]
  by (auto simp: normalizeEdgeLine_cases normBearing_id)

text \<open>The two bearing conventions undo each other: folding by the chart convention and then by the line convention gives the line convention result, and conversely.\<close>

lemma bearing_folds_roundtrip:
  "normalizeEdgeLine (normalizeEdgeChart e) = normalizeEdgeLine e \<and>
   normalizeEdgeChart (normalizeEdgeLine e) = normalizeEdgeChart e"
  using normBearing_range [of "bearing e"]
  by (auto simp: normalizeEdgeLine_cases normalizeEdgeChart_cases normBearing_id)

text \<open>Offsetting a point of valid latitude by distance 0 returns the point itself, for every bearing.\<close>

lemma offsetPoint_zero_distance:
  assumes "\<bar>la\<bar> \<le> 90"
  shows "offsetPoint la lo brg 0 = (la, lo)"
proof -
  let ?lat1 = "la * (pi / 180)"
  have "pi * (- 90) \<le> pi * la" "pi * la \<le> pi * 90"
    using assms pi_gt_zero by (intro mult_left_mono; simp add: abs_le_iff)+
  then have "- (pi / 2) \<le> ?lat1" "?lat1 \<le> pi / 2" by (simp_all add: mult.commute)
  then have lat: "arcsin (sin ?lat1) = ?lat1" by (rule arcsin_sin)
  have "1 - sin ?lat1 * sin ?lat1 = cos ?lat1 * cos ?lat1"
    using sin_cos_squared_add [of ?lat1] by (simp add: power2_eq_square algebra_simps)
  then have "0 \<le> 1 - sin ?lat1 * sin ?lat1" by simp
  then show ?thesis using lat by (simp add: offsetPoint_def Let_def atan2_zero_nonneg)
qed

text \<open>The latitude offsetPoint returns always lies in [-90, 90]: the argument of asin never leaves [-1, 1].\<close>

lemma offsetPoint_lat_bounded:
  "- 90 \<le> fst (offsetPoint la lo brg d) \<and> fst (offsetPoint la lo brg d) \<le> 90"
proof -
  let ?A = "sin (la * (pi / 180)) * cos (d / 6378137) + cos (la * (pi / 180)) * sin (d / 6378137) * cos (brg * (pi / 180))"
  have "\<bar>?A\<bar> \<le> 1" by (rule unit_sphere_arg_bound)
  then have "- (pi / 2) \<le> arcsin ?A \<and> arcsin ?A \<le> pi / 2"
    by (intro arcsin_bounded) (simp_all add: abs_le_iff)
  then have "- 90 \<le> arcsin ?A * (180 / pi) \<and> arcsin ?A * (180 / pi) \<le> 90"
    using pi_gt_zero by (auto simp: field_simps)
  then show ?thesis by (simp add: offsetPoint_def Let_def)
qed

text \<open>For a non-negative bearing, getCardinalDirection returns the sector with index floor((b + 22.5) / 45) mod 8.\<close>

lemma getCardinalDirection_nonneg:
  assumes "0 \<le> b"
  shows "getCardinalDirection b = Some (directions ! nat (\<lfloor>(b + 45 / 2) / 45\<rfloor> mod 8))"
proof -
  let ?k = "\<lfloor>(b + 45 / 2) / 45\<rfloor>"
  from assms have "0 \<le> ?k" by simp
  then have "js_rem (of_int ?k) 8 = of_int (?k mod 8)"
    by (simp add: js_rem_def floor_divide_of_int_eq [of ?k 8, simplified] minus_div_mult_eq_mod [symmetric])
  then show ?thesis by (simp add: getCardinalDirection_def Let_def)
qed


text \<open>The zoom-dependent parallel offset is always positive and at most 15.\<close>

lemma getOffsetDistance_bounds: "0 < getOffsetDistance z \<and> getOffsetDistance z \<le> 15"
  by (simp add: getOffsetDistance_def)

text \<open>Between zoom 17.6 and 18 the interpolated offset is below 6 (it falls from 15 towards 0 and jumps back to 6 at zoom 18).\<close>

lemma getOffsetDistance_below_near_18:
  assumes "88 / 5 < z" and "z < 18"
  shows "getOffsetDistance z < 6"
  using assms by (simp add: getOffsetDistance_def)

text \<open>For a non-negative base width, the zoom-adjusted stroke width never decreases as the zoom level grows.\<close>

lemma getAdjustedLineWidth_mono:
  assumes "z1 \<le> z2" and "0 \<le> w"
  shows "getAdjustedLineWidth z1 w \<le> getAdjustedLineWidth z2 w"
  using assms by (simp add: getAdjustedLineWidth_def)

lemma offsetPoint_zero_distance_witness:
  "\<bar>45 :: real\<bar> \<le> 90 \<and> offsetPoint 45 10 30 0 = (45, 10)"
  using offsetPoint_zero_distance [of 45 10 30] by simp

lemma getCardinalDirection_nonneg_witness:
  "0 \<le> (100 :: real) \<and> getCardinalDirection 100 = Some ''east''"
proof -
  have "\<lfloor>(100 + 45 / 2) / 45 :: real\<rfloor> = 2" by (simp add: floor_eq_iff)
  then show ?thesis using getCardinalDirection_nonneg [of 100] by (simp add: directions_def)
qed

lemma getOffsetDistance_below_near_18_witness:
  "88 / 5 < (179 / 10 :: real) \<and> (179 / 10 :: real) < 18 \<and> getOffsetDistance (179 / 10) < 6"
  using getOffsetDistance_below_near_18 [of "179 / 10"] by simp

lemma getAdjustedLineWidth_mono_witness:
  "(13 :: real) \<le> 17 \<and> (0 :: real) \<le> 2 \<and> getAdjustedLineWidth 13 2 \<le> getAdjustedLineWidth 17 2"
  using getAdjustedLineWidth_mono [of 13 17 2] by simp

end
