(* ===== verification/Turf.thy ===== *)
theory Turf
  imports Types
begin

text \<open>
  The interface to the geometry library (\<open>@turf/turf\<close>) the code calls.  Turf is a
  third-party library, not code of the repository: the aggregation and loading code
  is stated over any \<open>geo_lib\<close>, a record of the library functions it uses, with
  their GeoJSON argument order (\<open>[x, y]\<close> positions, which the code means to be
  \<open>[lon, lat]\<close>).  A buffer is given as its point-in-polygon test (the
  \<open>turf.buffer\<close> result composed with \<open>turf.booleanPointInPolygon\<close>), and \<open>None\<close>
  when turf returns no polygon.  \<open>taxicab_lib\<close> is one concrete instance, on a flat
  Earth with 111320 metres per degree and L1 distances, used only to evaluate
  witnesses at concrete inputs.
\<close>

record geo_lib =
  turf_bearing :: "pos \<Rightarrow> pos \<Rightarrow> real"        \<comment> \<open>\<open>turf.bearing(start, end)\<close>, degrees\<close>
  turf_length :: "pos \<Rightarrow> pos \<Rightarrow> real"         \<comment> \<open>\<open>turf.length(lineString([a, b]), meters)\<close>\<close>
  turf_distance :: "pos \<Rightarrow> pos \<Rightarrow> real"       \<comment> \<open>\<open>turf.distance(a, b, kilometers)\<close>\<close>
  line_buffer :: "pos \<Rightarrow> pos \<Rightarrow> real \<Rightarrow> (pos \<Rightarrow> bool) option"
    \<comment> \<open>\<open>turf.buffer(lineString([a, b]), w, meters)\<close>, as a membership test\<close>
  point_buffer :: "pos \<Rightarrow> real option \<Rightarrow> (pos \<Rightarrow> bool) option"
    \<comment> \<open>\<open>turf.buffer(point(c), r, meters)\<close>; \<open>None\<close> when not a (multi)polygon\<close>

definition deg_m :: real where
  "deg_m = 111320"

definition taxicab_lib :: geo_lib where
  "taxicab_lib =
     \<lparr>turf_bearing = (\<lambda>_ _. 0),
      turf_length = (\<lambda>(x0, y0) (x1, y1). (\<bar>x1 - x0\<bar> + \<bar>y1 - y0\<bar>) * deg_m),
      turf_distance = (\<lambda>(x0, y0) (x1, y1). (\<bar>x1 - x0\<bar> + \<bar>y1 - y0\<bar>) * deg_m / 1000),
      line_buffer = (\<lambda>(x0, y0) (x1, y1) w. Some (\<lambda>(x, y).
          min x0 x1 - w / deg_m \<le> x \<and> x \<le> max x0 x1 + w / deg_m \<and>
          min y0 y1 - w / deg_m \<le> y \<and> y \<le> max y0 y1 + w / deg_m)),
      point_buffer = (\<lambda>(cx, cy) r. case r of None \<Rightarrow> None
          | Some d \<Rightarrow> Some (\<lambda>(x, y). (\<bar>x - cx\<bar> + \<bar>y - cy\<bar>) * deg_m \<le> d))\<rparr>"

end
