(* ===== verification/Aggregation.thy ===== *)
theory Aggregation
  imports Geometry Turf "HOL-Library.Multiset"
begin

text \<open>
  The spatial aggregation engine of \<open>src/editor/src/utils/aggregation.ts\<close> and the
  nearest-neighbour helpers of \<open>geoHelpers.ts\<close>.  The d3 reductions the code calls
  (\<open>d3.sum\<close>, \<open>d3.mean\<close>, \<open>d3.min\<close>, \<open>d3.max\<close>) are written out with d3's
  loops.  The three joins take the turf interface \<open>geo_lib\<close>; every join returns a
  new edge list where the code assigns \<open>edge.attributes\<close> in place (no edge object
  is shared between two list positions, so the in-place update and the copy agree).
  Statistics tables are association lists in first-seen key order, as the
  JavaScript object \<open>attributeStats\<close> is.
\<close>

subsection \<open>Reducing the selected points\<close>

fun cell_number :: "cell option \<Rightarrow> real list" where
  \<comment> \<open>\<open>typeof val === 'number'\<close>\<close>
  "cell_number (Some (CNum v)) = [v]"
| "cell_number _ = []"

definition numericValues :: "tpoint list \<Rightarrow> string \<Rightarrow> real list" where
  \<comment> \<open>\<open>points.map(point => point[attr]).filter(val => typeof val === 'number')\<close>\<close>
  "numericValues pts a = concat (map (\<lambda>p. cell_number (map_of (trow p) a)) pts)"

definition d3_sum :: "real list \<Rightarrow> real" where
  "d3_sum vs = foldl (+) 0 vs"

definition d3_mean :: "real list \<Rightarrow> real option" where
  "d3_mean vs = (if vs = [] then None else Some (d3_sum vs / real (List.length vs)))"

fun d3_min :: "real list \<Rightarrow> real option" where
  "d3_min [] = None"
| "d3_min (v # vs) = Some (foldl (\<lambda>m x. if m > x then x else m) v vs)"

fun d3_max :: "real list \<Rightarrow> real option" where
  "d3_max [] = None"
| "d3_max (v # vs) = Some (foldl (\<lambda>m x. if m < x then x else m) v vs)"

definition aggregateValue :: "aggregation_type option \<Rightarrow> real list \<Rightarrow> real" where
  \<comment> \<open>the \<open>switch\<close> and the final \<open>if (!value) value = 0\<close> of \<open>aggregateValues\<close>\<close>
  "aggregateValue t values =
     (let value = (case t of
          Some AggSum \<Rightarrow> Some (d3_sum values)
        | Some AggMean \<Rightarrow> (if values \<noteq> [] then d3_mean values else Some 0)
        | Some AggMin \<Rightarrow> (if values \<noteq> [] then d3_min values else Some 0)
        | Some AggMax \<Rightarrow> (if values \<noteq> [] then d3_max values else Some 0)
        | None \<Rightarrow> Some 0)
      in case value of None \<Rightarrow> 0 | Some v \<Rightarrow> v)"

definition attributeKeys :: "tpoint list \<Rightarrow> string list" where
  \<comment> \<open>\<open>Object.keys(thematicData[0]).filter(k => k !== 'lat' && k !== 'lon')\<close>\<close>
  "attributeKeys td =
     (case td of [] \<Rightarrow> [] | p # _ \<Rightarrow> filter (\<lambda>k. k \<noteq> ''lat'' \<and> k \<noteq> ''lon'') (map fst (trow p)))"

definition aggregateValues :: "tpoint list \<Rightarrow> aggregation_type option \<Rightarrow> tpoint list \<Rightarrow> attrs" where
  "aggregateValues points t td =
     foldl (\<lambda>acc a. AList.update a (aggregateValue t (numericValues points a)) acc) []
       (attributeKeys td)"

subsection \<open>The three spatial joins\<close>

definition tpos :: "tpoint \<Rightarrow> pos" where
  \<comment> \<open>\<open>turf.point([point.lon, point.lat])\<close>\<close>
  "tpos p = (tlon p, tlat p)"

definition aggregationContainsSegment ::
  "geo_lib \<Rightarrow> edge list \<Rightarrow> tpoint list \<Rightarrow> aggregation_type option \<Rightarrow> edge list" where
  "aggregationContainsSegment g es td t = map (\<lambda>e.
     (let pointA = (lat (point0 e), lon (point0 e));
          pointB = (lat (point1 e), lon (point1 e))
      in case line_buffer g pointA pointB 5000 of
           None \<Rightarrow> \<lparr>point0 = point0 e, point1 = point1 e, bearing = 0, edge_length = 0,
                    attributes = Some []\<rparr>
         | Some inside \<Rightarrow>
             e\<lparr>attributes := Some (aggregateValues (filter (\<lambda>p. inside (tpos p)) td) t td)\<rparr>)) es"

definition calculateDistance :: "geo_lib \<Rightarrow> pos \<Rightarrow> pos \<Rightarrow> real" where
  \<comment> \<open>\<open>turf.distance(point1, point2, {units: 'kilometers'})\<close>\<close>
  "calculateDistance g p1 p2 = turf_distance g p1 p2"

definition calculateDistances :: "geo_lib \<Rightarrow> pos \<Rightarrow> tpoint list \<Rightarrow> (nat \<times> real) list" where
  "calculateDistances g c td = map (\<lambda>(i, p). (i, calculateDistance g c (tpos p))) (enumerate 0 td)"

definition findClosestPoints :: "(nat \<times> real) list \<Rightarrow> tpoint list \<Rightarrow> nat \<Rightarrow> tpoint list" where
  \<comment> \<open>a stable ascending sort by distance (ECMAScript's \<open>Array.prototype.sort\<close> is
      stable), then \<open>slice(0, n)\<close>\<close>
  "findClosestPoints distances td n = map (\<lambda>d. td ! fst d) (take n (sort_key snd distances))"

definition aggregateSegmentNearestNeighbor ::
  "geo_lib \<Rightarrow> edge list \<Rightarrow> tpoint list \<Rightarrow> aggregation_type option \<Rightarrow> edge list" where
  "aggregateSegmentNearestNeighbor g es td t = map (\<lambda>e.
     (let mid = calculateMidpoint (point0 e) (point1 e);
          centroid = (lon mid, lat mid);
          closest = findClosestPoints (calculateDistances g centroid td) td 100
      in e\<lparr>attributes := Some (aggregateValues closest t td)\<rparr>)) es"

definition createBuffer :: "geo_lib \<Rightarrow> pos \<Rightarrow> real option \<Rightarrow> (pos \<Rightarrow> bool) option" where
  \<comment> \<open>\<open>turf.buffer(point, bufferDistance, meters)\<close>, \<open>null\<close> unless a (multi)polygon\<close>
  "createBuffer g point bufferDistance = point_buffer g point bufferDistance"

definition filterPointsInBuffer :: "(pos \<Rightarrow> bool) \<Rightarrow> tpoint list \<Rightarrow> tpoint list" where
  \<comment> \<open>\<open>points.filter(p => turf.booleanPointInPolygon(turf.point([p.lon, p.lat]), buffer))\<close>\<close>
  "filterPointsInBuffer buffer points = filter (\<lambda>p. buffer (tpos p)) points"

definition aggregateSegmentBuffer ::
  "geo_lib \<Rightarrow> edge list \<Rightarrow> tpoint list \<Rightarrow> real option \<Rightarrow> aggregation_type option \<Rightarrow> edge list" where
  "aggregateSegmentBuffer g es td d t = map (\<lambda>e.
     (let mid = calculateMidpoint (point0 e) (point1 e)
      in case createBuffer g (lon mid, lat mid) d of
           None \<Rightarrow> \<lparr>point0 = point0 e, point1 = point1 e, bearing = 0, edge_length = 0,
                    attributes = None\<rparr>
         | Some buffer \<Rightarrow>
             e\<lparr>attributes := Some (aggregateValues (filterPointsInBuffer buffer td) t td)\<rparr>)) es"

declare calculateDistance_def [simp] createBuffer_def [simp] filterPointsInBuffer_def [simp]

subsection \<open>The statistics table and \<open>applySpatialAggregation\<close>\<close>

fun statsAddValue :: "stats \<Rightarrow> string \<times> real \<Rightarrow> stats" where
  \<comment> \<open>a missing key starts at \<open>{min: Infinity, max: -Infinity}\<close>, which the first value
      overwrites on both sides\<close>
  "statsAddValue st (k, v) =
     (case map_of st k of
        None \<Rightarrow> AList.update k (v, v) st
      | Some (mn, mx) \<Rightarrow> AList.update k (if v < mn then v else mn, if v > mx then v else mx) st)"

definition edgeAttrs :: "edge \<Rightarrow> attrs" where
  \<comment> \<open>\<open>for (const key in edge.attributes)\<close>: no iteration over \<open>undefined\<close>\<close>
  "edgeAttrs e = (case attributes e of None \<Rightarrow> [] | Some a \<Rightarrow> a)"

definition edgeStats :: "edge list \<Rightarrow> stats" where
  "edgeStats es = foldl (\<lambda>st e. foldl statsAddValue st (edgeAttrs e)) [] es"

definition applySpatialAggregation ::
  "geo_lib \<Rightarrow> edge list \<Rightarrow> tpoint list \<Rightarrow> layer_spec \<Rightarrow> aggregated" where
  "applySpatialAggregation g physicalData td spec =
     (if utype (layer_unit spec) = USegment \<or> utype (layer_unit spec) = UNode then
        (let rel = relation spec;
             t = (case rel of None \<Rightarrow> None | Some r \<Rightarrow> rtype r);
             joined = (case rel of None \<Rightarrow> None | Some r \<Rightarrow>
                (case spatial r of
                   Some Contains \<Rightarrow> Some (aggregationContainsSegment g physicalData td t)
                 | Some NN \<Rightarrow> Some (aggregateSegmentNearestNeighbor g physicalData td t)
                 | Some Buffer \<Rightarrow> Some (aggregateSegmentBuffer g physicalData td (rvalue r) t)
                 | None \<Rightarrow> None))
         in case joined of
              None \<Rightarrow> \<lparr>edges = physicalData, attributeStats = []\<rparr>
            | Some es \<Rightarrow> \<lparr>edges = es, attributeStats = edgeStats es\<rparr>)
      else \<lparr>edges = physicalData, attributeStats = []\<rparr>)"

subsection \<open>Node reduction\<close>

record node_acc =
  acc_lat :: real
  acc_lon :: real
  acc_sums :: attrs
  acc_count :: nat

record node =
  node_lat :: real
  node_lon :: real
  node_attributes :: attrs

definition addSums :: "attrs \<Rightarrow> attrs \<Rightarrow> attrs" where
  \<comment> \<open>\<open>if (!sums[k]) sums[k] = 0; sums[k] += v\<close> for every entry of the edge\<close>
  "addSums s a = foldl (\<lambda>s (k, v). AList.update k ((case map_of s k of None \<Rightarrow> 0 | Some x \<Rightarrow> x) + v) s) s a"

definition nodeKey :: "latlon \<Rightarrow> real \<times> real" where
  \<comment> \<open>the string key \<open>`${lat},${lon}`\<close>; number-to-string conversion is injective on
      the values modelled here\<close>
  "nodeKey p = (lat p, lon p)"

definition visitNode ::
  "attrs option \<Rightarrow> ((real \<times> real) \<times> node_acc) list \<Rightarrow> latlon \<Rightarrow> ((real \<times> real) \<times> node_acc) list" where
  "visitNode aa nm p =
     (let key = nodeKey p;
          acc = (case map_of nm key of
                   None \<Rightarrow> \<lparr>acc_lat = lat p, acc_lon = lon p, acc_sums = [], acc_count = 0\<rparr>
                 | Some n \<Rightarrow> n);
          acc' = acc\<lparr>acc_sums := addSums (acc_sums acc) (case aa of None \<Rightarrow> [] | Some a \<Rightarrow> a),
                     acc_count := acc_count acc + 1\<rparr>
      in AList.update key acc' nm)"

definition nodesMap :: "edge list \<Rightarrow> ((real \<times> real) \<times> node_acc) list" where
  "nodesMap es = foldl (\<lambda>nm e. foldl (visitNode (attributes e)) nm [point0 e, point1 e]) [] es"

definition processEdgesToNodes :: "edge list \<Rightarrow> node list" where
  "processEdgesToNodes es =
     map (\<lambda>(_, n). \<lparr>node_lat = acc_lat n, node_lon = acc_lon n,
                     node_attributes = map (\<lambda>(k, s). (k, s / real (acc_count n))) (acc_sums n)\<rparr>)
       (nodesMap es)"

subsection \<open>Reference definitions for the properties\<close>

definition valuesOf :: "string \<Rightarrow> attrs \<Rightarrow> real list" where
  "valuesOf k kvs = map snd (filter (\<lambda>kv. fst kv = k) kvs)"

definition optAttrs :: "attrs option \<Rightarrow> attrs" where
  "optAttrs aa = (case aa of None \<Rightarrow> [] | Some a \<Rightarrow> a)"

definition incidences :: "edge list \<Rightarrow> (attrs option \<times> latlon) list" where
  "incidences es = concat (map (\<lambda>e. [(attributes e, point0 e), (attributes e, point1 e)]) es)"

definition incidentAt :: "(attrs option \<times> latlon) list \<Rightarrow> real \<times> real \<Rightarrow> attrs list" where
  "incidentAt ips c = map (optAttrs \<circ> fst) (filter (\<lambda>ip. nodeKey (snd ip) = c) ips)"

definition endpointKeys :: "edge list \<Rightarrow> (real \<times> real) set" where
  "endpointKeys es = (\<Union>e \<in> set es. {nodeKey (point0 e), nodeKey (point1 e)})"

subsection \<open>Concrete inputs used by the witnesses\<close>

definition scenario_points :: "tpoint list" where
  "scenario_points =
     [\<lparr>tlat = 40.0004, tlon = -74, trow = [(''count'', CNum 3), (''lat'', CNum 40.0004), (''lon'', CNum (-74))]\<rparr>,
      \<lparr>tlat = 40.0005, tlon = -74, trow = [(''count'', CNum 7), (''lat'', CNum 40.0005), (''lon'', CNum (-74))]\<rparr>]"

definition scenario_edge :: edge where
  "scenario_edge = \<lparr>point0 = \<lparr>lat = 40, lon = -74\<rparr>, point1 = \<lparr>lat = 40.0009, lon = -74\<rparr>,
                     bearing = 0, edge_length = 100, attributes = None\<rparr>"

definition example_unit :: unit_spec where
  "example_unit = \<lparr>utype = USegment, density = SUndef, umethod = Some Line, opacity = SUndef,
     color = SUndef, squiggle = None, dash = None, width = SUndef, height = SUndef, chart = None,
     rows = None, columns = None, orientation = Some Parallel, alignment = Some Center\<rparr>"

definition example_relation :: "aggregation_type \<Rightarrow> relation_spec" where
  "example_relation t = \<lparr>spatial = Some Buffer, rvalue = Some 50, rtype = Some t\<rparr>"

definition example_spec :: "aggregation_type \<Rightarrow> layer_spec" where
  "example_spec t = \<lparr>layer_unit = example_unit, physical_path = ''streets.geojson'',
     thematic_path = ''sensors.csv'', latColumn = ''lat'', lonColumn = ''lon'',
     relation = Some (example_relation t), zoom = None\<rparr>"

subsection \<open>Lemmas\<close>

lemma foldl_plus_sum_list: "foldl (+) a xs = a + sum_list (xs :: real list)"
  by (induction xs arbitrary: a) (simp_all add: algebra_simps)

lemma d3_sum_eq [simp]: "d3_sum vs = sum_list vs"
  by (simp add: d3_sum_def foldl_plus_sum_list)

lemma foldl_min_eq: "foldl (\<lambda>m x. if m > x then x else m) v vs = Min (insert v (set (vs :: real list)))"
proof -
  have "(\<lambda>m x. if m > x then x else m) = (min :: real \<Rightarrow> real \<Rightarrow> real)"
    by (auto simp: fun_eq_iff min_def)
  then show ?thesis
    by (simp add: foldl_conv_fold Min.set_eq_fold [symmetric] min.commute)
qed

lemma foldl_max_eq: "foldl (\<lambda>m x. if m < x then x else m) v vs = Max (insert v (set (vs :: real list)))"
proof -
  have "(\<lambda>m x. if m < x then x else m) = (max :: real \<Rightarrow> real \<Rightarrow> real)"
    by (auto simp: fun_eq_iff max_def)
  then show ?thesis
    by (simp add: foldl_conv_fold Max.set_eq_fold [symmetric] max.commute)
qed

lemma d3_min_eq: "vs \<noteq> [] \<Longrightarrow> d3_min vs = Some (Min (set vs))"
  by (cases vs) (simp_all add: foldl_min_eq)

lemma d3_max_eq: "vs \<noteq> [] \<Longrightarrow> d3_max vs = Some (Max (set vs))"
  by (cases vs) (simp_all add: foldl_max_eq)

lemma aggregateValue_empty: "aggregateValue t [] = 0"
  by (cases t rule: option.exhaust) (simp_all add: aggregateValue_def split: aggregation_type.split)

lemma aggregateValue_sum: "aggregateValue (Some AggSum) vs = sum_list vs"
  by (simp add: aggregateValue_def)

lemma aggregateValue_nonempty:
  assumes "vs \<noteq> []"
  shows "aggregateValue (Some AggMean) vs = sum_list vs / real (List.length vs)"
    and "aggregateValue (Some AggMin) vs = Min (set vs)"
    and "aggregateValue (Some AggMax) vs = Max (set vs)"
  using assms by (simp_all add: aggregateValue_def d3_mean_def d3_min_eq d3_max_eq)

lemma map_of_aggregateValues:
  "map_of (aggregateValues pts t td) k =
     (if k \<in> set (attributeKeys td) then Some (aggregateValue t (numericValues pts k)) else None)"
  by (simp add: aggregateValues_def map_of_foldl_update)

lemma mean_between_min_max:
  assumes "vs \<noteq> []"
  shows "Min (set vs) \<le> sum_list vs / real (List.length vs) \<and> sum_list vs / real (List.length vs) \<le> Max (set vs)"
proof -
  have n: "0 < real (List.length vs)" using assms by simp
  have "sum_list (map (\<lambda>_. Min (set vs)) vs) \<le> sum_list vs"
    using sum_list_mono [of vs "\<lambda>_. Min (set vs)" id] by simp
  then have lo: "real (List.length vs) * Min (set vs) \<le> sum_list vs" by (simp add: sum_list_triv)
  have "sum_list vs \<le> sum_list (map (\<lambda>_. Max (set vs)) vs)"
    using sum_list_mono [of vs id "\<lambda>_. Max (set vs)"] by simp
  then have hi: "sum_list vs \<le> real (List.length vs) * Max (set vs)" by (simp add: sum_list_triv)
  from lo hi n show ?thesis by (simp add: field_simps)
qed

lemma findClosestPoints_eq:
  "findClosestPoints (calculateDistances g c td) td n =
     take n (sort_key (\<lambda>p. turf_distance g c (tpos p)) td)"
proof -
  let ?d = "\<lambda>p. turf_distance g c (tpos p)"
  let ?h = "\<lambda>y. (fst y, ?d (snd y))"
  let ?S = "sort_key (?d \<circ> snd) (enumerate 0 td)"
  have cd: "calculateDistances g c td = map ?h (enumerate 0 td)"
    by (simp add: calculateDistances_def case_prod_beta)
  have "sort_key snd (map ?h (enumerate 0 td)) = map ?h ?S"
    by (simp add: sort_key_map comp_def)
  then have "findClosestPoints (calculateDistances g c td) td n = map (\<lambda>y. td ! fst y) (take n ?S)"
    by (simp add: findClosestPoints_def cd take_map)
  also have "\<dots> = map snd (take n ?S)"
  proof (rule map_cong [OF refl])
    fix y assume "y \<in> set (take n ?S)"
    then have "y \<in> set (enumerate 0 td)" by (auto dest: in_set_takeD)
    then show "td ! fst y = snd y" by (simp add: in_set_enumerate_eq)
  qed
  also have "\<dots> = take n (map snd ?S)" by (simp add: take_map)
  also have "map snd ?S = sort_key ?d td"
    using sort_key_map [of ?d snd "enumerate 0 td"] by simp
  finally show ?thesis .
qed

lemma closest_selection:
  fixes d :: "'a \<Rightarrow> real" and n :: nat and xs :: "'a list"
  defines "sel \<equiv> take n (sort_key d xs)"
  shows "List.length sel = min n (List.length xs) \<and> mset sel \<subseteq># mset xs \<and>
         (\<forall>p \<in># mset sel. \<forall>q \<in># mset xs - mset sel. d p \<le> d q)"
proof -
  let ?s = "sort_key d xs"
  have split: "mset xs = mset sel + mset (drop n ?s)"
    unfolding sel_def by (metis append_take_drop_id mset_append mset_sort)
  have sorted: "sorted (map d (take n ?s) @ map d (drop n ?s))"
    by (metis append_take_drop_id map_append sorted_sort_key)
  have "\<forall>p \<in> set sel. \<forall>q \<in> set (drop n ?s). d p \<le> d q"
    using sorted unfolding sel_def by (auto simp: sorted_append)
  moreover have "mset xs - mset sel = mset (drop n ?s)" using split by simp
  ultimately show ?thesis using split by (simp add: sel_def)
qed

lemma valuesOf_simps [simp]:
  "valuesOf k [] = []"
  "valuesOf k ((k', v) # kvs) = (if k' = k then v # valuesOf k kvs else valuesOf k kvs)"
  by (simp_all add: valuesOf_def)

lemma statsAddValue_lookup:
  "map_of (statsAddValue st (k', v)) k =
     (if k = k' then Some (case map_of st k of None \<Rightarrow> (v, v) | Some (mn, mx) \<Rightarrow> (min v mn, max v mx))
      else map_of st k)"
  by (auto simp: update_conv' min_def max_def split: option.split)

lemma map_of_foldl_statsAddValue:
  "map_of (foldl statsAddValue st kvs) k =
     (case map_of st k of
        None \<Rightarrow> (if valuesOf k kvs = [] then None
                 else Some (Min (set (valuesOf k kvs)), Max (set (valuesOf k kvs))))
      | Some (mn, mx) \<Rightarrow> Some (Min (insert mn (set (valuesOf k kvs))), Max (insert mx (set (valuesOf k kvs)))))"
proof (induction kvs arbitrary: st)
  case Nil
  then show ?case by (simp split: option.split)
next
  case (Cons kv kvs)
  obtain k' v where kv: "kv = (k', v)" by fastforce
  let ?V = "set (valuesOf k kvs)"
  have IH: "map_of (foldl statsAddValue st (kv # kvs)) k =
      (case map_of (statsAddValue st (k', v)) k of
        None \<Rightarrow> (if valuesOf k kvs = [] then None else Some (Min ?V, Max ?V))
      | Some (mn, mx) \<Rightarrow> Some (Min (insert mn ?V), Max (insert mx ?V)))"
    using Cons.IH [of "statsAddValue st (k', v)"] by (simp add: kv)
  show ?case
  proof (cases "k' = k")
    case True
    show ?thesis
    proof (cases "map_of st k")
      case None
      with True IH show ?thesis by (simp add: kv statsAddValue_lookup del: statsAddValue.simps)
    next
      case (Some b)
      obtain mn mx where b: "b = (mn, mx)" by fastforce
      have "Min (insert (min v mn) ?V) = Min (insert mn (insert v ?V))"
        by (simp add: Min_insert_min insert_commute)
      moreover have "Max (insert (max v mx) ?V) = Max (insert mx (insert v ?V))"
        by (simp add: Max_insert_max insert_commute)
      ultimately show ?thesis using True IH Some b
        by (simp add: kv statsAddValue_lookup del: statsAddValue.simps)
    qed
  next
    case False
    with IH show ?thesis
      by (auto simp: kv statsAddValue_lookup simp del: statsAddValue.simps split: option.split)
  qed
qed

lemma edgeStats_distinct: "distinct (map fst (edgeStats es))"
proof -
  have "distinct (map fst st) \<Longrightarrow> distinct (map fst (foldl statsAddValue st kvs))" for st kvs
    by (induction kvs arbitrary: st) (auto simp: distinct_update split: option.split)
  then show ?thesis by (simp add: edgeStats_def foldl_foldl_concat)
qed

lemma edgeStats_covers:
  assumes "e \<in> set es" and "(k, v) \<in> set (edgeAttrs e)"
  shows "\<exists>mn mx. map_of (edgeStats es) k = Some (mn, mx) \<and> mn \<le> v \<and> v \<le> mx"
proof -
  let ?V = "valuesOf k (concat (map edgeAttrs es))"
  have "v \<in> set ?V" using assms by (force simp: valuesOf_def)
  moreover have "map_of (edgeStats es) k = (if ?V = [] then None else Some (Min (set ?V), Max (set ?V)))"
    by (simp add: edgeStats_def foldl_foldl_concat map_of_foldl_statsAddValue)
  ultimately show ?thesis by auto
qed

lemma aggregateSegmentBuffer_nth:
  assumes "i < List.length es"
    and "point_buffer g (lon (calculateMidpoint (point0 (es ! i)) (point1 (es ! i))),
                        lat (calculateMidpoint (point0 (es ! i)) (point1 (es ! i)))) d = Some inside"
  shows "aggregateSegmentBuffer g es td d t ! i =
           (es ! i)\<lparr>attributes := Some (aggregateValues (filter (\<lambda>p. inside (tpos p)) td) t td)\<rparr>"
  using assms by (simp add: aggregateSegmentBuffer_def Let_def)

lemma valuesOf_notin [simp]: "k \<notin> fst ` set a \<Longrightarrow> valuesOf k a = []"
  by (induction a) auto

lemma sum_valuesOf_notin:
  "\<forall>a \<in> set I. k \<notin> fst ` set a \<Longrightarrow> sum_list (map (\<lambda>a. sum_list (valuesOf k a)) I) = 0"
  by (induction I) auto

lemma map_of_addSums:
  "map_of (addSums s a) k =
     (if k \<in> fst ` set a then Some ((case map_of s k of None \<Rightarrow> 0 | Some x \<Rightarrow> x) + sum_list (valuesOf k a))
      else map_of s k)"
proof (induction a arbitrary: s)
  case Nil
  then show ?case by (simp add: addSums_def)
next
  case (Cons kv a)
  obtain k' v where kv: "kv = (k', v)" by fastforce
  have step: "addSums s ((k', v) # a) =
      addSums (AList.update k' ((case map_of s k' of None \<Rightarrow> 0 | Some x \<Rightarrow> x) + v) s) a"
    by (simp add: addSums_def)
  show ?case
    unfolding kv step Cons.IH by (auto simp: update_conv' split: option.split)
qed

lemma map_of_foldl_addSums:
  "map_of (foldl addSums s I) k =
     (if k \<in> (\<Union>a \<in> set I. fst ` set a)
      then Some ((case map_of s k of None \<Rightarrow> 0 | Some x \<Rightarrow> x) + sum_list (map (\<lambda>a. sum_list (valuesOf k a)) I))
      else map_of s k)"
  by (induction I arbitrary: s) (auto simp: map_of_addSums sum_valuesOf_notin split: option.split)

lemma nodesMap_flat: "nodesMap es = foldl (\<lambda>nm ip. visitNode (fst ip) nm (snd ip)) [] (incidences es)"
proof -
  have "foldl (\<lambda>nm e. foldl (visitNode (attributes e)) nm [point0 e, point1 e]) nm es =
        foldl (\<lambda>nm ip. visitNode (fst ip) nm (snd ip)) nm (incidences es)" for nm
    by (induction es arbitrary: nm) (simp_all add: incidences_def)
  then show ?thesis by (simp add: nodesMap_def)
qed

lemma incidentAt_Cons:
  "incidentAt (ip # ips) c = (if nodeKey (snd ip) = c then optAttrs (fst ip) # incidentAt ips c else incidentAt ips c)"
  by (simp add: incidentAt_def)

lemma map_of_visitNode:
  "map_of (visitNode aa nm p) c =
     (if c = nodeKey p then
        Some (case map_of nm c of
                None \<Rightarrow> \<lparr>acc_lat = lat p, acc_lon = lon p, acc_sums = addSums [] (optAttrs aa), acc_count = 1\<rparr>
              | Some n \<Rightarrow> n\<lparr>acc_sums := addSums (acc_sums n) (optAttrs aa), acc_count := acc_count n + 1\<rparr>)
      else map_of nm c)"
  by (auto simp: visitNode_def Let_def update_conv' optAttrs_def split: option.split)

lemma map_of_foldl_visitNode:
  "map_of (foldl (\<lambda>nm ip. visitNode (fst ip) nm (snd ip)) nm ips) c =
     (case map_of nm c of
        None \<Rightarrow> (if incidentAt ips c = [] then None
                 else Some \<lparr>acc_lat = fst c, acc_lon = snd c, acc_sums = foldl addSums [] (incidentAt ips c),
                            acc_count = List.length (incidentAt ips c)\<rparr>)
      | Some n \<Rightarrow> Some (n\<lparr>acc_sums := foldl addSums (acc_sums n) (incidentAt ips c),
                          acc_count := acc_count n + List.length (incidentAt ips c)\<rparr>))"
proof (induction ips arbitrary: nm)
  case Nil
  then show ?case by (simp add: incidentAt_def split: option.split)
next
  case (Cons ip ips)
  have IH: "map_of (foldl (\<lambda>nm ip. visitNode (fst ip) nm (snd ip)) nm (ip # ips)) c =
      (case map_of (visitNode (fst ip) nm (snd ip)) c of
         None \<Rightarrow> (if incidentAt ips c = [] then None
                  else Some \<lparr>acc_lat = fst c, acc_lon = snd c, acc_sums = foldl addSums [] (incidentAt ips c),
                             acc_count = List.length (incidentAt ips c)\<rparr>)
       | Some n \<Rightarrow> Some (n\<lparr>acc_sums := foldl addSums (acc_sums n) (incidentAt ips c),
                           acc_count := acc_count n + List.length (incidentAt ips c)\<rparr>))"
    using Cons.IH [of "visitNode (fst ip) nm (snd ip)"] by simp
  show ?case
  proof (cases "nodeKey (snd ip) = c")
    case True
    then have c: "c = (lat (snd ip), lon (snd ip))" by (simp add: nodeKey_def)
    show ?thesis
      unfolding IH using True by (auto simp: map_of_visitNode incidentAt_Cons c split: option.split)
  next
    case False
    have inc: "incidentAt (ip # ips) c = incidentAt ips c"
      using False by (simp add: incidentAt_Cons)
    have vis: "map_of (visitNode (fst ip) nm (snd ip)) c = map_of nm c"
      using False by (auto simp: map_of_visitNode)
    show ?thesis
      unfolding IH inc vis by (simp split: option.split)
  qed
qed

lemma distinct_nodesMap: "distinct (map fst (nodesMap es))"
proof -
  have "distinct (map fst nm) \<Longrightarrow> distinct (map fst (foldl (\<lambda>nm ip. visitNode (fst ip) nm (snd ip)) nm ips))"
    for nm ips
    by (induction ips arbitrary: nm) (simp_all add: visitNode_def Let_def distinct_update)
  then show ?thesis by (simp add: nodesMap_flat)
qed

lemma map_of_nodesMap:
  "map_of (nodesMap es) c =
     (let I = incidentAt (incidences es) c
      in if I = [] then None
         else Some \<lparr>acc_lat = fst c, acc_lon = snd c, acc_sums = foldl addSums [] I, acc_count = List.length I\<rparr>)"
  by (simp add: nodesMap_flat map_of_foldl_visitNode Let_def)

lemma nodesMap_entry:
  assumes "(c, acc) \<in> set (nodesMap es)"
  shows "incidentAt (incidences es) c \<noteq> [] \<and>
         acc = \<lparr>acc_lat = fst c, acc_lon = snd c, acc_sums = foldl addSums [] (incidentAt (incidences es) c),
                acc_count = List.length (incidentAt (incidences es) c)\<rparr>"
proof -
  have "map_of (nodesMap es) c = Some acc"
    using assms distinct_nodesMap by (rule map_of_is_SomeI [rotated])
  then show ?thesis by (simp add: map_of_nodesMap Let_def split: if_splits)
qed

subsection \<open>Properties\<close>

text \<open>C1: The statistics table applySpatialAggregation builds over the joined edges holds, for each attribute key, exactly the minimum and maximum of that attribute over all edges, and no entry for a key no edge carries.\<close>

lemma edgeStats_exact:
  "map_of (edgeStats es) k =
     (let V = valuesOf k (concat (map edgeAttrs es))
      in if V = [] then None else Some (Min (set V), Max (set V)))"
  by (simp add: edgeStats_def foldl_foldl_concat map_of_foldl_statsAddValue Let_def)

text \<open>C2: In the buffer join with aggregation type sum, an edge whose midpoint buffer is built gets, for every attribute of the thematic data, the exact sum of that attribute over the thematic points inside the buffer.\<close>

lemma aggregateSegmentBuffer_sum:
  assumes "i < List.length es"
    and "point_buffer g (lon (calculateMidpoint (point0 (es ! i)) (point1 (es ! i))),
                        lat (calculateMidpoint (point0 (es ! i)) (point1 (es ! i)))) d = Some inside"
    and "k \<in> set (attributeKeys td)"
  shows "map_of (edgeAttrs (aggregateSegmentBuffer g es td d (Some AggSum) ! i)) k =
           Some (sum_list (numericValues (filter (\<lambda>p. inside (tpos p)) td) k))"
  using assms by (simp add: aggregateSegmentBuffer_nth edgeAttrs_def map_of_aggregateValues aggregateValue_sum)

lemma aggregateSegmentBuffer_sum_witness:
  "0 < List.length [scenario_edge] \<and>
   point_buffer taxicab_lib (lon (calculateMidpoint (point0 ([scenario_edge] ! 0)) (point1 ([scenario_edge] ! 0))),
      lat (calculateMidpoint (point0 ([scenario_edge] ! 0)) (point1 ([scenario_edge] ! 0)))) (Some 50) =
     Some (\<lambda>(x, y). (\<bar>x - (-74)\<bar> + \<bar>y - 40.00045\<bar>) * deg_m \<le> 50) \<and>
   ''count'' \<in> set (attributeKeys scenario_points) \<and>
   map_of (edgeAttrs (aggregateSegmentBuffer taxicab_lib [scenario_edge] scenario_points (Some 50) (Some AggSum) ! 0)) ''count'' = Some 10"
proof -
  have pb: "point_buffer taxicab_lib (lon (calculateMidpoint (point0 ([scenario_edge] ! 0)) (point1 ([scenario_edge] ! 0))),
      lat (calculateMidpoint (point0 ([scenario_edge] ! 0)) (point1 ([scenario_edge] ! 0)))) (Some 50) =
     Some (\<lambda>(x, y). (\<bar>x - (-74)\<bar> + \<bar>y - 40.00045\<bar>) * deg_m \<le> 50)"
    by (simp add: taxicab_lib_def calculateMidpoint_def scenario_edge_def)
  have k: "''count'' \<in> set (attributeKeys scenario_points)"
    by (simp add: attributeKeys_def scenario_points_def)
  have "sum_list (numericValues (filter (\<lambda>p. (\<lambda>(x, y). (\<bar>x - (-74)\<bar> + \<bar>y - 40.00045\<bar>) * deg_m \<le> 50) (tpos p)) scenario_points) ''count'') = 10"
    by (simp add: scenario_points_def numericValues_def tpos_def deg_m_def)
  then show ?thesis
    using aggregateSegmentBuffer_sum [OF _ pb k] pb k by simp
qed

text \<open>When the spatial join selects no point, every attribute of the thematic data aggregates to 0 (never undefined), whatever the aggregation type.\<close>

lemma aggregateValues_no_points:
  "map_of (aggregateValues [] t td) k = (if k \<in> set (attributeKeys td) then Some 0 else None)"
  by (simp add: map_of_aggregateValues numericValues_def aggregateValue_empty)

text \<open>The four reductions: sum is the arithmetic sum; on a non-empty value list mean is sum divided by count, min and max are the least and greatest value, and the mean lies between them.\<close>

lemma aggregateValue_spec:
  "aggregateValue (Some AggSum) vs = sum_list vs \<and>
   (vs \<noteq> [] \<longrightarrow> aggregateValue (Some AggMean) vs = sum_list vs / real (List.length vs) \<and>
                 aggregateValue (Some AggMin) vs = Min (set vs) \<and>
                 aggregateValue (Some AggMax) vs = Max (set vs) \<and>
                 Min (set vs) \<le> aggregateValue (Some AggMean) vs \<and>
                 aggregateValue (Some AggMean) vs \<le> Max (set vs))"
  using aggregateValue_sum aggregateValue_nonempty mean_between_min_max by simp

lemma aggregateValue_spec_witness:
  "aggregateValue (Some AggSum) [3, 7] = 10 \<and>
   [3, 7 :: real] \<noteq> [] \<and> aggregateValue (Some AggMean) [3, 7] = 5 \<and>
   aggregateValue (Some AggMin) [3, 7] = 3 \<and> aggregateValue (Some AggMax) [3, 7] = 7 \<and>
   3 \<le> aggregateValue (Some AggMean) [3, 7] \<and> aggregateValue (Some AggMean) [3, 7] \<le> 7"
  using aggregateValue_spec [of "[3, 7]"] by simp

text \<open>The aggregated attributes of an edge are exactly the keys of the first thematic row other than lat and lon, each once.\<close>

lemma keys_aggregateValues:
  "fst ` set (aggregateValues pts t td) = set (attributeKeys td) \<and>
   distinct (map fst (aggregateValues pts t td))"
  by (simp add: aggregateValues_def keys_foldl_update distinct_foldl_update)

text \<open>C35: The nearest-neighbour join selects min(100, n) of the n thematic points, each at most once as often as it occurs, and every selected point is at least as close to the edge midpoint as every point left out.\<close>

lemma nearest_neighbour_selection:
  fixes g :: geo_lib and c :: pos and td :: "tpoint list"
  defines "sel \<equiv> findClosestPoints (calculateDistances g c td) td 100"
  shows "List.length sel = min 100 (List.length td) \<and> mset sel \<subseteq># mset td \<and>
         (\<forall>p \<in># mset sel. \<forall>q \<in># mset td - mset sel.
            turf_distance g c (tpos p) \<le> turf_distance g c (tpos q))"
  unfolding sel_def findClosestPoints_eq by (rule closest_selection)

lemma nearest_neighbour_selection_witness:
  "findClosestPoints (calculateDistances taxicab_lib (-74, 40) scenario_points) scenario_points 100 = scenario_points \<and>
   List.length scenario_points = min 100 (List.length scenario_points) \<and>
   mset scenario_points \<subseteq># mset scenario_points \<and>
   mset scenario_points - mset scenario_points = {#}"
proof -
  have sel: "findClosestPoints (calculateDistances taxicab_lib (-74, 40) scenario_points) scenario_points 100 = scenario_points"
    by (simp add: findClosestPoints_eq scenario_points_def taxicab_lib_def tpos_def deg_m_def)
  show ?thesis using nearest_neighbour_selection [of taxicab_lib "(-74, 40)" scenario_points] sel by simp
qed

text \<open>Spatial aggregation keeps the number and order of the edges and their end points; only attributes (and, on a failed buffer, bearing and length) change.\<close>

lemma applySpatialAggregation_geometry:
  "map (\<lambda>e. (point0 e, point1 e)) (edges (applySpatialAggregation g es td spec)) =
   map (\<lambda>e. (point0 e, point1 e)) es"
  by (auto simp: applySpatialAggregation_def aggregationContainsSegment_def
      aggregateSegmentNearestNeighbor_def aggregateSegmentBuffer_def Let_def
      split: option.split spatial_relation.split)

text \<open>With an empty thematic dataset and a spatial relation set, every joined edge has no attributes at all and the statistics table is empty.\<close>

lemma applySpatialAggregation_empty_thematic:
  assumes "relation spec = Some r" and "spatial r \<noteq> None"
  shows "attributeStats (applySpatialAggregation g es [] spec) = [] \<and>
         (\<forall>e \<in> set (edges (applySpatialAggregation g es [] spec)). edgeAttrs e = [])"
proof -
  have none: "aggregateValues pts t [] = []" for pts t
    by (simp add: aggregateValues_def attributeKeys_def)
  have "\<forall>e \<in> set (edges (applySpatialAggregation g es [] spec)). edgeAttrs e = []"
    using assms unfolding applySpatialAggregation_def
    by (cases "utype (layer_unit spec)")
       (auto simp: aggregationContainsSegment_def aggregateSegmentNearestNeighbor_def
          aggregateSegmentBuffer_def edgeAttrs_def none Let_def
          split: option.split spatial_relation.split)
  moreover have "attributeStats (applySpatialAggregation g es [] spec) =
                 edgeStats (edges (applySpatialAggregation g es [] spec))"
    using assms unfolding applySpatialAggregation_def
    by (cases "utype (layer_unit spec)") (auto simp: Let_def split: option.split spatial_relation.split)
  moreover have "edgeStats xs = []" if "\<forall>e \<in> set xs. edgeAttrs e = []" for xs
  proof -
    from that have c: "concat (map edgeAttrs xs) = []" by simp
    have "edgeStats xs = foldl statsAddValue [] (concat (map edgeAttrs xs))"
      by (simp add: edgeStats_def foldl_foldl_concat)
    also have "\<dots> = []" by (simp only: c foldl_Nil)
    finally show ?thesis .
  qed
  ultimately show ?thesis by simp
qed

lemma applySpatialAggregation_empty_thematic_witness:
  "relation (example_spec AggMean) = Some (example_relation AggMean) \<and>
   spatial (example_relation AggMean) \<noteq> None \<and>
   attributeStats (applySpatialAggregation taxicab_lib [scenario_edge] [] (example_spec AggMean)) = [] \<and>
   map edgeAttrs (edges (applySpatialAggregation taxicab_lib [scenario_edge] [] (example_spec AggMean))) = [[]]"
proof -
  have r: "relation (example_spec AggMean) = Some (example_relation AggMean)"
    and sp: "spatial (example_relation AggMean) \<noteq> None"
    by (simp_all add: example_spec_def example_relation_def)
  have es: "edges (applySpatialAggregation taxicab_lib [scenario_edge] [] (example_spec AggMean)) =
            [scenario_edge\<lparr>attributes := Some []\<rparr>]"
    by (simp add: applySpatialAggregation_def example_spec_def example_relation_def example_unit_def
        aggregateSegmentBuffer_def aggregateValues_def attributeKeys_def taxicab_lib_def
        calculateMidpoint_def scenario_edge_def)
  have "attributeStats (applySpatialAggregation taxicab_lib [scenario_edge] [] (example_spec AggMean)) = []"
    using applySpatialAggregation_empty_thematic [OF r sp, of taxicab_lib "[scenario_edge]"] by blast
  moreover have "edgeAttrs (scenario_edge\<lparr>attributes := Some []\<rparr>) = []"
    using applySpatialAggregation_empty_thematic [OF r sp, of taxicab_lib "[scenario_edge]"] es by simp
  ultimately show ?thesis using r sp es by simp
qed


text \<open>C36: processEdgesToNodes gives every node, for each attribute, the sum of that attribute over all edge end points at the node divided by the number of end points there (edges without the attribute count in the divisor).\<close>

theorem processEdgesToNodes_reference:
  assumes "n \<in> set (processEdgesToNodes es)"
  shows "incidentAt (incidences es) (node_lat n, node_lon n) \<noteq> [] \<and>
         map_of (node_attributes n) k =
           (let I = incidentAt (incidences es) (node_lat n, node_lon n)
            in if k \<in> (\<Union>a \<in> set I. fst ` set a)
               then Some (sum_list (map (\<lambda>a. sum_list (valuesOf k a)) I) / real (List.length I))
               else None)"
proof -
  from assms obtain c acc where mem: "(c, acc) \<in> set (nodesMap es)"
    and n: "n = \<lparr>node_lat = acc_lat acc, node_lon = acc_lon acc,
                 node_attributes = map (\<lambda>(k, s). (k, s / real (acc_count acc))) (acc_sums acc)\<rparr>"
    by (auto simp: processEdgesToNodes_def)
  from nodesMap_entry [OF mem] show ?thesis
    by (auto simp: n map_of_map map_of_foldl_addSums Let_def)
qed

lemma processEdgesToNodes_reference_witness:
  "\<lparr>node_lat = 40, node_lon = -74, node_attributes = [(''count'', 10)]\<rparr>
     \<in> set (processEdgesToNodes [scenario_edge\<lparr>attributes := Some [(''count'', 10)]\<rparr>]) \<and>
   incidentAt (incidences [scenario_edge\<lparr>attributes := Some [(''count'', 10)]\<rparr>]) (40, -74) \<noteq> [] \<and>
   map_of [(''count'', 10)] ''count'' =
     (let I = incidentAt (incidences [scenario_edge\<lparr>attributes := Some [(''count'', 10)]\<rparr>]) (40, -74)
      in if ''count'' \<in> (\<Union>a \<in> set I. fst ` set a)
         then Some (sum_list (map (\<lambda>a. sum_list (valuesOf ''count'' a)) I) / real (List.length I))
         else None)"
proof -
  let ?n = "\<lparr>node_lat = 40 :: real, node_lon = -74 :: real, node_attributes = [(''count'', 10 :: real)]\<rparr>"
  have mem: "?n \<in> set (processEdgesToNodes [scenario_edge\<lparr>attributes := Some [(''count'', 10)]\<rparr>])"
    by (simp add: processEdgesToNodes_def nodesMap_def visitNode_def nodeKey_def addSums_def scenario_edge_def)
  show ?thesis using mem processEdgesToNodes_reference [OF mem, of "''count''"] by simp
qed

text \<open>processEdgesToNodes emits exactly one node per distinct end-point coordinate of the edges.\<close>

lemma processEdgesToNodes_keys:
  "distinct (map (\<lambda>n. (node_lat n, node_lon n)) (processEdgesToNodes es)) \<and>
   set (map (\<lambda>n. (node_lat n, node_lon n)) (processEdgesToNodes es)) = endpointKeys es"
proof -
  have "map (\<lambda>n. (node_lat n, node_lon n)) (processEdgesToNodes es) = map fst (nodesMap es)"
    by (auto simp: processEdgesToNodes_def dest!: nodesMap_entry intro!: map_cong)
  moreover have "set (map fst (nodesMap es)) = endpointKeys es"
  proof -
    have "set (map fst (nodesMap es)) = dom (map_of (nodesMap es))"
      by (simp add: dom_map_of_conv_image_fst)
    also have "\<dots> = {c. incidentAt (incidences es) c \<noteq> []}"
      by (auto simp: map_of_nodesMap Let_def split: if_splits)
    also have "\<dots> = endpointKeys es"
      by (auto simp: incidentAt_def incidences_def endpointKeys_def filter_empty_conv)
    finally show ?thesis .
  qed
  ultimately show ?thesis using distinct_nodesMap by simp
qed

end
