(* ===== verification/Style.thy ===== *)
theory Style
  imports Aggregation
begin

text \<open>
  The style resolver of \<open>src/editor/src/utils/styleHelpers.ts\<close>:
  \<open>getDynamicStyleValue\<close>, \<open>getDashArray\<close>, \<open>getSquiggleParams\<close>,
  \<open>getBivariateColor\<close>, \<open>generateSimpleWavyPath\<close>, \<open>applyOpacity\<close> and the glyph
  paths \<open>spikePath\<close> and \<open>rectPath\<close>.  The d3 pieces they call are
  written out with d3's semantics: \<open>d3.scaleLinear\<close> with a two-value domain and range
  (d3's \<open>bimap\<close>: no clamping, a degenerate domain maps to the middle of the range,
  the default range is [0, 1]), number interpolation, and RGB interpolation of two
  colour literals (the result is the string \<open>rgb(r, g, b)\<close> with channels rounded
  and clamped to [0, 255], the value \<open>VRgb\<close> here).  A returned value is a
  \<open>style_val\<close>; a thrown \<open>TypeError\<close> (reading \<open>domain[name].min\<close> when the
  statistics table has no entry for the attribute) is \<open>Inl TypeError\<close>.  SVG path
  strings are lists of \<open>path_cmd\<close>.  The colour ramps of \<open>getBivariateColor\<close>
  (\<open>d3.interpolateBuGn\<close>, \<open>d3.interpolateOrRd\<close>) are parameters of type \<open>ramp\<close>, read
  on numbers; the code's \<open>"gray"\<close> fallback, taken when a value is not a number, is modelled
  where the matrix calls it (\<open>bivariateCell\<close> of the theory \<open>Instructions\<close>).
  The lemmas: the scaled value on every branch (formula, \<open>TypeError\<close>, default range,
  degenerate domain, range bounds), the dash and squiggle buckets, the blend's
  channel bounds, and the shape of the wavy path (arc count, end point, alternation).
\<close>

datatype style_val = VNum real | VStr string | VRgb int int int | VUndef | VNaN
  \<comment> \<open>\<open>VNaN\<close>: the \<open>NaN\<close> that arithmetic on a non-number yields in the renderers;
      the resolvers never return it\<close>

datatype srange =
    RNum real real          \<comment> \<open>a numeric range \<open>[r0, r1]\<close>\<close>
  | RColor string string    \<comment> \<open>a colour range; d3 uses its first two entries\<close>
  | RDefault                \<comment> \<open>no range given\<close>

datatype path_cmd =
    MoveTo real real | LineTo real real | QuadTo real real real real
  | HLine real | VLine real | ClosePath

subsection \<open>Colour literals\<close>

definition hexValue :: "char \<Rightarrow> nat option" where
  "hexValue c =
     (let n = of_char c :: nat in
      if 48 \<le> n \<and> n \<le> 57 then Some (n - 48)
      else if 65 \<le> n \<and> n \<le> 70 then Some (n - 55)
      else if 97 \<le> n \<and> n \<le> 102 then Some (n - 87)
      else None)"

definition isHexColor :: "string \<Rightarrow> bool" where
  \<comment> \<open>\<open>/^#([0-9A-F]{3}|[0-9A-F]{6})$/i\<close>\<close>
  "isHexColor s =
     (case s of
        [] \<Rightarrow> False
      | c # ds \<Rightarrow> c = CHR ''#'' \<and> (List.length ds = 3 \<or> List.length ds = 6) \<and>
                 list_all (\<lambda>d. hexValue d \<noteq> None) ds)"

fun hexByte :: "char \<Rightarrow> char \<Rightarrow> int option" where
  "hexByte a b = (case (hexValue a, hexValue b) of
                    (Some x, Some y) \<Rightarrow> Some (int (16 * x + y)) | _ \<Rightarrow> None)"

fun parseHexColor :: "string \<Rightarrow> (int \<times> int \<times> int) option" where
  \<comment> \<open>\<open>d3.color\<close> on \<open>#rgb\<close> and \<open>#rrggbb\<close>\<close>
  "parseHexColor [c, r, g, b] =
     (if c = CHR ''#'' then
        (case (hexByte r r, hexByte g g, hexByte b b) of
           (Some x, Some y, Some z) \<Rightarrow> Some (x, y, z) | _ \<Rightarrow> None)
      else None)"
| "parseHexColor [c, r1, r2, g1, g2, b1, b2] =
     (if c = CHR ''#'' then
        (case (hexByte r1 r2, hexByte g1 g2, hexByte b1 b2) of
           (Some x, Some y, Some z) \<Rightarrow> Some (x, y, z) | _ \<Rightarrow> None)
      else None)"
| "parseHexColor _ = None"

subsection \<open>d3 scales and interpolators\<close>

definition d3_normalize :: "real \<Rightarrow> real \<Rightarrow> real \<Rightarrow> real" where
  \<comment> \<open>\<open>normalize(a, b)\<close> of d3-scale: constant 0.5 on a degenerate domain\<close>
  "d3_normalize a b x = (if b - a \<noteq> 0 then (x - a) / (b - a) else 1 / 2)"

definition interpolateNumber :: "real \<Rightarrow> real \<Rightarrow> real \<Rightarrow> real" where
  "interpolateNumber a b t = a * (1 - t) + b * t"

definition clampi :: "real \<Rightarrow> int" where
  \<comment> \<open>d3-color's channel formatting: \<open>Math.max(0, Math.min(255, Math.round(v)))\<close>\<close>
  "clampi v = max 0 (min 255 (js_round v))"

definition interpolateRgb :: "int \<times> int \<times> int \<Rightarrow> int \<times> int \<times> int \<Rightarrow> real \<Rightarrow> style_val" where
  "interpolateRgb c0 c1 t =
     (case (c0, c1) of ((r0, g0, b0), (r1, g1, b1)) \<Rightarrow>
        VRgb (clampi (interpolateNumber (of_int r0) (of_int r1) t))
             (clampi (interpolateNumber (of_int g0) (of_int g1) t))
             (clampi (interpolateNumber (of_int b0) (of_int b1) t)))"

definition interpolateRange :: "srange \<Rightarrow> bool \<Rightarrow> real \<Rightarrow> style_val" where
  \<comment> \<open>\<open>interpolate(range[0], range[1])\<close>, or reversed when the domain is reversed\<close>
  "interpolateRange rg reversed t =
     (case rg of
        RNum r0 r1 \<Rightarrow> VNum (if reversed then interpolateNumber r1 r0 t else interpolateNumber r0 r1 t)
      | RDefault \<Rightarrow> VNum (if reversed then interpolateNumber 1 0 t else interpolateNumber 0 1 t)
      | RColor s0 s1 \<Rightarrow>
          (case (parseHexColor s0, parseHexColor s1) of
             (Some c0, Some c1) \<Rightarrow> if reversed then interpolateRgb c1 c0 t else interpolateRgb c0 c1 t
           | _ \<Rightarrow> VUndef))"

definition scaleLinear :: "real \<times> real \<Rightarrow> srange \<Rightarrow> real \<Rightarrow> style_val" where
  \<comment> \<open>d3's \<open>bimap\<close>: a reversed domain swaps the ends of the range\<close>
  "scaleLinear dmn rg x =
     (case dmn of (d0, d1) \<Rightarrow>
        if d1 < d0 then interpolateRange rg True (d3_normalize d1 d0 x)
        else interpolateRange rg False (d3_normalize d0 d1 x))"

subsection \<open>The resolvers\<close>

definition getDynamicStyleValue ::
  "style_name \<Rightarrow> attrs option \<Rightarrow> stats option \<Rightarrow> srange \<Rightarrow> js_error + style_val" where
  "getDynamicStyleValue name atts domain rng =
     (case name of
        SNum x \<Rightarrow> Inr (VNum x)
      | SUndef \<Rightarrow> Inr VUndef
      | SStr s \<Rightarrow>
          if isHexColor s then Inr (VStr s)
          else (case (atts, domain) of
                  (Some a, Some dmn) \<Rightarrow>
                    (case map_of a s of
                       None \<Rightarrow> Inr VUndef
                     | Some v \<Rightarrow>
                         (case map_of dmn s of
                            None \<Rightarrow> Inl TypeError
                          | Some (mn, mx) \<Rightarrow> Inr (scaleLinear (mn, mx) rng v)))
                | _ \<Rightarrow> Inr VUndef))"

definition getDashArray :: "string option \<Rightarrow> attrs option \<Rightarrow> stats option \<Rightarrow> js_error + string" where
  "getDashArray name atts domain =
     (case (name, domain, atts) of
        (Some n, Some dmn, Some a) \<Rightarrow>
          if n = [] then Inr []
          else (case map_of a n of
                  None \<Rightarrow> Inr []
                | Some v \<Rightarrow>
                    (case map_of dmn n of
                       None \<Rightarrow> Inl TypeError
                     | Some (minValue, maxValue) \<Rightarrow>
                         Inr (if v < minValue + (maxValue - minValue) / 3 then ''5, 3''
                              else if v \<ge> minValue + (maxValue - minValue) / 3 \<and>
                                      v < minValue + (2 * (maxValue - minValue)) / 3 then ''7, 5''
                              else ''12, 8'')))
      | _ \<Rightarrow> Inr [])"

definition squiggleFrequency :: "real \<Rightarrow> real \<Rightarrow> real \<Rightarrow> real" where
  "squiggleFrequency mn mx v =
     (let rangeWidth = mx - mn; stepSize = rangeWidth / 4;
          boundary1 = mn + stepSize; boundary2 = mn + 2 * stepSize; boundary3 = mn + 3 * stepSize
      in if v \<ge> mn \<and> v < boundary1 then 5
         else if v \<ge> boundary1 \<and> v < boundary2 then 20
         else if v \<ge> boundary2 \<and> v < boundary3 then 40
         else 60)"

definition getSquiggleParams ::
  "string option \<Rightarrow> attrs option \<Rightarrow> stats option \<Rightarrow> js_error + real \<times> real" where
  \<comment> \<open>the result is \<open>(amplitude, frequency)\<close>\<close>
  "getSquiggleParams name atts domain =
     (case (name, domain, atts) of
        (Some n, Some dmn, Some a) \<Rightarrow>
          if n = [] then Inr (0, 1)
          else (case map_of a n of
                  None \<Rightarrow> Inr (0, 1)
                | Some v \<Rightarrow>
                    (case map_of dmn n of
                       None \<Rightarrow> Inl TypeError
                     | Some (mn, mx) \<Rightarrow> Inr (25, squiggleFrequency mn mx v)))
      | _ \<Rightarrow> Inr (0, 1))"

type_synonym ramp = "real \<Rightarrow> int \<times> int \<times> int"
  \<comment> \<open>a d3 sequential colour interpolator (\<open>d3.interpolateBuGn\<close>, \<open>d3.interpolateOrRd\<close>),
      read back by \<open>d3.color\<close>\<close>

definition getBivariateColor :: "ramp \<Rightarrow> ramp \<Rightarrow> real \<Rightarrow> real \<Rightarrow> int \<times> int \<times> int" where
  \<comment> \<open>the channel-wise average, as \<open>rgb(round(r), round(g), round(b))\<close>\<close>
  "getBivariateColor interp1 interp2 val1 val2 =
     (case (interp1 val1, interp2 val2) of ((r1, g1, b1), (r2, g2, b2)) \<Rightarrow>
        (js_round ((of_int r1 + of_int r2) / 2), js_round ((of_int g1 + of_int g2) / 2),
         js_round ((of_int b1 + of_int b2) / 2)))"

definition generateSimpleWavyPath :: "screen \<Rightarrow> screen \<Rightarrow> real \<Rightarrow> real \<Rightarrow> path_cmd list" where
  "generateSimpleWavyPath start endp amplitude wavelength =
     (case (start, endp) of ((sx, sy), (ex, ey)) \<Rightarrow>
        let dx = ex - sx; dy = ey - sy;
            distance = sqrt (dx * dx + dy * dy);
            angle = atan2 dy dx;
            numWaves = nat \<lceil>distance / wavelength\<rceil>
        in MoveTo sx sy # map (\<lambda>i.
             let t = (real i + 0.5) / real numWaves;
                 xMid = sx + t * dx; yMid = sy + t * dy;
                 offsetX = amplitude * sin ((real i + 0.5) * pi);
                 controlX = xMid + offsetX * cos (angle + pi / 2);
                 controlY = yMid + offsetX * sin (angle + pi / 2);
                 xNext = sx + (real (i + 1) / real numWaves) * dx;
                 yNext = sy + (real (i + 1) / real numWaves) * dy
             in QuadTo controlX controlY xNext yNext) [0..<numWaves])"


subsection \<open>Opacity and glyph paths\<close>

datatype opacity_kind = OFill | OStroke | OLine

definition applyOpacity :: "opacity_kind \<Rightarrow> unit_spec \<Rightarrow> real" where
  "applyOpacity k u =
     (case opacity u of
        SNum x \<Rightarrow> x
      | _ \<Rightarrow> (case k of OFill \<Rightarrow> 0.7 | OStroke \<Rightarrow> 1 | OLine \<Rightarrow> 1))"

definition spikePath :: "real \<Rightarrow> real \<Rightarrow> path_cmd list" where
  "spikePath len w = [MoveTo (- w / 2) 0, LineTo 0 (- len), LineTo (w / 2) 0, ClosePath]"

definition rectPath :: "real \<Rightarrow> real \<Rightarrow> path_cmd list" where
  "rectPath len w =
     [MoveTo (- w / 2) 0, LineTo (- w / 2) (- len), LineTo (w / 2) (- len), LineTo (w / 2) 0, ClosePath]"

subsection \<open>Scale lemmas\<close>

lemma interpolateNumber_alt: "interpolateNumber a b t = a + t * (b - a)"
  by (simp add: interpolateNumber_def algebra_simps)

lemma scaleLinear_num:
  assumes "mn < mx"
  shows "scaleLinear (mn, mx) (RNum r0 r1) v = VNum (r0 + (v - mn) / (mx - mn) * (r1 - r0))"
  using assms by (simp add: scaleLinear_def interpolateRange_def d3_normalize_def interpolateNumber_alt)

lemma scaleLinear_degenerate: "scaleLinear (m, m) (RNum r0 r1) v = VNum ((r0 + r1) / 2)"
  by (simp add: scaleLinear_def interpolateRange_def d3_normalize_def interpolateNumber_def field_simps)

lemma scaleLinear_default:
  assumes "mn < mx"
  shows "scaleLinear (mn, mx) RDefault v = VNum ((v - mn) / (mx - mn))"
  using assms by (simp add: scaleLinear_def interpolateRange_def d3_normalize_def interpolateNumber_def)

lemma getDynamicStyleValue_attr:
  assumes "\<not> isHexColor s" and "map_of a s = Some v" and "map_of dmn s = Some (mn, mx)"
  shows "getDynamicStyleValue (SStr s) (Some a) (Some dmn) rng = Inr (scaleLinear (mn, mx) rng v)"
  using assms by (simp add: getDynamicStyleValue_def)

lemma interpolate_between:
  assumes "0 \<le> t" "t \<le> 1" "r0 \<le> (r1 :: real)"
  shows "r0 \<le> r0 + t * (r1 - r0) \<and> r0 + t * (r1 - r0) \<le> r1"
proof -
  have "0 \<le> t * (r1 - r0)" using assms by (intro mult_nonneg_nonneg) auto
  moreover have "t * (r1 - r0) \<le> 1 * (r1 - r0)" using assms by (intro mult_right_mono) auto
  ultimately show ?thesis by simp
qed

lemma wavy_nth:
  assumes "i < nat \<lceil>sqrt ((ex - sx) * (ex - sx) + (ey - sy) * (ey - sy)) / wavelength\<rceil>"
  shows "generateSimpleWavyPath (sx, sy) (ex, ey) a wavelength ! Suc i =
      (let dx = ex - sx; dy = ey - sy; n = nat \<lceil>sqrt (dx * dx + dy * dy) / wavelength\<rceil>;
           t = (real i + 0.5) / real n; off = a * sin ((real i + 0.5) * pi); ang = atan2 dy dx
       in QuadTo (sx + t * dx + off * cos (ang + pi / 2)) (sy + t * dy + off * sin (ang + pi / 2))
             (sx + real (i + 1) / real n * dx) (sy + real (i + 1) / real n * dy))"
  using assms unfolding generateSimpleWavyPath_def Let_def by (simp del: upt_Suc)

lemma quad_side:
  "dx * ((t * dy + off * sin (ang + pi / 2))) - dy * ((t * dx + off * cos (ang + pi / 2))) =
   off * (dx * cos ang + dy * sin ang)"
  by (simp add: cos_add sin_add algebra_simps)

lemma sqrt_25: "sqrt 25 = (5::real)"
  by (rule real_sqrt_unique) simp_all

lemma sqrt_10000: "sqrt 10000 = (100::real)"
  by (rule real_sqrt_unique) simp_all

lemma length_generateSimpleWavyPath:
  "List.length (generateSimpleWavyPath (sx, sy) (ex, ey) a wl) =
     nat \<lceil>sqrt ((ex - sx) * (ex - sx) + (ey - sy) * (ey - sy)) / wl\<rceil> + 1"
  by (simp add: generateSimpleWavyPath_def Let_def)

text \<open>A longer wavelength never gives more arcs.\<close>

lemma wavy_length_anti:
  assumes "0 < w1" "w1 \<le> w2"
  shows "List.length (generateSimpleWavyPath p0 p1 a w2) \<le> List.length (generateSimpleWavyPath p0 p1 a w1)"
proof -
  obtain sx sy ex ey where p: "p0 = (sx, sy)" "p1 = (ex, ey)" by fastforce
  let ?d = "sqrt ((ex - sx) * (ex - sx) + (ey - sy) * (ey - sy))"
  have "?d / w2 \<le> ?d / w1" using assms by (simp add: frac_le)
  then have "nat \<lceil>?d / w2\<rceil> \<le> nat \<lceil>?d / w1\<rceil>" by (intro nat_mono ceiling_mono)
  then show ?thesis by (simp only: p length_generateSimpleWavyPath)
qed

lemma squiggleFrequency_pos: "0 < squiggleFrequency mn mx v"
  by (simp add: squiggleFrequency_def Let_def)

subsection \<open>Properties of the resolvers\<close>

text \<open>A channel naming an attribute that the statistics table covers with a proper
  domain \<open>mn < mx\<close> and a numeric range \<open>[r0, r1]\<close> resolves to the linear rescaling
  \<open>r0 + (v - mn) / (mx - mn) * (r1 - r0)\<close> of the attribute's value.\<close>

lemma getDynamicStyleValue_scales:
  assumes "\<not> isHexColor s" and "map_of a s = Some v" and "map_of dmn s = Some (mn, mx)"
    and "mn < mx"
  shows "getDynamicStyleValue (SStr s) (Some a) (Some dmn) (RNum r0 r1) =
           Inr (VNum (r0 + (v - mn) / (mx - mn) * (r1 - r0)))"
  using assms by (simp add: getDynamicStyleValue_attr scaleLinear_num)

lemma getDynamicStyleValue_scales_witness:
  "\<not> isHexColor ''NDVI'' \<and> map_of [(''NDVI'', 0.5)] ''NDVI'' = Some 0.5 \<and>
   map_of [(''NDVI'', (0, 1))] ''NDVI'' = Some (0, 1) \<and> (0::real) < 1 \<and>
   getDynamicStyleValue (SStr ''NDVI'') (Some [(''NDVI'', 0.5)]) (Some [(''NDVI'', (0, 1))]) (RNum 0 10) =
     Inr (VNum 5)"
  using getDynamicStyleValue_scales [of "''NDVI''" "[(''NDVI'', 0.5)]" "0.5" "[(''NDVI'', (0, 1))]" 0 1 0 10]
  by (simp add: isHexColor_def)

text \<open>C39: A channel naming an attribute that the edge carries but that the statistics
  table passed as the domain lacks throws: \<open>domain[name].min\<close> is read on
  \<open>undefined\<close>.  This is the case of every string-valued thematic column (aggregated
  to 0 on the edges, absent from the thematic statistics) and of a channel scaled
  against the wrong table.\<close>

theorem getDynamicStyleValue_missing_stats:
  assumes "\<not> isHexColor s" and "map_of a s = Some v" and "map_of dmn s = None"
  shows "getDynamicStyleValue (SStr s) (Some a) (Some dmn) rng = Inl TypeError"
  using assms by (simp add: getDynamicStyleValue_def)

lemma getDynamicStyleValue_missing_stats_witness:
  "\<not> isHexColor ''street'' \<and> map_of [(''street'', 0)] ''street'' = Some 0 \<and>
   map_of [(''NDVI'', (0, 1))] ''street'' = None \<and>
   getDynamicStyleValue (SStr ''street'') (Some [(''street'', 0)]) (Some [(''NDVI'', (0, 1))]) (RNum 0 10) =
     Inl TypeError"
  using getDynamicStyleValue_missing_stats [of "''street''" "[(''street'', 0)]" 0 "[(''NDVI'', (0, 1))]" "RNum 0 10"]
  by (simp add: isHexColor_def)

text \<open>A value inside its domain \<open>[mn, mx]\<close> is mapped into the numeric range
  \<open>[r0, r1]\<close> (d3 does not clamp, so this is where the range bound comes from);
  a degenerate domain gives the middle of the range.\<close>

lemma getDynamicStyleValue_bounded:
  assumes "\<not> isHexColor s" and "map_of a s = Some v" and "map_of dmn s = Some (mn, mx)"
    and "mn \<le> v" and "v \<le> mx" and "r0 \<le> r1"
  shows "\<exists>y. getDynamicStyleValue (SStr s) (Some a) (Some dmn) (RNum r0 r1) = Inr (VNum y) \<and>
             r0 \<le> y \<and> y \<le> r1"
proof (cases "mn < mx")
  case True
  let ?t = "(v - mn) / (mx - mn)"
  have "0 \<le> ?t" "?t \<le> 1" using True assms(4,5) by (simp_all add: divide_le_eq_1)
  then have "r0 \<le> r0 + ?t * (r1 - r0) \<and> r0 + ?t * (r1 - r0) \<le> r1"
    using assms(6) by (rule interpolate_between)
  then show ?thesis using True assms(1-3) by (simp add: getDynamicStyleValue_attr scaleLinear_num)
next
  case False
  with assms(4,5) have "mn = mx" by simp
  then have "getDynamicStyleValue (SStr s) (Some a) (Some dmn) (RNum r0 r1) = Inr (VNum ((r0 + r1) / 2))"
    using assms(1-3) by (simp add: getDynamicStyleValue_attr scaleLinear_degenerate)
  moreover have "r0 \<le> (r0 + r1) / 2 \<and> (r0 + r1) / 2 \<le> r1" using assms(6) by simp
  ultimately show ?thesis by blast
qed

text \<open>Without a range, \<open>d3.scaleLinear\<close> keeps its default range [0, 1]: the
  resolver normalises the value to \<open>(v - mn) / (mx - mn)\<close>, it does not return it
  unchanged as the identity the specification describes.\<close>

lemma getDynamicStyleValue_default_range:
  assumes "\<not> isHexColor s" and "map_of a s = Some v" and "map_of dmn s = Some (mn, mx)"
    and "mn < mx"
  shows "getDynamicStyleValue (SStr s) (Some a) (Some dmn) RDefault = Inr (VNum ((v - mn) / (mx - mn)))"
  using assms by (simp add: getDynamicStyleValue_attr scaleLinear_default)

lemma getDynamicStyleValue_default_range_witness:
  "getDynamicStyleValue (SStr ''w'') (Some [(''w'', 10)]) (Some [(''w'', (0, 10))]) RDefault = Inr (VNum 1)"
  using getDynamicStyleValue_default_range [of "''w''" "[(''w'', 10)]" 10 "[(''w'', (0, 10))]" 0 10]
  by (simp add: isHexColor_def)

text \<open>Literals pass through: a number is returned unchanged, and so is a 3- or
  6-digit hex colour, whatever the attributes and statistics.\<close>

lemma getDynamicStyleValue_literals:
  "getDynamicStyleValue (SNum x) atts domain rng = Inr (VNum x) \<and>
   (isHexColor s \<longrightarrow> getDynamicStyleValue (SStr s) atts domain rng = Inr (VStr s))"
  by (simp add: getDynamicStyleValue_def)

lemma getDynamicStyleValue_literals_witness:
  "isHexColor ''#feb24c'' \<and>
   getDynamicStyleValue (SStr ''#feb24c'') (Some [(''count'', 3)]) None (RNum 0 1) = Inr (VStr ''#feb24c'')"
  using getDynamicStyleValue_literals [of 0 "Some [(''count'', 3)]" None "RNum 0 1" "''#feb24c''"]
  by (simp add: isHexColor_def hexValue_def)

text \<open>Dash bucketing on a proper domain: the value at \<open>min\<close> gets the short
  pattern, the midpoint the medium one, the value at \<open>max\<close> the long one.\<close>

lemma getDashArray_buckets:
  assumes "n \<noteq> []" and "map_of dmn n = Some (mn, mx)" and "mn < mx"
  shows "getDashArray (Some n) (Some [(n, mn)]) (Some dmn) = Inr ''5, 3'' \<and>
         getDashArray (Some n) (Some [(n, (mn + mx) / 2)]) (Some dmn) = Inr ''7, 5'' \<and>
         getDashArray (Some n) (Some [(n, mx)]) (Some dmn) = Inr ''12, 8''"
  using assms by (simp add: getDashArray_def field_simps)

lemma getDashArray_buckets_witness:
  "getDashArray (Some ''c'') (Some [(''c'', 0)]) (Some [(''c'', (0, 9))]) = Inr ''5, 3'' \<and>
   getDashArray (Some ''c'') (Some [(''c'', (0 + 9) / 2)]) (Some [(''c'', (0, 9))]) = Inr ''7, 5'' \<and>
   getDashArray (Some ''c'') (Some [(''c'', 9)]) (Some [(''c'', (0, 9))]) = Inr ''12, 8''"
  using getDashArray_buckets [of "''c''" "[(''c'', (0, 9))]" 0 9] by simp

text \<open>On a degenerate domain (every edge has the same value) the value at
  \<open>min\<close> gets the long dash, not the short one: all three bins are empty.\<close>

lemma getDashArray_degenerate_min:
  "n \<noteq> [] \<Longrightarrow> getDashArray (Some n) (Some [(n, m)]) (Some [(n, (m, m))]) = Inr ''12, 8''"
  by (simp add: getDashArray_def)

lemma getDashArray_degenerate_min_witness:
  "getDashArray (Some ''c'') (Some [(''c'', 5)]) (Some [(''c'', (5, 5))]) = Inr ''12, 8''"
  using getDashArray_degenerate_min [of "''c''" 5] by simp

text \<open>The squiggle frequency never decreases as the value grows above the
  domain's minimum.\<close>

lemma squiggleFrequency_mono:
  assumes "mn \<le> mx" and "mn \<le> v" and "v \<le> w"
  shows "squiggleFrequency mn mx v \<le> squiggleFrequency mn mx w"
  using assms by (simp add: squiggleFrequency_def Let_def)

lemma squiggleFrequency_mono_witness:
  "squiggleFrequency 0 8 1 \<le> squiggleFrequency 0 8 7 \<and> squiggleFrequency 0 8 1 = 5 \<and>
   squiggleFrequency 0 8 7 = 60"
  using squiggleFrequency_mono [of 0 8 1 7] by (simp add: squiggleFrequency_def Let_def)

text \<open>A value below the domain's minimum falls through every guard and gets the
  highest frequency 60, not the lowest.\<close>

lemma squiggleFrequency_below_min:
  "mn \<le> mx \<Longrightarrow> v < mn \<Longrightarrow> squiggleFrequency mn mx v = 60"
  unfolding squiggleFrequency_def Let_def by (auto simp: field_simps)

lemma squiggleFrequency_below_min_witness: "squiggleFrequency 1 9 0 = 60"
  using squiggleFrequency_below_min [of 1 9 0] by simp

text \<open>Each channel of the bivariate blend lies between the corresponding
  channels of the two ramp colours.\<close>

lemma getBivariateColor_between:
  assumes "interp1 val1 = (r1, g1, b1)" and "interp2 val2 = (r2, g2, b2)"
  shows "\<exists>r g b. getBivariateColor interp1 interp2 val1 val2 = (r, g, b) \<and>
           min r1 r2 \<le> r \<and> r \<le> max r1 r2 \<and> min g1 g2 \<le> g \<and> g \<le> max g1 g2 \<and>
           min b1 b2 \<le> b \<and> b \<le> max b1 b2"
  using assms js_round_midpoint_between [of r1 r2] js_round_midpoint_between [of g1 g2]
    js_round_midpoint_between [of b1 b2]
  by (simp add: getBivariateColor_def)

lemma getBivariateColor_between_witness:
  "\<exists>r g b. getBivariateColor (\<lambda>_. (247, 252, 253)) (\<lambda>_. (127, 0, 0)) 0 1 = (r, g, b) \<and>
     127 \<le> r \<and> r \<le> 247 \<and> 0 \<le> g \<and> g \<le> 252 \<and> 0 \<le> b \<and> b \<le> 253"
  using getBivariateColor_between [of "\<lambda>_. (247, 252, 253)" 0 247 252 253 "\<lambda>_. (127, 0, 0)" 1 127 0 0]
  by simp

text \<open>A wavy path between distinct points starts with a move to the start point,
  has one quadratic arc per wavelength (rounded up), and its last arc ends at the end
  point.\<close>

lemma generateSimpleWavyPath_shape:
  assumes "0 < wavelength" and "(sx, sy) \<noteq> (ex, ey)"
  shows "List.length (generateSimpleWavyPath (sx, sy) (ex, ey) a wavelength) =
           nat \<lceil>sqrt ((ex - sx) * (ex - sx) + (ey - sy) * (ey - sy)) / wavelength\<rceil> + 1 \<and>
         hd (generateSimpleWavyPath (sx, sy) (ex, ey) a wavelength) = MoveTo sx sy \<and>
         (\<exists>cx cy. last (generateSimpleWavyPath (sx, sy) (ex, ey) a wavelength) = QuadTo cx cy ex ey)"
proof -
  let ?d = "sqrt ((ex - sx) * (ex - sx) + (ey - sy) * (ey - sy))"
  let ?n = "nat \<lceil>?d / wavelength\<rceil>"
  have "0 < (ex - sx) * (ex - sx) + (ey - sy) * (ey - sy)"
    using assms(2) by (auto simp: add_pos_nonneg sum_squares_gt_zero_iff)
  then have "0 < ?d / wavelength" using assms(1) by simp
  then have n: "0 < ?n" by simp
  then obtain m where m: "?n = Suc m" by (cases ?n) auto
  have "real (Suc m) / real (Suc m) = 1" by simp
  then show ?thesis
    by (simp add: generateSimpleWavyPath_def Let_def m del: upt_Suc add: upt_Suc_append last_map)
qed

lemma generateSimpleWavyPath_shape_witness:
  "List.length (generateSimpleWavyPath (0, 0) (3, 4) 25 1) = 6 \<and>
   hd (generateSimpleWavyPath (0, 0) (3, 4) 25 1) = MoveTo 0 0 \<and>
   (\<exists>cx cy. last (generateSimpleWavyPath (0, 0) (3, 4) 25 1) = QuadTo cx cy 3 4)"
  using generateSimpleWavyPath_shape [of 1 0 0 3 4 25] by (simp add: sqrt_25)

text \<open>The control point of arc \<open>i\<close> lies at signed distance \<open>amplitude * (-1)^i\<close>
  from the line through the two points (the cross product below is that distance
  times the segment's length): the wave alternates sides every half-wave.\<close>

lemma generateSimpleWavyPath_alternates:
  assumes "(sx, sy) \<noteq> (ex, ey)"
    and "i < nat \<lceil>sqrt ((ex - sx) * (ex - sx) + (ey - sy) * (ey - sy)) / wavelength\<rceil>"
  shows "\<exists>cx cy px py. generateSimpleWavyPath (sx, sy) (ex, ey) a wavelength ! Suc i = QuadTo cx cy px py \<and>
           (ex - sx) * (cy - sy) - (ey - sy) * (cx - sx) =
             a * (-1) ^ i * sqrt ((ex - sx) * (ex - sx) + (ey - sy) * (ey - sy))"
proof -
  define dx dy where "dx = ex - sx" and "dy = ey - sy"
  define n where "n = nat \<lceil>sqrt (dx * dx + dy * dy) / wavelength\<rceil>"
  define t off ang where "t = (real i + 0.5) / real n" and "off = a * sin ((real i + 0.5) * pi)"
    and "ang = atan2 dy dx"
  have nz: "dx \<noteq> 0 \<or> dy \<noteq> 0" using assms(1) by (auto simp: dx_def dy_def)
  have nth: "generateSimpleWavyPath (sx, sy) (ex, ey) a wavelength ! Suc i =
      QuadTo (sx + t * dx + off * cos (ang + pi / 2)) (sy + t * dy + off * sin (ang + pi / 2))
             (sx + real (i + 1) / real n * dx) (sy + real (i + 1) / real n * dy)"
    using wavy_nth [OF assms(2), of a] unfolding Let_def dx_def dy_def n_def t_def off_def ang_def .
  have "dx * ((sy + t * dy + off * sin (ang + pi / 2)) - sy) - dy * ((sx + t * dx + off * cos (ang + pi / 2)) - sx) =
        off * (dx * cos ang + dy * sin ang)"
    using quad_side [of dx t dy off ang] by simp
  also have "\<dots> = a * (-1) ^ i * sqrt (dx * dx + dy * dy)"
    using nz by (simp add: polar_dot off_def ang_def sin_half_wave)
  finally show ?thesis using nth by (auto simp: dx_def dy_def)
qed

lemma generateSimpleWavyPath_alternates_witness:
  "\<exists>cx cy px py. generateSimpleWavyPath (0, 0) (3, 4) 2 1 ! Suc 1 = QuadTo cx cy px py \<and>
     3 * cy - 4 * cx = -10"
  using generateSimpleWavyPath_alternates [of 0 0 3 4 1 1 2] by (simp add: sqrt_25)

end
