(* ===== verification/Loader.thy ===== *)
theory Loader
  imports Turf
begin

text \<open>
  The two loaders of \<open>src/editor/src/utils/geoHelpers.ts\<close>, from the parsed file
  content on: \<open>loadThematicData\<close> (lines 155--237) takes the rows \<open>d3.csv\<close> returns
  after \<open>d3.autoType\<close>, \<open>None\<close> when the request fails; \<open>loadPhysicalData\<close>
  (lines 239--306) takes the GeoJSON value \<open>d3.json\<close> returns, \<open>None\<close> when the
  request fails or yields nothing.  The fetches themselves are I/O and not modelled.
  \<open>parseFloat\<close> on a string reads an optional sign, integer digits and a fraction;
  leading white space, exponents and \<open>Infinity\<close> are not modelled (\<open>d3.autoType\<close>
  has already turned every string that is a whole number literal into a number).
\<close>

subsection \<open>Thematic loader\<close>

type_synonym csv_row = "(string \<times> cell) list"

definition isDigit :: "char \<Rightarrow> bool" where
  "isDigit c = (48 \<le> (of_char c :: nat) \<and> (of_char c :: nat) \<le> 57)"

definition digitsNat :: "string \<Rightarrow> nat" where
  "digitsNat ds = foldl (\<lambda>n d. 10 * n + (of_char d - 48)) 0 ds"

definition parseFloatStr :: "string \<Rightarrow> real option" where
  "parseFloatStr s =
     (let (sgn, r) = (case s of
                        c # r \<Rightarrow> if c = CHR ''-'' then (-1 :: real, r)
                                 else if c = CHR ''+'' then (1, r) else (1, s)
                      | [] \<Rightarrow> (1, s));
          ip = takeWhile isDigit r; rest = dropWhile isDigit r;
          fp = (case rest of c # r2 \<Rightarrow> if c = CHR ''.'' then takeWhile isDigit r2 else [] | [] \<Rightarrow> [])
      in if ip = [] \<and> fp = [] then None
         else Some (sgn * (real (digitsNat ip) + real (digitsNat fp) / 10 ^ List.length fp)))"

fun parseFloatCell :: "cell \<Rightarrow> real option" where
  \<comment> \<open>\<open>parseFloat(x)\<close>, \<open>None\<close> for \<open>NaN\<close>\<close>
  "parseFloatCell (CNum x) = Some x"
| "parseFloatCell (CStr s) = parseFloatStr s"
| "parseFloatCell (CBool b) = None"
| "parseFloatCell CNull = None"

definition parseCoord :: "csv_row \<Rightarrow> string \<Rightarrow> real option" where
  \<comment> \<open>\<open>d[col] !== undefined && d[col] !== null\<close>, then \<open>parseFloat\<close> and the \<open>isNaN\<close> test\<close>
  "parseCoord d col =
     (case map_of d col of None \<Rightarrow> None | Some CNull \<Rightarrow> None | Some c \<Rightarrow> parseFloatCell c)"

definition skipKey :: "string \<Rightarrow> string \<Rightarrow> string \<Rightarrow> bool" where
  "skipKey latCol lonCol key = (key = ''lat'' \<or> key = ''lon'' \<or> key = latCol \<or> key = lonCol)"

fun trackMinMax :: "string \<Rightarrow> string \<Rightarrow> attrs \<times> attrs \<Rightarrow> string \<times> cell \<Rightarrow> attrs \<times> attrs" where
  \<comment> \<open>one step of \<open>for (const key in newRow)\<close>\<close>
  "trackMinMax latCol lonCol (mins, maxs) (key, v) =
     (if skipKey latCol lonCol key then (mins, maxs)
      else (case v of
              CNum x \<Rightarrow>
                ((case map_of mins key of None \<Rightarrow> AList.update key x mins
                  | Some m \<Rightarrow> if x < m then AList.update key x mins else mins),
                 (case map_of maxs key of None \<Rightarrow> AList.update key x maxs
                  | Some m \<Rightarrow> if x > m then AList.update key x maxs else maxs))
            | _ \<Rightarrow> (mins, maxs)))"

definition keptPoint :: "string \<Rightarrow> string \<Rightarrow> csv_row \<Rightarrow> tpoint list" where
  \<comment> \<open>\<open>if (lat !== null && lon !== null)\<close>: the row with \<open>lat\<close> and \<open>lon\<close> set, or nothing\<close>
  "keptPoint latCol lonCol d =
     (case (parseCoord d latCol, parseCoord d lonCol) of
        (Some x, Some y) \<Rightarrow>
          [\<lparr>tlat = x, tlon = y, trow = AList.update ''lon'' (CNum y) (AList.update ''lat'' (CNum x) d)\<rparr>]
      | _ \<Rightarrow> [])"

definition processRow ::
  "string \<Rightarrow> string \<Rightarrow> tpoint list \<times> attrs \<times> attrs \<Rightarrow> csv_row \<Rightarrow> tpoint list \<times> attrs \<times> attrs" where
  \<comment> \<open>the body of \<open>for (const d of thematicData)\<close>: the statistics are updated before
      the row is kept or dropped\<close>
  "processRow latCol lonCol acc d =
     (case acc of (pts, mm) \<Rightarrow>
        (pts @ keptPoint latCol lonCol d, foldl (trackMinMax latCol lonCol) mm d))"

definition buildStats :: "attrs \<Rightarrow> attrs \<Rightarrow> stats" where
  \<comment> \<open>\<open>for (const key in attributeMins)\<close> with both entries present\<close>
  "buildStats mins maxs =
     foldl (\<lambda>st km. case map_of maxs (fst km) of
                      None \<Rightarrow> st | Some mx \<Rightarrow> AList.update (fst km) (snd km, mx) st) [] mins"

definition loadThematicData :: "string \<Rightarrow> string \<Rightarrow> csv_row list option \<Rightarrow> thematic_data" where
  "loadThematicData latCol lonCol input =
     (case input of
        None \<Rightarrow> \<lparr>tdata = [], tstats = []\<rparr>
      | Some csvRows \<Rightarrow>
          (case foldl (processRow latCol lonCol) ([], [], []) csvRows of
             (pts, mins, maxs) \<Rightarrow> \<lparr>tdata = pts, tstats = buildStats mins maxs\<rparr>))"

subsection \<open>Physical loader\<close>

datatype geometry = LineString "pos list" | OtherGeometry

record feature =
  fgeometry :: "geometry option"

datatype geojson = FeatureCollection "feature list option" | Feature feature | OtherGeoJSON

definition mkEdge :: "geo_lib \<Rightarrow> pos \<Rightarrow> pos \<Rightarrow> edge" where
  \<comment> \<open>one iteration of the vertex loop: coordinates are \<open>[lon, lat]\<close>\<close>
  "mkEdge g s e =
     \<lparr>point0 = \<lparr>lat = snd s, lon = fst s\<rparr>, point1 = \<lparr>lat = snd e, lon = fst e\<rparr>,
      bearing = turf_bearing g s e, edge_length = turf_length g s e, attributes = None\<rparr>"

definition featureEdges :: "geo_lib \<Rightarrow> feature \<Rightarrow> edge list" where
  "featureEdges g f =
     (case fgeometry f of
        Some (LineString coords) \<Rightarrow>
          if 2 \<le> List.length coords
          then map (\<lambda>i. mkEdge g (coords ! i) (coords ! (i + 1))) [0..<List.length coords - 1]
          else []
      | _ \<Rightarrow> [])"

definition loadPhysicalData :: "geo_lib \<Rightarrow> geojson option \<Rightarrow> edge list" where
  "loadPhysicalData g input =
     (case input of
        None \<Rightarrow> []
      | Some (FeatureCollection (Some fs)) \<Rightarrow> concat (map (featureEdges g) fs)
      | Some (FeatureCollection None) \<Rightarrow> []
      | Some (Feature f) \<Rightarrow> concat (map (featureEdges g) [f])
      | Some OtherGeoJSON \<Rightarrow> [])"

subsection \<open>Reference definitions\<close>

text \<open>The numeric values a column holds in a row.\<close>

definition rowNums :: "string \<Rightarrow> csv_row \<Rightarrow> real list" where
  "rowNums k d = concat (map (\<lambda>kc. if fst kc = k then (case snd kc of CNum x \<Rightarrow> [x] | _ \<Rightarrow> []) else []) d)"

definition sample_rows :: "csv_row list" where
  "sample_rows =
     [[(''latitude'', CNum 40), (''longitude'', CNum (-74)), (''count'', CNum 3), (''name'', CStr ''a'')],
      [(''latitude'', CNull), (''longitude'', CNum (-74)), (''count'', CNum 9)],
      [(''latitude'', CStr ''41.5N''), (''longitude'', CNum (-73)), (''count'', CNum 1)]]"

definition sample_line :: feature where
  "sample_line = \<lparr>fgeometry = Some (LineString [(0, 0), (1, 0), (1, 1)])\<rparr>"

subsection \<open>Folds of the loaders\<close>

lemma rowNums_simps [simp]:
  "rowNums k [] = []"
  "rowNums k ((k', c) # d) = (if k' = k then (case c of CNum x \<Rightarrow> [x] | _ \<Rightarrow> []) else []) @ rowNums k d"
  by (simp_all add: rowNums_def)

lemma rowNums_append [simp]: "rowNums k (d @ e) = rowNums k d @ rowNums k e"
  by (simp add: rowNums_def)

lemma foldl_processRow:
  "foldl (processRow latCol lonCol) (pts, mm) rs =
     (pts @ concat (map (keptPoint latCol lonCol) rs), foldl (trackMinMax latCol lonCol) mm (concat rs))"
  by (induction rs arbitrary: pts mm) (simp_all add: processRow_def)

lemma trackMinMax_skip:
  "skipKey latCol lonCol k \<Longrightarrow>
     map_of (fst (foldl (trackMinMax latCol lonCol) mm cs)) k = map_of (fst mm) k \<and>
     map_of (snd (foldl (trackMinMax latCol lonCol) mm cs)) k = map_of (snd mm) k"
proof (induction cs arbitrary: mm)
  case Nil
  then show ?case by simp
next
  case (Cons kc cs)
  obtain key c where kc: "kc = (key, c)" by fastforce
  obtain mins maxs where mm: "mm = (mins, maxs)" by fastforce
  have "map_of (fst (trackMinMax latCol lonCol mm kc)) k = map_of mins k \<and>
        map_of (snd (trackMinMax latCol lonCol mm kc)) k = map_of maxs k"
    using Cons.prems by (auto simp: kc mm update_conv' split: cell.split option.split)
  then show ?case using Cons.IH [OF Cons.prems, of "trackMinMax latCol lonCol mm kc"] by (simp add: mm)
qed

lemma trackMinMax_mins:
  assumes "\<not> skipKey latCol lonCol k"
  shows "map_of (fst (foldl (trackMinMax latCol lonCol) (mins, maxs) cs)) k =
     (case map_of mins k of
        None \<Rightarrow> (if rowNums k cs = [] then None else Some (Min (set (rowNums k cs))))
      | Some m \<Rightarrow> Some (Min (insert m (set (rowNums k cs)))))"
proof (induction cs arbitrary: mins maxs)
  case Nil
  then show ?case by (simp split: option.split)
next
  case (Cons kc cs)
  obtain key c where kc: "kc = (key, c)" by fastforce
  obtain mins' maxs' where step: "trackMinMax latCol lonCol (mins, maxs) kc = (mins', maxs')" by fastforce
  let ?V = "set (rowNums k cs)"
  have IH: "map_of (fst (foldl (trackMinMax latCol lonCol) (mins, maxs) (kc # cs))) k =
     (case map_of mins' k of
        None \<Rightarrow> (if rowNums k cs = [] then None else Some (Min ?V))
      | Some m \<Rightarrow> Some (Min (insert m ?V)))"
    using Cons.IH [of mins' maxs'] step by simp
  show ?case
  proof (cases "key = k \<and> (\<exists>x. c = CNum x)")
    case True
    then obtain x where x: "key = k" "c = CNum x" by blast
    have m': "map_of mins' k = Some (case map_of mins k of None \<Rightarrow> x | Some m \<Rightarrow> min x m)"
      using step assms by (auto simp: kc x update_conv' min_def split: option.split)
    show ?thesis
    proof (cases "map_of mins k")
      case None
      then show ?thesis using IH m' by (simp add: kc x)
    next
      case (Some m)
      have "Min (insert (min x m) ?V) = Min (insert m (insert x ?V))"
        by (simp add: Min_insert_min insert_commute)
      then show ?thesis using IH m' Some by (simp add: kc x)
    qed
  next
    case False
    then have mq: "map_of mins' k = map_of mins k"
      using step by (cases c) (auto simp: kc update_conv' split: if_splits option.splits)
    have rn: "rowNums k (kc # cs) = rowNums k cs"
      using False by (cases c) (auto simp: kc)
    show ?thesis using IH by (simp only: rn mq)
  qed
qed

lemma trackMinMax_maxs:
  assumes "\<not> skipKey latCol lonCol k"
  shows "map_of (snd (foldl (trackMinMax latCol lonCol) (mins, maxs) cs)) k =
     (case map_of maxs k of
        None \<Rightarrow> (if rowNums k cs = [] then None else Some (Max (set (rowNums k cs))))
      | Some m \<Rightarrow> Some (Max (insert m (set (rowNums k cs)))))"
proof (induction cs arbitrary: mins maxs)
  case Nil
  then show ?case by (simp split: option.split)
next
  case (Cons kc cs)
  obtain key c where kc: "kc = (key, c)" by fastforce
  obtain mins' maxs' where step: "trackMinMax latCol lonCol (mins, maxs) kc = (mins', maxs')" by fastforce
  let ?V = "set (rowNums k cs)"
  have IH: "map_of (snd (foldl (trackMinMax latCol lonCol) (mins, maxs) (kc # cs))) k =
     (case map_of maxs' k of
        None \<Rightarrow> (if rowNums k cs = [] then None else Some (Max ?V))
      | Some m \<Rightarrow> Some (Max (insert m ?V)))"
    using Cons.IH [of mins' maxs'] step by simp
  show ?case
  proof (cases "key = k \<and> (\<exists>x. c = CNum x)")
    case True
    then obtain x where x: "key = k" "c = CNum x" by blast
    have m': "map_of maxs' k = Some (case map_of maxs k of None \<Rightarrow> x | Some m \<Rightarrow> max x m)"
      using step assms by (auto simp: kc x update_conv' max_def split: option.split)
    show ?thesis
    proof (cases "map_of maxs k")
      case None
      then show ?thesis using IH m' by (simp add: kc x)
    next
      case (Some m)
      have "Max (insert (max x m) ?V) = Max (insert m (insert x ?V))"
        by (simp add: Max_insert_max insert_commute)
      then show ?thesis using IH m' Some by (simp add: kc x)
    qed
  next
    case False
    then have mq: "map_of maxs' k = map_of maxs k"
      using step by (cases c) (auto simp: kc update_conv' split: if_splits option.splits)
    have rn: "rowNums k (kc # cs) = rowNums k cs"
      using False by (cases c) (auto simp: kc)
    show ?thesis using IH by (simp only: rn mq)
  qed
qed

lemma distinct_trackMinMax:
  "distinct (map fst (fst mm)) \<and> distinct (map fst (snd mm)) \<Longrightarrow>
     distinct (map fst (fst (foldl (trackMinMax latCol lonCol) mm cs))) \<and>
     distinct (map fst (snd (foldl (trackMinMax latCol lonCol) mm cs)))"
proof (induction cs arbitrary: mm)
  case Nil
  then show ?case by simp
next
  case (Cons kc cs)
  obtain key c where kc: "kc = (key, c)" by fastforce
  obtain mins maxs where mm: "mm = (mins, maxs)" by fastforce
  have "distinct (map fst (fst (trackMinMax latCol lonCol mm kc))) \<and>
        distinct (map fst (snd (trackMinMax latCol lonCol mm kc)))"
    using Cons.prems by (auto simp: kc mm distinct_update split: cell.split option.split)
  then show ?case using Cons.IH by simp
qed

lemma map_of_buildStats:
  assumes "distinct (map fst mins)"
  shows "map_of (foldl (\<lambda>st km. case map_of maxs (fst km) of
                      None \<Rightarrow> st | Some mx \<Rightarrow> AList.update (fst km) (snd km, mx) st) st mins) k =
     (case map_of mins k of
        None \<Rightarrow> map_of st k
      | Some mn \<Rightarrow> (case map_of maxs k of None \<Rightarrow> map_of st k | Some mx \<Rightarrow> Some (mn, mx)))"
  using assms
proof (induction mins arbitrary: st)
  case Nil
  then show ?case by simp
next
  case (Cons km mins)
  obtain k' mn where km: "km = (k', mn)" by fastforce
  have nk: "k' \<notin> fst ` set mins" using Cons.prems by (simp add: km)
  define st' where "st' = (case map_of maxs k' of None \<Rightarrow> st | Some mx \<Rightarrow> AList.update k' (mn, mx) st)"
  have IH: "map_of (foldl (\<lambda>st km. case map_of maxs (fst km) of
                      None \<Rightarrow> st | Some mx \<Rightarrow> AList.update (fst km) (snd km, mx) st) st (km # mins)) k =
     (case map_of mins k of
        None \<Rightarrow> map_of st' k
      | Some m0 \<Rightarrow> (case map_of maxs k of None \<Rightarrow> map_of st' k | Some mx \<Rightarrow> Some (m0, mx)))"
  proof -
    have "foldl (\<lambda>st km. case map_of maxs (fst km) of
                      None \<Rightarrow> st | Some mx \<Rightarrow> AList.update (fst km) (snd km, mx) st) st (km # mins) =
          foldl (\<lambda>st km. case map_of maxs (fst km) of
                      None \<Rightarrow> st | Some mx \<Rightarrow> AList.update (fst km) (snd km, mx) st) st' mins"
      by (cases "map_of maxs k'") (simp_all add: km st'_def)
    then show ?thesis using Cons.IH [of st'] Cons.prems by simp
  qed
  show ?case
  proof (cases "k = k'")
    case True
    then have "map_of mins k = None" using nk by (simp add: map_of_eq_None_iff)
    moreover have "map_of st' k = (case map_of maxs k of None \<Rightarrow> map_of st k | Some mx \<Rightarrow> Some (mn, mx))"
      using True by (cases "map_of maxs k'") (simp_all add: st'_def update_conv')
    ultimately show ?thesis using IH True by (simp add: km)
  next
    case False
    then have "map_of st' k = map_of st k"
      by (cases "map_of maxs k'") (simp_all add: st'_def update_conv')
    then show ?thesis using IH False by (simp add: km split: option.split)
  qed
qed

text \<open>A column with no numeric cell gets no statistics entry.\<close>

lemma tstats_no_numbers:
  assumes "rowNums k (concat rs) = []"
  shows "map_of (tstats (loadThematicData latCol lonCol (Some rs))) k = None"
proof -
  obtain mins maxs where mm: "foldl (trackMinMax latCol lonCol) ([], []) (concat rs) = (mins, maxs)"
    by fastforce
  have "distinct (map fst (fst (foldl (trackMinMax latCol lonCol) ([], []) (concat rs))))"
    using distinct_trackMinMax [of "([], [])"] by simp
  then have dist: "distinct (map fst mins)" by (simp add: mm)
  have tst: "tstats (loadThematicData latCol lonCol (Some rs)) = buildStats mins maxs"
    by (simp add: loadThematicData_def foldl_processRow mm)
  have "map_of mins k = None"
  proof (cases "skipKey latCol lonCol k")
    case True
    then show ?thesis using trackMinMax_skip [OF True, of "([], [])" "concat rs"] mm by simp
  next
    case False
    then show ?thesis using trackMinMax_mins [OF False, of "[]" "[]" "concat rs"] mm assms by simp
  qed
  then show ?thesis by (simp add: tst buildStats_def map_of_buildStats [OF dist])
qed

lemma loadPhysicalData_feature:
  assumes "e \<in> set (loadPhysicalData g input)"
  shows "\<exists>f. e \<in> set (featureEdges g f)"
proof -
  consider "input = None" | fs where "input = Some (FeatureCollection (Some fs))"
    | "input = Some (FeatureCollection None)" | f where "input = Some (Feature f)"
    | "input = Some OtherGeoJSON"
    by (metis geojson.exhaust option.exhaust)
  then show ?thesis using assms by cases (auto simp: loadPhysicalData_def)
qed

lemma loadPhysicalData_no_attributes:
  "e \<in> set (loadPhysicalData g input) \<Longrightarrow> attributes e = None"
  using loadPhysicalData_feature [of e g input]
  by (auto simp: featureEdges_def mkEdge_def split: option.splits geometry.splits if_splits)

lemma featureEdges_length:
  "List.length (featureEdges g f) = (case fgeometry f of Some (LineString cs) \<Rightarrow> List.length cs - 1 | _ \<Rightarrow> 0)"
  by (simp add: featureEdges_def split: option.split geometry.split)

lemma loadThematicData_tdata:
  "tdata (loadThematicData latCol lonCol (Some rs)) = concat (map (keptPoint latCol lonCol) rs)"
  by (simp add: loadThematicData_def foldl_processRow split: prod.split)

lemma keptPoint_keys:
  assumes "p \<in> set (keptPoint latCol lonCol d)"
  shows "parseCoord d latCol \<noteq> None \<and> fst ` set (trow p) = insert ''lat'' (insert ''lon'' (fst ` set d))"
proof -
  obtain x y where xy: "parseCoord d latCol = Some x" "parseCoord d lonCol = Some y"
    using assms by (cases "parseCoord d latCol"; cases "parseCoord d lonCol") (auto simp: keptPoint_def)
  then have "p = \<lparr>tlat = x, tlon = y, trow = AList.update ''lon'' (CNum y) (AList.update ''lat'' (CNum x) d)\<rparr>"
    using assms by (simp add: keptPoint_def)
  then show ?thesis using xy by (simp add: keys_update insert_commute)
qed

lemma parseCoord_key:
  assumes "parseCoord d col \<noteq> None"
  shows "col \<in> fst ` set d"
proof -
  have "map_of d col \<noteq> None" using assms by (cases "map_of d col") (simp_all add: parseCoord_def)
  then show ?thesis by (simp add: map_of_eq_None_iff)
qed

subsection \<open>Properties of the loaders\<close>

text \<open>The physical loader decomposes every LineString of N vertices into N - 1 edges
  (none for fewer than two vertices) and other geometries into none.\<close>

lemma loadPhysicalData_count:
  "List.length (loadPhysicalData g (Some (FeatureCollection (Some fs)))) =
     sum_list (map (\<lambda>f. case fgeometry f of Some (LineString cs) \<Rightarrow> List.length cs - 1 | _ \<Rightarrow> 0) fs)"
  by (simp add: loadPhysicalData_def length_concat featureEdges_length comp_def)

text \<open>The edges of one polyline, read back as their start points followed by the last
  end point, give its vertices with \<open>[lon, lat]\<close> turned into \<open>{lat, lon}\<close>: the
  decomposition is consecutive and loses nothing.\<close>

lemma featureEdges_vertices:
  assumes "fgeometry f = Some (LineString cs)" and "2 \<le> List.length cs"
  shows "map point0 (featureEdges g f) @ [point1 (last (featureEdges g f))] =
           map (\<lambda>c. \<lparr>lat = snd c, lon = fst c\<rparr>) cs"
proof (rule nth_equalityI)
  let ?n = "List.length cs"
  have es: "featureEdges g f = map (\<lambda>i. mkEdge g (cs ! i) (cs ! (i + 1))) [0..<?n - 1]"
    using assms by (simp add: featureEdges_def)
  show "List.length (map point0 (featureEdges g f) @ [point1 (last (featureEdges g f))]) =
        List.length (map (\<lambda>c. \<lparr>lat = snd c, lon = fst c\<rparr>) cs)"
    using assms(2) by (simp add: es)
  fix i assume "i < List.length (map point0 (featureEdges g f) @ [point1 (last (featureEdges g f))])"
  then have i: "i < ?n" using assms(2) by (simp add: es)
  show "(map point0 (featureEdges g f) @ [point1 (last (featureEdges g f))]) ! i =
        map (\<lambda>c. \<lparr>lat = snd c, lon = fst c\<rparr>) cs ! i"
  proof (cases "i < ?n - 1")
    case True
    then show ?thesis using i by (simp add: es nth_append mkEdge_def)
  next
    case False
    then have "i = ?n - 1" using i by simp
    moreover have "[0..<?n - 1] \<noteq> []" using assms(2) by simp
    moreover have "Suc (?n - Suc (Suc 0)) = ?n - Suc 0" using assms(2) by simp
    ultimately show ?thesis using assms(2) by (simp add: es nth_append mkEdge_def last_map)
  qed
qed

lemma featureEdges_vertices_witness:
  "fgeometry sample_line = Some (LineString [(0, 0), (1, 0), (1, 1)]) \<and> 2 \<le> List.length [(0::real, 0::real), (1, 0), (1, 1)] \<and>
   map point0 (featureEdges taxicab_lib sample_line) @ [point1 (last (featureEdges taxicab_lib sample_line))] =
     [\<lparr>lat = 0, lon = 0\<rparr>, \<lparr>lat = 0, lon = 1\<rparr>, \<lparr>lat = 1, lon = 1\<rparr>]"
  using featureEdges_vertices [of sample_line "[(0, 0), (1, 0), (1, 1)]" taxicab_lib]
  by (simp add: sample_line_def)

text \<open>Every loaded edge carries no attributes, and its bearing and length are the
  library's bearing and length between its own two end points.\<close>

lemma loadPhysicalData_edge:
  assumes "e \<in> set (loadPhysicalData g input)"
  shows "attributes e = None \<and>
         bearing e = turf_bearing g (lon (point0 e), lat (point0 e)) (lon (point1 e), lat (point1 e)) \<and>
         edge_length e = turf_length g (lon (point0 e), lat (point0 e)) (lon (point1 e), lat (point1 e))"
proof -
  obtain f where "e \<in> set (featureEdges g f)" using loadPhysicalData_feature [OF assms] by blast
  then show ?thesis
    by (auto simp: featureEdges_def mkEdge_def split: option.splits geometry.splits if_splits)
qed

lemma loadPhysicalData_edge_witness:
  "\<lparr>point0 = \<lparr>lat = 0, lon = 1\<rparr>, point1 = \<lparr>lat = 1, lon = 1\<rparr>, bearing = 0, edge_length = 111320,
     attributes = None\<rparr> \<in> set (loadPhysicalData taxicab_lib (Some (Feature sample_line))) \<and>
   edge_length \<lparr>point0 = \<lparr>lat = 0, lon = 1\<rparr>, point1 = \<lparr>lat = 1, lon = 1\<rparr>, bearing = 0,
     edge_length = 111320, attributes = None\<rparr> = turf_length taxicab_lib (1, 0) (1, 1)"
proof -
  have "\<lparr>point0 = \<lparr>lat = 0, lon = 1\<rparr>, point1 = \<lparr>lat = 1, lon = 1\<rparr>, bearing = 0, edge_length = 111320,
     attributes = None\<rparr> \<in> set (loadPhysicalData taxicab_lib (Some (Feature sample_line)))"
    by (simp add: loadPhysicalData_def featureEdges_def sample_line_def mkEdge_def taxicab_lib_def deg_m_def)
  then show ?thesis using loadPhysicalData_edge by fastforce
qed

text \<open>C32: The thematic statistics hold, for every column other than \<open>lat\<close>, \<open>lon\<close> and
  the two coordinate columns, exactly the minimum and maximum of its numeric values over
  all rows, including the rows dropped for a missing or unparseable coordinate.\<close>

theorem loadThematicData_stats_exact:
  "map_of (tstats (loadThematicData latCol lonCol (Some rs))) k =
     (let V = (if skipKey latCol lonCol k then [] else rowNums k (concat rs))
      in if V = [] then None else Some (Min (set V), Max (set V)))"
proof -
  obtain mins maxs where mm: "foldl (trackMinMax latCol lonCol) ([], []) (concat rs) = (mins, maxs)"
    by fastforce
  have "distinct (map fst (fst (foldl (trackMinMax latCol lonCol) ([], []) (concat rs))))"
    using distinct_trackMinMax [of "([], [])"] by simp
  then have dist: "distinct (map fst mins)" by (simp add: mm)
  have tst: "tstats (loadThematicData latCol lonCol (Some rs)) = buildStats mins maxs"
    by (simp add: loadThematicData_def foldl_processRow mm)
  show ?thesis
  proof (cases "skipKey latCol lonCol k")
    case True
    then have "map_of mins k = None" using trackMinMax_skip [OF True, of "([], [])" "concat rs"] mm by simp
    then show ?thesis using True by (simp add: tst buildStats_def map_of_buildStats [OF dist])
  next
    case False
    have "map_of mins k = (if rowNums k (concat rs) = [] then None else Some (Min (set (rowNums k (concat rs)))))"
      using trackMinMax_mins [OF False, of "[]" "[]" "concat rs"] mm by simp
    moreover have "map_of maxs k = (if rowNums k (concat rs) = [] then None else Some (Max (set (rowNums k (concat rs)))))"
      using trackMinMax_maxs [OF False, of "[]" "[]" "concat rs"] mm by simp
    ultimately show ?thesis using False by (simp add: tst buildStats_def map_of_buildStats [OF dist] Let_def)
  qed
qed

text \<open>The thematic loader keeps exactly the rows whose two coordinate columns parse.\<close>

lemma loadThematicData_count:
  "List.length (tdata (loadThematicData latCol lonCol (Some rs))) =
     List.length (filter (\<lambda>d. parseCoord d latCol \<noteq> None \<and> parseCoord d lonCol \<noteq> None) rs)"
proof -
  have len: "List.length (keptPoint latCol lonCol d) =
      (if parseCoord d latCol \<noteq> None \<and> parseCoord d lonCol \<noteq> None then 1 else 0)" for d
    by (auto simp: keptPoint_def split: option.split)
  show ?thesis by (induction rs) (simp_all add: len loadThematicData_tdata)
qed

text \<open>Every kept point comes from a row whose coordinate columns parse to its
  coordinates, and its row object has \<open>lat\<close> and \<open>lon\<close> set to them.\<close>

lemma loadThematicData_point:
  assumes "p \<in> set (tdata (loadThematicData latCol lonCol (Some rs)))"
  shows "map_of (trow p) ''lat'' = Some (CNum (tlat p)) \<and> map_of (trow p) ''lon'' = Some (CNum (tlon p)) \<and>
         (\<exists>d \<in> set rs. parseCoord d latCol = Some (tlat p) \<and> parseCoord d lonCol = Some (tlon p))"
proof -
  obtain d where d: "d \<in> set rs" "p \<in> set (keptPoint latCol lonCol d)"
    using assms by (auto simp: loadThematicData_tdata)
  then show ?thesis by (auto simp: keptPoint_def update_conv' split: option.splits)
qed

lemma loadThematicData_point_witness:
  "\<lparr>tlat = 83 / 2, tlon = -73,
     trow = [(''latitude'', CStr ''41.5N''), (''longitude'', CNum (-73)), (''count'', CNum 1),
             (''lat'', CNum (83 / 2)), (''lon'', CNum (-73))]\<rparr>
     \<in> set (tdata (loadThematicData ''latitude'' ''longitude'' (Some sample_rows))) \<and>
   parseCoord [(''latitude'', CStr ''41.5N''), (''longitude'', CNum (-73)), (''count'', CNum 1)] ''latitude'' = Some (83 / 2)"
proof -
  have "parseCoord [(''latitude'', CStr ''41.5N''), (''longitude'', CNum (-73)), (''count'', CNum 1)] ''latitude'' = Some (83 / 2)"
    by (simp add: parseCoord_def parseFloatStr_def isDigit_def digitsNat_def)
  moreover have mem: "\<lparr>tlat = 83 / 2, tlon = -73,
     trow = [(''latitude'', CStr ''41.5N''), (''longitude'', CNum (-73)), (''count'', CNum 1),
             (''lat'', CNum (83 / 2)), (''lon'', CNum (-73))]\<rparr>
     \<in> set (tdata (loadThematicData ''latitude'' ''longitude'' (Some sample_rows)))"
    by (simp add: loadThematicData_tdata sample_rows_def keptPoint_def parseCoord_def parseFloatStr_def
        isDigit_def digitsNat_def)
  ultimately show ?thesis using loadThematicData_point [OF mem] by simp
qed

end
