(* ===== verification/Subdivide.thy ===== *)
theory Subdivide
  imports Style Loader
begin

text \<open>
  \<open>src/editor/src/utils/dataLoader.ts\<close>: the density subdivider \<open>subdivideEdges\<close>
  (lines 45--102) and the two load pipelines \<open>loadSegmentData\<close> (lines 8--29) and
  \<open>loadNodeData\<close> (lines 31--43), from the parsed file contents on (the loaders of
  \<open>Loader\<close> are composed in; the awaits are sequential and the computations pure, so
  the pipelines are functions).  The split loop \<open>for (let i = 0; i < numSplits; i++)\<close>
  runs over a real bound; it is the function \<open>splitLoop\<close> with a termination proof by
  the measure \<open>\<lceil>numSplits\<rceil> - i\<close>.  A thrown \<open>TypeError\<close> of the density resolver
  propagates out of \<open>subdivideEdges\<close> and rejects the load: \<open>Inl TypeError\<close>.
\<close>

definition shrinkStart :: real where
  "shrinkStart = 0.2"

definition shrinkSpan :: real where
  "shrinkSpan = 0.8 - 0.2"

definition shrinks :: "draw_method option \<Rightarrow> orientation option \<Rightarrow> bool" where
  \<comment> \<open>\<open>(method === 'line' && orientation === 'perpendicular') || method === 'rect'\<close>\<close>
  "shrinks m ori = ((m = Some Line \<and> ori = Some Perpendicular) \<or> m = Some Rect)"

definition chartTruthy :: "string option \<Rightarrow> bool" where
  "chartTruthy c = (case c of None \<Rightarrow> False | Some s \<Rightarrow> s \<noteq> [])"

definition keepsWhole :: "draw_method option \<Rightarrow> orientation option \<Rightarrow> string option \<Rightarrow> bool" where
  \<comment> \<open>\<open>(method === 'line' && orientation === 'parallel') || layerChart\<close>\<close>
  "keepsWhole m ori c = ((m = Some Line \<and> ori = Some Parallel) \<or> chartTruthy c)"

definition interpPoint :: "latlon \<Rightarrow> latlon \<Rightarrow> real \<Rightarrow> latlon" where
  "interpPoint s e t = \<lparr>lat = lat s + (lat e - lat s) * t, lon = lon s + (lon e - lon s) * t\<rparr>"

definition subEdge :: "bool \<Rightarrow> edge \<Rightarrow> real \<Rightarrow> real \<Rightarrow> nat \<Rightarrow> edge" where
  \<comment> \<open>the body of the split loop: \<open>{point0, point1, bearing, length, attributes}\<close>\<close>
  "subEdge shrink e len numSplits i =
     (let t0 = (if shrink then shrinkStart + (real i / numSplits) * shrinkSpan else real i / numSplits);
          t1 = (if shrink then shrinkStart + (real (i + 1) / numSplits) * shrinkSpan
                else real (i + 1) / numSplits)
      in \<lparr>point0 = interpPoint (point0 e) (point1 e) t0, point1 = interpPoint (point0 e) (point1 e) t1,
          bearing = bearing e, edge_length = len, attributes = attributes e\<rparr>)"

function splitLoop :: "bool \<Rightarrow> edge \<Rightarrow> real \<Rightarrow> real \<Rightarrow> nat \<Rightarrow> edge list" where
  "splitLoop shrink e len endIndex i =
     (if real i < endIndex then subEdge shrink e len endIndex i # splitLoop shrink e len endIndex (Suc i)
      else [])"
  by pat_completeness auto
termination
proof (relation "measure (\<lambda>(shrink, e, len, n, i). nat (\<lceil>n\<rceil> - int i))")
  show "wf (measure (\<lambda>(shrink, e, len, n, i). nat (\<lceil>n\<rceil> - int i)))" by simp
next
  fix shrink :: bool and e :: edge and len n :: real and i :: nat
  assume "real i < n"
  then have "int i < \<lceil>n\<rceil>" by (simp add: less_ceiling_iff)
  then show "((shrink, e, len, n, Suc i), shrink, e, len, n, i)
               \<in> measure (\<lambda>(shrink, e, len, n, i). nat (\<lceil>n\<rceil> - int i))" by simp
qed

declare splitLoop.simps [simp del]

definition subdivideEdge ::
  "stats \<Rightarrow> style_name \<Rightarrow> draw_method option \<Rightarrow> orientation option \<Rightarrow> string option \<Rightarrow> edge \<Rightarrow>
   js_error + edge list" where
  \<comment> \<open>the \<open>forEach\<close> body: what one edge pushes onto \<open>subdivided\<close>\<close>
  "subdivideEdge st dens m ori c e =
     (case getDynamicStyleValue dens (attributes e) (Some st) (RNum 0 100) of
        Inl err \<Rightarrow> Inl err
      | Inr dv \<Rightarrow>
          (case dv of
             VNum d \<Rightarrow>
               if d > 0 then
                 (let len = 200 / d; numSplits = edge_length e / len
                  in Inr (splitLoop (shrinks m ori) e len numSplits 0))
               else Inr (if keepsWhole m ori c then [e] else [])
           | _ \<Rightarrow> Inr (if keepsWhole m ori c then [e] else [])))"

fun subdivideLoop ::
  "stats \<Rightarrow> style_name \<Rightarrow> draw_method option \<Rightarrow> orientation option \<Rightarrow> string option \<Rightarrow>
   edge list \<Rightarrow> edge list \<Rightarrow> js_error + edge list" where
  "subdivideLoop st dens m ori c acc [] = Inr acc"
| "subdivideLoop st dens m ori c acc (e # es) =
     (case subdivideEdge st dens m ori c e of
        Inl err \<Rightarrow> Inl err
      | Inr out \<Rightarrow> subdivideLoop st dens m ori c (acc @ out) es)"

definition subdivideEdges ::
  "aggregated \<Rightarrow> stats \<Rightarrow> style_name \<Rightarrow> draw_method option \<Rightarrow> orientation option \<Rightarrow> string option \<Rightarrow>
   js_error + aggregated" where
  "subdivideEdges agg st dens m ori c =
     (case subdivideLoop st dens m ori c [] (edges agg) of
        Inl err \<Rightarrow> Inl err
      | Inr sub \<Rightarrow> Inr \<lparr>edges = sub, attributeStats = attributeStats agg\<rparr>)"

definition loadSegmentData ::
  "geo_lib \<Rightarrow> layer_spec \<Rightarrow> geojson option \<Rightarrow> csv_row list option \<Rightarrow> js_error + aggregated \<times> thematic_data" where
  "loadSegmentData g spec physicalFile thematicFile =
     (let physicalData = loadPhysicalData g physicalFile;
          thematicData = loadThematicData (latColumn spec) (lonColumn spec) thematicFile;
          processedEdges = applySpatialAggregation g physicalData (tdata thematicData) spec;
          u = layer_unit spec
      in if density u \<noteq> SUndef then
           (case subdivideEdges processedEdges (attributeStats processedEdges) (density u) (umethod u)
                   (orientation u) (chart u) of
              Inl err \<Rightarrow> Inl err
            | Inr sub \<Rightarrow> Inr (applySpatialAggregation g (edges sub) (tdata thematicData) spec, thematicData))
         else Inr (processedEdges, thematicData))"

definition loadNodeData ::
  "geo_lib \<Rightarrow> layer_spec \<Rightarrow> geojson option \<Rightarrow> csv_row list option \<Rightarrow> node list \<times> thematic_data" where
  "loadNodeData g spec physicalFile thematicFile =
     (let physicalData = loadPhysicalData g physicalFile;
          thematicData = loadThematicData (latColumn spec) (lonColumn spec) thematicFile;
          aggregatedEdges = applySpatialAggregation g physicalData (tdata thematicData) spec
      in (processEdgesToNodes (edges aggregatedEdges), thematicData))"

definition sample_edge :: edge where
  "sample_edge = \<lparr>point0 = \<lparr>lat = 0, lon = 0\<rparr>, point1 = \<lparr>lat = 3, lon = 0\<rparr>, bearing = 0,
                   edge_length = 300, attributes = None\<rparr>"

subsection \<open>The split loop and the subdivider\<close>

lemma splitLoop_map:
  "splitLoop s e len n i = map (subEdge s e len n) [i..<nat \<lceil>n\<rceil>]"
proof (induction s e len n i rule: splitLoop.induct)
  case (1 s e len n i)
  show ?case
  proof (cases "real i < n")
    case True
    then have "i < nat \<lceil>n\<rceil>" by (simp add: less_ceiling_iff zless_nat_eq_int_zless)
    then show ?thesis using 1 True by (simp add: upt_conv_Cons splitLoop.simps)
  next
    case False
    then have "\<not> i < nat \<lceil>n\<rceil>" by (simp add: less_ceiling_iff zless_nat_eq_int_zless)
    then show ?thesis using False by (simp add: splitLoop.simps)
  qed
qed

lemma subdivideEdge_pos:
  assumes "getDynamicStyleValue dens (attributes e) (Some st) (RNum 0 100) = Inr (VNum d)" and "0 < d"
  shows "subdivideEdge st dens m ori c e =
           Inr (map (subEdge (shrinks m ori) e (200 / d) (edge_length e * d / 200))
                  [0..<nat \<lceil>edge_length e * d / 200\<rceil>])"
proof -
  have "edge_length e / (200 / d) = edge_length e * d / 200" by simp
  then show ?thesis using assms by (simp add: subdivideEdge_def splitLoop_map Let_def)
qed

lemma subEdge_length [simp]: "edge_length (subEdge s e len n i) = len"
  by (simp add: subEdge_def Let_def)

lemma getDynamicStyleValue_Inl:
  assumes "getDynamicStyleValue n atts (Some dmn) rng = Inl err"
  shows "\<exists>s a v. n = SStr s \<and> atts = Some a \<and> map_of a s = Some v \<and> map_of dmn s = None"
  using assms by (auto simp: getDynamicStyleValue_def split: style_name.splits if_splits option.splits)

lemma subdivideEdge_Inr:
  assumes "\<And>s a v. attributes e = Some a \<Longrightarrow> map_of a s = Some v \<Longrightarrow> map_of st s \<noteq> None"
  shows "\<exists>out. subdivideEdge st dens m ori c e = Inr out"
proof (cases "getDynamicStyleValue dens (attributes e) (Some st) (RNum 0 100)")
  case (Inl err)
  then show ?thesis using getDynamicStyleValue_Inl [OF Inl] assms by blast
next
  case (Inr dv)
  then show ?thesis by (simp add: subdivideEdge_def Let_def split: style_val.split)
qed

lemma subdivideLoop_Inr:
  "(\<And>e. e \<in> set es \<Longrightarrow> \<exists>out. subdivideEdge st dens m ori c e = Inr out) \<Longrightarrow>
     \<exists>r. subdivideLoop st dens m ori c acc es = Inr r"
proof (induction es arbitrary: acc)
  case Nil
  then show ?case by simp
next
  case (Cons e es)
  then obtain out where "subdivideEdge st dens m ori c e = Inr out" by auto
  then show ?case using Cons.IH [of "acc @ out"] Cons.prems by simp
qed

lemma applySpatialAggregation_covers:
  assumes "\<And>e. e \<in> set pd \<Longrightarrow> attributes e = None"
    and "e \<in> set (edges (applySpatialAggregation g pd td spec))"
    and "attributes e = Some a" and "map_of a s = Some v"
  shows "\<exists>mn mx. map_of (attributeStats (applySpatialAggregation g pd td spec)) s = Some (mn, mx) \<and>
                 mn \<le> v \<and> v \<le> mx"
proof -
  have kv: "(s, v) \<in> set (edgeAttrs e)" using assms(3,4) by (simp add: edgeAttrs_def map_of_SomeD)
  have "\<exists>jo. applySpatialAggregation g pd td spec =
      (case jo of None \<Rightarrow> \<lparr>edges = pd, attributeStats = []\<rparr> | Some es \<Rightarrow> \<lparr>edges = es, attributeStats = edgeStats es\<rparr>)"
    unfolding applySpatialAggregation_def Let_def
    by (cases "utype (layer_unit spec)"; simp; rule exI; rule refl)
  then obtain jo where jo: "applySpatialAggregation g pd td spec =
      (case jo of None \<Rightarrow> \<lparr>edges = pd, attributeStats = []\<rparr> | Some es \<Rightarrow> \<lparr>edges = es, attributeStats = edgeStats es\<rparr>)"
    by blast
  then consider (joined) es where "applySpatialAggregation g pd td spec = \<lparr>edges = es, attributeStats = edgeStats es\<rparr>"
    | (plain) "applySpatialAggregation g pd td spec = \<lparr>edges = pd, attributeStats = []\<rparr>"
    by (cases jo) auto
  then show ?thesis
  proof cases
    case joined
    then show ?thesis using edgeStats_covers [of e es s v] assms(2) kv by simp
  next
    case plain
    then show ?thesis using assms(1,2,3) by simp
  qed
qed

lemma subdivideEdges_Inr:
  assumes "\<And>e s a v. e \<in> set (edges agg) \<Longrightarrow> attributes e = Some a \<Longrightarrow> map_of a s = Some v \<Longrightarrow> map_of st s \<noteq> None"
  shows "\<exists>r. subdivideEdges agg st dens m ori c = Inr r"
proof -
  have "\<exists>r. subdivideLoop st dens m ori c [] (edges agg) = Inr r"
    using assms by (intro subdivideLoop_Inr subdivideEdge_Inr) blast
  then show ?thesis by (auto simp: subdivideEdges_def)
qed

lemma ceiling_three_halves: "\<lceil>3 / 2 :: real\<rceil> = 2"
  by (simp add: ceiling_eq_iff)

lemma sample_edge_subdivided:
  "subdivideEdge [] (SNum 1) (Some Line) (Some Parallel) None sample_edge =
     Inr [\<lparr>point0 = \<lparr>lat = 0, lon = 0\<rparr>, point1 = \<lparr>lat = 2, lon = 0\<rparr>, bearing = 0, edge_length = 200,
            attributes = None\<rparr>,
          \<lparr>point0 = \<lparr>lat = 2, lon = 0\<rparr>, point1 = \<lparr>lat = 4, lon = 0\<rparr>, bearing = 0, edge_length = 200,
            attributes = None\<rparr>]"
proof -
  have "getDynamicStyleValue (SNum 1) (attributes sample_edge) (Some []) (RNum 0 100) = Inr (VNum 1)"
    by (simp add: getDynamicStyleValue_def)
  then show ?thesis
    by (simp add: subdivideEdge_pos sample_edge_def ceiling_three_halves subEdge_def Let_def
        interpPoint_def shrinks_def upt_rec)
qed

subsection \<open>Properties of the subdivider\<close>

text \<open>C11: With a positive density \<open>d\<close> the subdivider replaces an edge of length \<open>L\<close> by
  \<open>\<lceil>L d / 200\<rceil>\<close> pieces, each of length \<open>200 / d\<close>, with the parent's bearing and
  attributes.\<close>

theorem subdivideEdge_pieces:
  assumes "getDynamicStyleValue dens (attributes e) (Some st) (RNum 0 100) = Inr (VNum d)" and "0 < d"
  shows "\<exists>es. subdivideEdge st dens m ori c e = Inr es \<and>
           List.length es = nat \<lceil>edge_length e * d / 200\<rceil> \<and>
           (\<forall>p \<in> set es. edge_length p = 200 / d \<and> bearing p = bearing e \<and> attributes p = attributes e)"
  using subdivideEdge_pos [OF assms] by (auto simp: subEdge_def Let_def)

lemma subdivideEdge_pieces_witness:
  "\<exists>es. subdivideEdge [] (SNum 1) (Some Line) (Some Parallel) None sample_edge = Inr es \<and>
     List.length es = 2 \<and> sum_list (map edge_length es) = 400"
proof -
  have "getDynamicStyleValue (SNum 1) (attributes sample_edge) (Some []) (RNum 0 100) = Inr (VNum 1)"
    by (simp add: getDynamicStyleValue_def)
  from subdivideEdge_pieces [OF this, of "Some Line" "Some Parallel" None]
  show ?thesis using sample_edge_subdivided by (simp add: sample_edge_def ceiling_three_halves)
qed

text \<open>C9: The pieces' lengths add up to \<open>\<lceil>L d / 200\<rceil> \<cdot> 200 / d\<close>: at least the parent's
  length \<open>L\<close> and less than one piece more, and more than \<open>L\<close> whenever \<open>L d / 200\<close> is
  not a whole number (the specification says they add up to \<open>L\<close>).\<close>

theorem subdivide_length_sum:
  assumes "getDynamicStyleValue dens (attributes e) (Some st) (RNum 0 100) = Inr (VNum d)" and "0 < d"
    and "0 \<le> edge_length e" and "subdivideEdge st dens m ori c e = Inr es"
  shows "sum_list (map edge_length es) = of_int \<lceil>edge_length e * d / 200\<rceil> * (200 / d) \<and>
         edge_length e \<le> sum_list (map edge_length es) \<and>
         sum_list (map edge_length es) < edge_length e + 200 / d"
proof -
  let ?n = "edge_length e * d / 200"
  have es: "es = map (subEdge (shrinks m ori) e (200 / d) ?n) [0..<nat \<lceil>?n\<rceil>]"
    using subdivideEdge_pos [OF assms(1,2)] assms(4) by simp
  have "0 \<le> ?n" using assms(2,3) by simp
  then have n: "real (nat \<lceil>?n\<rceil>) = of_int \<lceil>?n\<rceil>" by simp
  have sum: "sum_list (map edge_length es) = of_int \<lceil>?n\<rceil> * (200 / d)"
    by (simp add: es comp_def sum_list_triv n)
  have c1: "?n \<le> of_int \<lceil>?n\<rceil>" and c2: "of_int \<lceil>?n\<rceil> < ?n + 1" by linarith+
  have p: "0 < 200 / d" using assms(2) by simp
  have "?n * (200 / d) \<le> of_int \<lceil>?n\<rceil> * (200 / d)" using mult_right_mono [OF c1, of "200 / d"] p by simp
  moreover have "of_int \<lceil>?n\<rceil> * (200 / d) < (?n + 1) * (200 / d)" using mult_strict_right_mono [OF c2 p] .
  moreover have "?n * (200 / d) = edge_length e" "(?n + 1) * (200 / d) = edge_length e + 200 / d"
    using assms(2) by (simp_all add: field_simps)
  ultimately show ?thesis unfolding sum by simp
qed

lemma subdivide_length_sum_witness:
  "sum_list (map edge_length [\<lparr>point0 = \<lparr>lat = 0, lon = 0\<rparr>, point1 = \<lparr>lat = 2, lon = 0\<rparr>, bearing = 0,
        edge_length = 200, attributes = None\<rparr>,
      \<lparr>point0 = \<lparr>lat = 2, lon = 0\<rparr>, point1 = \<lparr>lat = 4, lon = 0\<rparr>, bearing = 0, edge_length = 200,
        attributes = None\<rparr>]) = 400 \<and> edge_length sample_edge = 300"
proof -
  have "getDynamicStyleValue (SNum 1) (attributes sample_edge) (Some []) (RNum 0 100) = Inr (VNum 1)"
    by (simp add: getDynamicStyleValue_def)
  moreover have "0 \<le> edge_length sample_edge" by (simp add: sample_edge_def)
  ultimately show ?thesis
    using subdivide_length_sum [of "SNum 1" sample_edge "[]" 1, OF _ _ _ sample_edge_subdivided]
    by (simp add: sample_edge_def ceiling_three_halves)
qed

text \<open>C10: The pieces are consecutive, the first starts at the parent's start (at 20\<percent> of
  the edge for the perpendicular and rect methods), and the last ends at the fraction
  \<open>\<lceil>n\<rceil> / n\<close> of the edge (of the 60\<percent> window), \<open>n = L d / 200\<close>: beyond the parent's end
  point whenever \<open>n\<close> is not a whole number.\<close>

theorem subdivide_endpoints:
  assumes "0 < n"
  shows "point0 (hd (splitLoop s e len n 0)) = interpPoint (point0 e) (point1 e) (if s then shrinkStart else 0) \<and>
         point1 (last (splitLoop s e len n 0)) =
           interpPoint (point0 e) (point1 e)
             (if s then shrinkStart + of_int \<lceil>n\<rceil> / n * shrinkSpan else of_int \<lceil>n\<rceil> / n) \<and>
         (\<forall>k. Suc k < List.length (splitLoop s e len n 0) \<longrightarrow>
            point1 (splitLoop s e len n 0 ! k) = point0 (splitLoop s e len n 0 ! Suc k))"
proof (intro conjI allI impI)
  let ?N = "nat \<lceil>n\<rceil>"
  have N: "0 < ?N" using assms by simp
  have sl: "splitLoop s e len n 0 = map (subEdge s e len n) [0..<?N]" by (rule splitLoop_map)
  have ne: "[0..<?N] \<noteq> []" using N by simp
  show "point0 (hd (splitLoop s e len n 0)) = interpPoint (point0 e) (point1 e) (if s then shrinkStart else 0)"
  proof -
    have "hd (splitLoop s e len n 0) = subEdge s e len n 0" using N by (simp add: sl hd_map hd_upt)
    then show ?thesis by (simp add: subEdge_def Let_def)
  qed
  have "real (Suc (?N - 1)) = of_int \<lceil>n\<rceil>" using N assms by simp
  show "point1 (last (splitLoop s e len n 0)) =
           interpPoint (point0 e) (point1 e)
             (if s then shrinkStart + of_int \<lceil>n\<rceil> / n * shrinkSpan else of_int \<lceil>n\<rceil> / n)"
  proof -
    have "last (splitLoop s e len n 0) = subEdge s e len n (?N - 1)" using N by (simp add: sl last_map last_upt)
    moreover have "real ?N = of_int \<lceil>n\<rceil>" using assms by simp
    ultimately show ?thesis using \<open>real (Suc (?N - 1)) = of_int \<lceil>n\<rceil>\<close> by (simp add: subEdge_def Let_def)
  qed
  fix k assume "Suc k < List.length (splitLoop s e len n 0)"
  then have k: "Suc k < ?N" by (simp add: sl)
  then show "point1 (splitLoop s e len n 0 ! k) = point0 (splitLoop s e len n 0 ! Suc k)"
    by (simp add: sl subEdge_def Let_def del: upt_Suc)
qed

lemma subdivide_endpoints_witness:
  "point0 (hd (splitLoop False sample_edge 200 (3 / 2) 0)) = \<lparr>lat = 0, lon = 0\<rparr> \<and>
   point1 (last (splitLoop False sample_edge 200 (3 / 2) 0)) = \<lparr>lat = 4, lon = 0\<rparr>"
  using subdivide_endpoints [of "3 / 2" False sample_edge 200]
  by (simp add: ceiling_three_halves interpPoint_def sample_edge_def)



end
