(* ===== verification/Instructions.thy ===== *)
theory Instructions
  imports Subdivide
begin

text \<open>
  The instruction builder \<open>buildD3Instructions\<close> of \<open>src/editor/src/utils/d3Helpers.ts\<close>
  (lines 13--306) and the styling of \<open>drawD3Nodes\<close> (lines 372--408).  The Leaflet map
  is an interface record: its projection \<open>latLngToLayerPoint\<close> and its zoom level.  The
  two sequential colour ramps of \<open>getBivariateColor\<close> are the record \<open>color_lib\<close>; a ramp
  is read only through the function it denotes.  An instruction is the object the code
  builds: \<open>null\<close> fields are \<open>None\<close>, SVG path strings are \<open>path_cmd\<close> lists (the matrix
  cells use the relative commands \<open>h\<close> and \<open>v\<close>, \<open>HLine\<close>/\<open>VLine\<close> here).  A thrown
  \<open>TypeError\<close> of a resolver aborts the whole call: \<open>Inl TypeError\<close>.  The bearing fold of
  lines 38--49 mutates the edge objects in place; the model returns the folded edges
  beside the instructions.  Arithmetic on a non-number resolver result gives \<open>NaN\<close>:
  \<open>VNaN\<close> for a width; a perpendicular glyph whose height is not a number has \<open>NaN\<close>
  coordinates and draws nothing, \<open>pd = None\<close> here.  A zero-length projected segment
  makes the code divide by zero (\<open>NaN\<close> normal); HOL's \<open>x / 0 = 0\<close> gives a zero normal
  instead, so both draw nothing visible.
\<close>

record leaflet_map =
  latLngToLayerPoint :: "latlon \<Rightarrow> screen"
  getZoom :: real

record color_lib =
  interpolateBuGn :: ramp
  interpolateOrRd :: ramp

datatype cell_color = CRgb int int int | CGray

record path_instr =
  iid :: nat
  pd :: "path_cmd list option"
  pstroke :: "style_val option"
  pfill :: "style_val option"
  pstrokeWidth :: "style_val option"
  pstrokeOpacity :: "style_val option"
  pdash :: "string option"
  plinecap :: "string option"
  popacity :: "style_val option"

datatype instruction =
    PathI path_instr
  | MatrixI nat "(cell_color \<times> path_cmd list) list" screen real
      \<comment> \<open>\<open>{id, dByColor, transform: translate(p0) rotate(angleDeg)}\<close>\<close>

definition emptyInstr :: "nat \<Rightarrow> path_instr" where
  "emptyInstr i = \<lparr>iid = i, pd = None, pstroke = None, pfill = None, pstrokeWidth = None,
                    pstrokeOpacity = None, pdash = None, plinecap = None, popacity = None\<rparr>"

definition offsetAngle :: "alignment option \<Rightarrow> real" where
  "offsetAngle a = (case a of Some Left \<Rightarrow> -90 | Some Right \<Rightarrow> 90 | _ \<Rightarrow> 0)"

definition colorRange :: srange where
  \<comment> \<open>\<open>["#feb24c", "#fd8d3c", "#fc4e2a", "#e31a1c", "#b10026"]\<close>: with a two-value domain
      d3 interpolates between the first two entries\<close>
  "colorRange = RColor ''#feb24c'' ''#fd8d3c''"

definition adjustWidth :: "real \<Rightarrow> style_val \<Rightarrow> style_val" where
  \<comment> \<open>\<open>getAdjustedLineWidth(map, baseWidth)\<close> on whatever the resolver returned\<close>
  "adjustWidth z v = (case v of VNum w \<Rightarrow> VNum (getAdjustedLineWidth z w) | _ \<Rightarrow> VNaN)"

definition offsetLatLon :: "latlon \<Rightarrow> real \<Rightarrow> real \<Rightarrow> latlon" where
  "offsetLatLon p brg meters = (case offsetPoint (lat p) (lon p) brg meters of (a, b) \<Rightarrow> \<lparr>lat = a, lon = b\<rparr>)"

definition heightRange :: "aggregation_type option \<Rightarrow> srange" where
  "heightRange t = (if t = Some AggSum then RNum 0 1 else RNum 0 10)"

definition unitNormal :: "screen \<Rightarrow> screen \<Rightarrow> bool \<Rightarrow> screen" where
  \<comment> \<open>\<open>(dy / len, -dx / len)\<close>, flipped for right alignment\<close>
  "unitNormal p0 p1 flip =
     (let dx = fst p1 - fst p0; dy = snd p1 - snd p0; len = sqrt (dx * dx + dy * dy);
          nx = dy / len; ny = - dx / len
      in if flip then (- nx, - ny) else (nx, ny))"

subsection \<open>One branch per rendering method\<close>

definition lineParallelInstr ::
  "leaflet_map \<Rightarrow> unit_spec \<Rightarrow> stats \<Rightarrow> stats \<Rightarrow> edge \<Rightarrow> screen \<Rightarrow> screen \<Rightarrow> style_val \<Rightarrow> nat \<Rightarrow>
   js_error + path_instr" where
  "lineParallelInstr mp u est tst e p0 p1 baseWidth i =
     (if chartTruthy (squiggle u) then
        bindE (getSquiggleParams (squiggle u) (attributes e) (Some est)) (\<lambda>(amp, freq).
        bindE (getDynamicStyleValue (color u) (attributes e) (Some tst) colorRange) (\<lambda>stroke.
        bindE (getDynamicStyleValue (opacity u) (attributes e) (Some est) (RNum 0 1)) (\<lambda>so.
          Inr ((emptyInstr i)\<lparr>pd := Some (generateSimpleWavyPath p0 p1 amp freq), pstroke := Some stroke,
                 pstrokeWidth := Some (adjustWidth (getZoom mp) baseWidth), pstrokeOpacity := Some so\<rparr>))))
      else
        bindE (getDynamicStyleValue (color u) (attributes e) (Some tst) colorRange) (\<lambda>stroke.
        bindE (getDynamicStyleValue (opacity u) (attributes e) (Some est) (RNum 0 1)) (\<lambda>so.
        bindE (getDashArray (dash u) (attributes e) (Some est)) (\<lambda>da.
          Inr ((emptyInstr i)\<lparr>pd := Some [MoveTo (fst p0) (snd p0), LineTo (fst p1) (snd p1)],
                 pstroke := Some stroke, pstrokeWidth := Some (adjustWidth (getZoom mp) baseWidth),
                 pstrokeOpacity := Some so, pdash := Some da\<rparr>)))))"

definition linePerpendicularInstr ::
  "leaflet_map \<Rightarrow> unit_spec \<Rightarrow> stats \<Rightarrow> stats \<Rightarrow> aggregation_type option \<Rightarrow> edge \<Rightarrow> style_val \<Rightarrow> nat \<Rightarrow>
   js_error + path_instr" where
  "linePerpendicularInstr mp u est tst t e baseWidth i =
     bindE (getDynamicStyleValue (height u) (attributes e) (Some tst) (heightRange t)) (\<lambda>h.
       let brg = bearing e + offsetAngle (alignment u);
           p0 = latLngToLayerPoint mp (offsetLatLon (point0 e) brg 8);
           p1 = latLngToLayerPoint mp (offsetLatLon (point1 e) brg 8);
           mx = (fst p0 + fst p1) / 2; my = (snd p0 + snd p1) / 2;
           n = unitNormal p0 p1 (alignment u = Some Right);
           path = (case h of VNum hv \<Rightarrow> Some [MoveTo mx my, LineTo (mx + fst n * hv) (my + snd n * hv)]
                   | _ \<Rightarrow> None)
       in bindE (getDynamicStyleValue (color u) (attributes e) (Some tst) colorRange) (\<lambda>stroke.
          bindE (getDynamicStyleValue (opacity u) (attributes e) (Some est) (RNum 0 1)) (\<lambda>so.
            Inr ((emptyInstr i)\<lparr>pd := path, pstroke := Some stroke,
                   pstrokeWidth := Some (adjustWidth (getZoom mp) baseWidth), pstrokeOpacity := Some so\<rparr>))))"

definition bivariateCell :: "color_lib \<Rightarrow> style_val \<Rightarrow> style_val \<Rightarrow> cell_color" where
  \<comment> \<open>\<open>getBivariateColor(value1, value2)\<close>: a non-number makes the ramp return
      \<open>undefined\<close>, \<open>d3.color\<close> returns \<open>null\<close>, and the result is \<open>"gray"\<close>\<close>
  "bivariateCell cl v1 v2 =
     (case (v1, v2) of
        (VNum a, VNum b) \<Rightarrow>
          (case getBivariateColor (interpolateBuGn cl) (interpolateOrRd cl) a b of (r, g, bl) \<Rightarrow> CRgb r g bl)
      | _ \<Rightarrow> CGray)"

definition cellSubpath :: "real \<Rightarrow> real \<Rightarrow> nat \<Rightarrow> nat \<Rightarrow> path_cmd list" where
  \<comment> \<open>\<open>M${x},${y}h${cellWidthAligned}v${cellHeightAligned}h${-cellWidthAligned}Z\<close>\<close>
  "cellSubpath cw ch r c =
     (let x = real c * cw; y = - 25 / 2 + real r * ch
      in [MoveTo x y, HLine cw, VLine ch, HLine (- cw), ClosePath])"

definition matrixCell ::
  "color_lib \<Rightarrow> unit_spec \<Rightarrow> stats \<Rightarrow> edge \<Rightarrow> real \<Rightarrow> real \<Rightarrow> (cell_color \<times> path_cmd list) list \<Rightarrow>
   nat \<times> nat \<Rightarrow> js_error + (cell_color \<times> path_cmd list) list" where
  \<comment> \<open>the body of the two nested loops over rows \<open>r\<close> and columns \<open>c\<close>\<close>
  "matrixCell cl u tst e cw ch dByColor rc =
     (case rc of (r, c) \<Rightarrow>
        bindE (getDynamicStyleValue (width u) (attributes e) (Some tst) (RNum 0 5)) (\<lambda>value1.
        bindE (getDynamicStyleValue (height u) (attributes e) (Some tst) (RNum 0 5)) (\<lambda>value2.
          let cellColor = bivariateCell cl value1 value2; subpath = cellSubpath cw ch r c
          in Inr (AList.update cellColor
                    ((case map_of dByColor cellColor of None \<Rightarrow> [] | Some ps \<Rightarrow> ps) @ subpath) dByColor))))"

definition orOne :: "nat option \<Rightarrow> nat" where
  \<comment> \<open>\<open>x || 1\<close>\<close>
  "orOne n = (case n of None \<Rightarrow> 1 | Some k \<Rightarrow> if k = 0 then 1 else k)"

definition matrixInstr ::
  "color_lib \<Rightarrow> leaflet_map \<Rightarrow> unit_spec \<Rightarrow> stats \<Rightarrow> edge \<Rightarrow> nat \<Rightarrow> js_error + instruction" where
  "matrixInstr cl mp u tst e i =
     (let p0 = latLngToLayerPoint mp (point0 e); p1 = latLngToLayerPoint mp (point1 e);
          numRows = orOne (columns u); numColumns = orOne (rows u);
          dx = fst p1 - fst p0; dy = snd p1 - snd p0;
          segmentLength = sqrt (dx * dx + dy * dy);
          angleDeg = atan2 dy dx * (180 / pi);
          cw = segmentLength / real numColumns; ch = 25 / real numRows
      in bindE (foldE (matrixCell cl u tst e cw ch) [] [(r, c). r \<leftarrow> [0..<numRows], c \<leftarrow> [0..<numColumns]])
           (\<lambda>dByColor. Inr (MatrixI i dByColor p0 angleDeg)))"

definition rectPerpendicularInstr ::
  "leaflet_map \<Rightarrow> unit_spec \<Rightarrow> stats \<Rightarrow> stats \<Rightarrow> aggregation_type option \<Rightarrow> edge \<Rightarrow> nat \<Rightarrow>
   js_error + path_instr" where
  "rectPerpendicularInstr mp u est tst t e i =
     bindE (getDynamicStyleValue (height u) (attributes e) (Some tst) (heightRange t)) (\<lambda>h.
       let brg = bearing e + offsetAngle (alignment u);
           p0 = latLngToLayerPoint mp (offsetLatLon (point0 e) brg 10);
           p1 = latLngToLayerPoint mp (offsetLatLon (point1 e) brg 10);
           n = unitNormal p0 p1 (alignment u = Some Right);
           path = (case h of
                     VNum hv \<Rightarrow>
                       Some [MoveTo (fst p0) (snd p0), LineTo (fst p1) (snd p1),
                             LineTo (fst p1 + fst n * hv) (snd p1 + snd n * hv),
                             LineTo (fst p0 + fst n * hv) (snd p0 + snd n * hv), ClosePath]
                   | _ \<Rightarrow> None)
       in bindE (getDynamicStyleValue (color u) (attributes e) (Some tst) colorRange) (\<lambda>fill.
          bindE (getDynamicStyleValue (opacity u) (attributes e) (Some est) (RNum 0.5 1)) (\<lambda>op.
            Inr ((emptyInstr i)\<lparr>pd := path, pfill := Some fill, popacity := Some op\<rparr>))))"

definition rectParallelInstr ::
  "leaflet_map \<Rightarrow> unit_spec \<Rightarrow> stats \<Rightarrow> stats \<Rightarrow> edge \<Rightarrow> nat \<Rightarrow> js_error + path_instr" where
  "rectParallelInstr mp u est tst e i =
     (let brg = bearing e + offsetAngle (alignment u);
          p0 = latLngToLayerPoint mp (offsetLatLon (point0 e) brg 10);
          p1 = latLngToLayerPoint mp (offsetLatLon (point1 e) brg 10)
      in bindE (getDynamicStyleValue (color u) (attributes e) (Some tst) colorRange) (\<lambda>stroke.
         bindE (getDynamicStyleValue (height u) (attributes e) (Some tst) (RNum 0 20)) (\<lambda>sw.
         bindE (getDynamicStyleValue (opacity u) (attributes e) (Some est) (RNum 0 1)) (\<lambda>op.
           Inr ((emptyInstr i)\<lparr>pd := Some [MoveTo (fst p0) (snd p0), LineTo (fst p1) (snd p1)],
                  pstroke := Some stroke, pstrokeWidth := Some sw, popacity := Some op,
                  plinecap := Some ''butt''\<rparr>)))))"

subsection \<open>The builder\<close>

definition edgeInstruction ::
  "color_lib \<Rightarrow> leaflet_map \<Rightarrow> unit_spec \<Rightarrow> stats \<Rightarrow> stats \<Rightarrow> real \<Rightarrow> aggregation_type option \<Rightarrow>
   nat \<Rightarrow> edge \<Rightarrow> js_error + edge \<times> instruction" where
  \<comment> \<open>the callback of \<open>edges.map\<close>: fold the bearing (in place), offset the ends of left
      and right layers by \<open>distance\<close>, resolve the base width, then one branch per method\<close>
  "edgeInstruction cl mp u est tst distance t i e0 =
     (let e = normalizeEdgeLine e0;
          brg = bearing e + offsetAngle (alignment u);
          (q0, q1) = (if alignment u = Some Left \<or> alignment u = Some Right
                      then (offsetLatLon (point0 e) brg distance, offsetLatLon (point1 e) brg distance)
                      else (point0 e, point1 e));
          p0 = latLngToLayerPoint mp q0; p1 = latLngToLayerPoint mp q1;
          m = umethod u; ori = orientation u
      in bindE (getDynamicStyleValue (width u) (attributes e) (Some est) (RNum 0 10)) (\<lambda>baseWidth.
           if m = Some Line \<and> ori = Some Parallel then
             bindE (lineParallelInstr mp u est tst e p0 p1 baseWidth i) (\<lambda>pi. Inr (e, PathI pi))
           else if m = Some Line \<and> ori = Some Perpendicular then
             bindE (linePerpendicularInstr mp u est tst t e baseWidth i) (\<lambda>pi. Inr (e, PathI pi))
           else if m = Some Matrix then
             bindE (matrixInstr cl mp u tst e i) (\<lambda>ins. Inr (e, ins))
           else if m = Some Rect \<and> ori = Some Perpendicular then
             bindE (rectPerpendicularInstr mp u est tst t e i) (\<lambda>pi. Inr (e, PathI pi))
           else if m = Some Rect \<and> ori = Some Parallel then
             bindE (rectParallelInstr mp u est tst e i) (\<lambda>pi. Inr (e, PathI pi))
           else Inr (e, PathI (emptyInstr i))))"

fun buildLoop ::
  "color_lib \<Rightarrow> leaflet_map \<Rightarrow> unit_spec \<Rightarrow> stats \<Rightarrow> stats \<Rightarrow> real \<Rightarrow> aggregation_type option \<Rightarrow>
   nat \<Rightarrow> edge list \<Rightarrow> js_error + edge list \<times> instruction list" where
  "buildLoop cl mp u est tst distance t i [] = Inr ([], [])"
| "buildLoop cl mp u est tst distance t i (e # es) =
     bindE (edgeInstruction cl mp u est tst distance t i e) (\<lambda>(e', ins).
     bindE (buildLoop cl mp u est tst distance t (Suc i) es) (\<lambda>(es', inss).
       Inr (e' # es', ins # inss)))"

definition buildD3Instructions ::
  "color_lib \<Rightarrow> edge list \<Rightarrow> unit_spec \<Rightarrow> aggregated \<Rightarrow> thematic_data \<Rightarrow> real \<Rightarrow> aggregation_type option \<Rightarrow>
   leaflet_map \<Rightarrow> js_error + edge list \<times> instruction list" where
  "buildD3Instructions cl es u processedEdges thematicData distance aggregationType mp =
     buildLoop cl mp u (attributeStats processedEdges) (tstats thematicData) distance aggregationType 0 es"

subsection \<open>Node glyphs\<close>

record node_glyph =
  cx :: real
  cy :: real
  radius :: style_val
  nfill :: style_val
  nfillOpacity :: style_val

definition nodeGlyph :: "leaflet_map \<Rightarrow> unit_spec \<Rightarrow> stats option \<Rightarrow> node \<Rightarrow> js_error + node_glyph" where
  \<comment> \<open>the attributes \<open>drawD3Nodes\<close> sets on one circle; \<open>d3.schemeBuGn[9]\<close> starts with
      \<open>#f7fcfd\<close>, \<open>#e5f5f9\<close>\<close>
  "nodeGlyph mp u st n =
     (let p = latLngToLayerPoint mp \<lparr>lat = node_lat n, lon = node_lon n\<rparr>
      in bindE (getDynamicStyleValue (width u) (Some (node_attributes n)) st (RNum 5 30)) (\<lambda>w.
         bindE (getDynamicStyleValue (color u) (Some (node_attributes n)) st (RColor ''#f7fcfd'' ''#e5f5f9'')) (\<lambda>c.
         bindE (getDynamicStyleValue (opacity u) (Some (node_attributes n)) st (RNum 0 1)) (\<lambda>op.
           Inr \<lparr>cx = fst p, cy = snd p,
                radius = (case w of VNum r \<Rightarrow> VNum (r / 2) | _ \<Rightarrow> VNaN), nfill = c, nfillOpacity = op\<rparr>))))"

definition drawD3Nodes ::
  "leaflet_map \<Rightarrow> unit_spec \<Rightarrow> stats option \<Rightarrow> node list \<Rightarrow> js_error + node_glyph list" where
  "drawD3Nodes mp u st ns = foldE (\<lambda>gs n. bindE (nodeGlyph mp u st n) (\<lambda>g. Inr (gs @ [g]))) [] ns"


fun instrId :: "instruction \<Rightarrow> nat" where
  "instrId (PathI p) = iid p"
| "instrId (MatrixI i _ _ _) = i"

subsection \<open>Sample inputs\<close>

definition test_map :: leaflet_map where
  \<comment> \<open>a projection that reads a point as (longitude, latitude)\<close>
  "test_map = \<lparr>latLngToLayerPoint = (\<lambda>p. (lon p, lat p)), getZoom = 15\<rparr>"

definition test_colors :: color_lib where
  \<comment> \<open>two constant ramps\<close>
  "test_colors = \<lparr>interpolateBuGn = (\<lambda>_. (247, 252, 253)), interpolateOrRd = (\<lambda>_. (127, 0, 0))\<rparr>"

definition squiggle_unit :: unit_spec where
  "squiggle_unit = example_unit\<lparr>squiggle := Some ''count''\<rparr>"

definition matrix_unit :: unit_spec where
  "matrix_unit = example_unit\<lparr>umethod := Some Matrix, rows := Some 3, columns := Some 2\<rparr>"

subsection \<open>Lemmas on the builder\<close>

text \<open>Every branch keeps the id it is given; the loop folds the bearings and numbers the
  instructions; the matrix fold puts every cell into the one colour group.\<close>

lemma emptyInstr_iid [simp]: "iid (emptyInstr i) = i"
  by (simp add: emptyInstr_def)

lemma branch_iids:
  "lineParallelInstr mp u est tst e p0 p1 w i = Inr p \<Longrightarrow> iid p = i"
  "linePerpendicularInstr mp u est tst t e w i = Inr p \<Longrightarrow> iid p = i"
  "rectPerpendicularInstr mp u est tst t e i = Inr p \<Longrightarrow> iid p = i"
  "rectParallelInstr mp u est tst e i = Inr p \<Longrightarrow> iid p = i"
  unfolding lineParallelInstr_def linePerpendicularInstr_def rectPerpendicularInstr_def rectParallelInstr_def Let_def
  by (auto simp: bindE_Inr_iff split: if_splits prod.splits)

lemma matrixInstr_id: "matrixInstr cl mp u tst e i = Inr ins \<Longrightarrow> instrId ins = i"
  by (auto simp: matrixInstr_def Let_def bindE_Inr_iff)

lemma edgeInstruction_Inr:
  assumes "edgeInstruction cl mp u est tst d t i e = Inr (e', ins)"
  shows "e' = normalizeEdgeLine e \<and> instrId ins = i"
  using assms
  unfolding edgeInstruction_def Let_def
  by (auto simp: bindE_Inr_iff dest!: branch_iids matrixInstr_id split: if_splits prod.splits)

lemma buildLoop_Inr:
  "buildLoop cl mp u est tst d t i es = Inr (es', ins) \<Longrightarrow>
     es' = map normalizeEdgeLine es \<and> map instrId ins = [i..<i + List.length es]"
proof (induction es arbitrary: i es' ins)
  case Nil
  then show ?case by simp
next
  case (Cons e es)
  from Cons.prems obtain e1 ins1 es2 inss where
    h: "edgeInstruction cl mp u est tst d t i e = Inr (e1, ins1)"
    and t: "buildLoop cl mp u est tst d t (Suc i) es = Inr (es2, inss)"
    and r: "es' = e1 # es2" "ins = ins1 # inss"
    by (auto simp: bindE_Inr_iff split: prod.splits)
  from edgeInstruction_Inr [OF h] Cons.IH [OF t] show ?case
    by (simp add: r upt_conv_Cons del: upt_Suc)
qed

lemma matrixCell_eq:
  assumes "getDynamicStyleValue (width u) (attributes e) (Some tst) (RNum 0 5) = Inr v1"
    and "getDynamicStyleValue (height u) (attributes e) (Some tst) (RNum 0 5) = Inr v2"
  shows "matrixCell cl u tst e cw ch dBy (r, c) =
           Inr (AList.update (bivariateCell cl v1 v2)
                  ((case map_of dBy (bivariateCell cl v1 v2) of None \<Rightarrow> [] | Some ps \<Rightarrow> ps) @ cellSubpath cw ch r c) dBy)"
  using assms by (simp add: matrixCell_def Let_def)

lemma matrixCell_err:
  assumes "getDynamicStyleValue (width u) (attributes e) (Some tst) (RNum 0 5) = Inl err \<or>
           getDynamicStyleValue (height u) (attributes e) (Some tst) (RNum 0 5) = Inl err"
  shows "\<exists>err. matrixCell cl u tst e cw ch dBy rc = Inl err"
  using assms by (cases rc; cases "getDynamicStyleValue (width u) (attributes e) (Some tst) (RNum 0 5)")
    (auto simp: matrixCell_def)

lemma foldE_matrixCell:
  assumes "getDynamicStyleValue (width u) (attributes e) (Some tst) (RNum 0 5) = Inr v1"
    and "getDynamicStyleValue (height u) (attributes e) (Some tst) (RNum 0 5) = Inr v2"
  shows "foldE (matrixCell cl u tst e cw ch) [(bivariateCell cl v1 v2, P)] cells =
           Inr [(bivariateCell cl v1 v2, P @ concat (map (\<lambda>rc. cellSubpath cw ch (fst rc) (snd rc)) cells))]"
proof (induction cells arbitrary: P)
  case Nil
  then show ?case by simp
next
  case (Cons rc cells)
  obtain r c where rc: "rc = (r, c)" by fastforce
  show ?case using Cons.IH [of "P @ cellSubpath cw ch r c"] by (simp add: rc matrixCell_eq [OF assms])
qed

lemma orOne_pos [simp]: "0 < orOne n"
  by (simp add: orOne_def split: option.split)

lemma length_cellSubpath [simp]: "List.length (cellSubpath cw ch r c) = 5"
  by (simp add: cellSubpath_def Let_def)

lemma lineParallel_squiggle_path:
  assumes "squiggle u = Some n" "n \<noteq> []" "attributes e = Some a" "map_of a n = Some v"
    and "map_of est n = Some (mn, mx)" and "lineParallelInstr mp u est tst e p0 p1 bw i = Inr q"
  shows "pd q = Some (generateSimpleWavyPath p0 p1 25 (squiggleFrequency mn mx v))"
  using assms by (auto simp: lineParallelInstr_def getSquiggleParams_def chartTruthy_def bindE_Inr_iff)

lemma normalizeEdgeLine_attributes [simp]: "attributes (normalizeEdgeLine e) = attributes e"
  by (simp add: normalizeEdgeLine_def Let_def swapEnds_def)

text \<open>A colour channel that names an attribute of an edge missing from the thematic
  statistics makes the whole build throw.\<close>

lemma edgeInstruction_color_throws:
  assumes "attributes e = Some a" "map_of a s \<noteq> None" "map_of tst s = None"
    and "color u = SStr s" "\<not> isHexColor s" "umethod u = Some Line" "orientation u = Some Parallel"
    and "\<not> chartTruthy (squiggle u)"
  shows "edgeInstruction cl mp u est tst d t k e = Inl TypeError"
proof (cases "getDynamicStyleValue (width u) (attributes e) (Some est) (RNum 0 10)")
  case (Inl err)
  then show ?thesis by (cases err) (simp add: edgeInstruction_def Let_def split: prod.splits)
next
  case (Inr bw)
  have c: "getDynamicStyleValue (color u) (attributes e) (Some tst) colorRange = Inl TypeError"
    using assms(1-5) by (auto simp: getDynamicStyleValue_def)
  show ?thesis
    using Inr c assms(6-8) by (simp add: edgeInstruction_def lineParallelInstr_def Let_def split: prod.splits)
qed

lemma buildLoop_throws:
  assumes "e \<in> set es" and "\<And>k. edgeInstruction cl mp u est tst d t k e = Inl TypeError"
  shows "buildLoop cl mp u est tst d t i es = Inl TypeError"
  using assms(1)
proof (induction es arbitrary: i)
  case Nil
  then show ?case by simp
next
  case (Cons e' es)
  show ?case
  proof (cases "edgeInstruction cl mp u est tst d t i e'")
    case (Inl err)
    then show ?thesis by (cases err) simp
  next
    case (Inr r)
    then have "e' \<noteq> e" using assms(2) [of i] by auto
    then have "buildLoop cl mp u est tst d t (Suc i) es = Inl TypeError" using Cons by simp
    then show ?thesis using Inr by (simp split: prod.splits)
  qed
qed

subsection \<open>Properties of the builder\<close>


text \<open>C5: A successful build returns every edge with its bearing folded into [0, 180) and one
  instruction per edge, the instruction of the \<open>i\<close>-th edge carrying id \<open>i\<close>.\<close>

theorem buildD3Instructions_shape:
  assumes "buildD3Instructions cl es u pe td d t mp = Inr (es', ins)"
  shows "es' = map normalizeEdgeLine es \<and> map instrId ins = [0..<List.length es]"
  using buildLoop_Inr assms unfolding buildD3Instructions_def by fastforce


theorem buildD3Instructions_shape_witness:
  "\<exists>es' ins. buildD3Instructions test_colors [scenario_edge, scenario_edge\<lparr>bearing := 200\<rparr>] example_unit
       \<lparr>edges = [], attributeStats = []\<rparr> \<lparr>tdata = [], tstats = []\<rparr> 0 None test_map = Inr (es', ins) \<and>
     es' = map normalizeEdgeLine [scenario_edge, scenario_edge\<lparr>bearing := 200\<rparr>] \<and> map instrId ins = [0, 1]"
proof -
  obtain r where r: "buildD3Instructions test_colors [scenario_edge, scenario_edge\<lparr>bearing := 200\<rparr>] example_unit
       \<lparr>edges = [], attributeStats = []\<rparr> \<lparr>tdata = [], tstats = []\<rparr> 0 None test_map = Inr r"
    by (simp add: buildD3Instructions_def edgeInstruction_def lineParallelInstr_def Let_def example_unit_def
        getDynamicStyleValue_def getDashArray_def chartTruthy_def scenario_edge_def split: prod.splits)
  obtain es' ins where "r = (es', ins)" by fastforce
  with r buildD3Instructions_shape [of test_colors "[scenario_edge, scenario_edge\<lparr>bearing := 200\<rparr>]"] show ?thesis
    by (auto simp del: upt_Suc simp: upt_conv_Cons)
qed

text \<open>C31: A matrix glyph has a single colour group holding all of its cells, five path commands
  per cell, with \<open>columns || 1\<close> rows of \<open>rows || 1\<close> cells: every cell is resolved from the
  same edge attributes, so the matrix shows one colour.\<close>

theorem matrixInstr_single_color:
  assumes "matrixInstr cl mp u tst e i = Inr ins"
  shows "\<exists>col cells p0 a. ins = MatrixI i [(col, cells)] p0 a \<and>
           List.length cells = 5 * orOne (columns u) * orOne (rows u)"
proof -
  let ?cells = "[(r, c). r \<leftarrow> [0..<orOne (columns u)], c \<leftarrow> [0..<orOne (rows u)]]"
  let ?w = "getDynamicStyleValue (width u) (attributes e) (Some tst) (RNum 0 5)"
  let ?h = "getDynamicStyleValue (height u) (attributes e) (Some tst) (RNum 0 5)"
  obtain rc cs where cells: "?cells = rc # cs"
    by (cases ?cells) (auto simp: orOne_def split: option.splits if_splits)
  have len: "List.length ?cells = orOne (columns u) * orOne (rows u)"
    by (simp add: length_concat comp_def sum_list_triv)
  obtain cw ch p0 a where mi: "matrixInstr cl mp u tst e i =
      bindE (foldE (matrixCell cl u tst e cw ch) [] ?cells) (\<lambda>dBy. Inr (MatrixI i dBy p0 a))"
    by (simp add: matrixInstr_def Let_def)
  show ?thesis
  proof (cases "\<exists>v1 v2. ?w = Inr v1 \<and> ?h = Inr v2")
    case True
    then obtain v1 v2 where w: "?w = Inr v1" and h: "?h = Inr v2" by blast
    obtain r c where rc: "rc = (r, c)" by fastforce
    have "foldE (matrixCell cl u tst e cw ch) [] ?cells =
          Inr [(bivariateCell cl v1 v2, concat (map (\<lambda>rc. cellSubpath cw ch (fst rc) (snd rc)) ?cells))]"
      using foldE_matrixCell [OF w h, of cl cw ch "cellSubpath cw ch r c" cs]
      by (simp add: cells rc matrixCell_eq [OF w h])
    moreover have "List.length (concat (map (\<lambda>rc. cellSubpath cw ch (fst rc) (snd rc)) ?cells)) =
                   5 * (orOne (columns u) * orOne (rows u))"
      by (simp only: length_concat map_map comp_def length_cellSubpath sum_list_triv length_map len) simp
    ultimately show ?thesis using assms mi by auto
  next
    case False
    then obtain err where "?w = Inl err \<or> ?h = Inl err"
      by (cases ?w; cases ?h) auto
    then obtain err' where "matrixCell cl u tst e cw ch [] rc = Inl err'" using matrixCell_err by blast
    then show ?thesis using assms mi by (simp add: cells)
  qed
qed

theorem matrixInstr_single_color_witness:
  "\<exists>col cells p0 a. matrixInstr test_colors test_map matrix_unit [] scenario_edge 0 = Inr (MatrixI 0 [(col, cells)] p0 a) \<and>
     List.length cells = 30"
proof -
  obtain ins where r: "matrixInstr test_colors test_map matrix_unit [] scenario_edge 0 = Inr ins"
    by (simp add: matrixInstr_def Let_def matrix_unit_def example_unit_def orOne_def matrixCell_def
        getDynamicStyleValue_def upt_rec bivariateCell_def)
  have "orOne (columns matrix_unit) = 2" "orOne (rows matrix_unit) = 3"
    by (simp_all add: matrix_unit_def example_unit_def orOne_def)
  with matrixInstr_single_color [OF r] show ?thesis
    by (auto simp: r)
qed

text \<open>C29: Of two squiggle edges drawn between the same screen points, the one with the higher
  value draws no more arcs: the squiggle frequency is passed to \<open>generateSimpleWavyPath\<close> as
  its wavelength, so a higher frequency gives fewer waves.\<close>

theorem squiggle_value_fewer_arcs:
  assumes "lineParallelInstr mp u est tst e1 p0 p1 bw i = Inr q1"
    and "lineParallelInstr mp u est tst e2 p0 p1 bw j = Inr q2"
    and "squiggle u = Some n" "n \<noteq> []" "map_of est n = Some (mn, mx)" "mn \<le> mx"
    and "attributes e1 = Some ka" "map_of ka n = Some x"
    and "attributes e2 = Some kb" "map_of kb n = Some y" "mn \<le> x" "x \<le> y"
  shows "\<exists>c1 c2. pd q1 = Some c1 \<and> pd q2 = Some c2 \<and> List.length c2 \<le> List.length c1"
  using lineParallel_squiggle_path [OF assms(3,4,7,8,5,1)] lineParallel_squiggle_path [OF assms(3,4,9,10,5,2)]
    wavy_length_anti [OF squiggleFrequency_pos squiggleFrequency_mono [OF assms(6,11,12)]]
  by simp

theorem squiggle_value_fewer_arcs_witness:
  "\<exists>q1 q2 c1 c2.
     lineParallelInstr test_map squiggle_unit [(''count'', (0, 8))] [] (scenario_edge\<lparr>attributes := Some [(''count'', 1)]\<rparr>) (0, 0) (60, 80) (VNum 1) 0 = Inr q1 \<and>
     lineParallelInstr test_map squiggle_unit [(''count'', (0, 8))] [] (scenario_edge\<lparr>attributes := Some [(''count'', 7)]\<rparr>) (0, 0) (60, 80) (VNum 1) 1 = Inr q2 \<and>
     pd q1 = Some c1 \<and> pd q2 = Some c2 \<and> List.length c2 \<le> List.length c1 \<and> List.length c1 = 21 \<and> List.length c2 = 3"
proof -
  let ?l = "\<lambda>v i. lineParallelInstr test_map squiggle_unit [(''count'', (0, 8))] [] (scenario_edge\<lparr>attributes := Some [(''count'', v)]\<rparr>) (0, 0) (60, 80) (VNum 1) i"
  obtain q1 where q1: "?l 1 0 = Inr q1"
    by (simp add: lineParallelInstr_def squiggle_unit_def example_unit_def chartTruthy_def getSquiggleParams_def
        getDynamicStyleValue_def)
  obtain q2 where q2: "?l 7 1 = Inr q2"
    by (simp add: lineParallelInstr_def squiggle_unit_def example_unit_def chartTruthy_def getSquiggleParams_def
        getDynamicStyleValue_def)
  have u: "squiggle squiggle_unit = Some ''count''" by (simp add: squiggle_unit_def)
  have "\<exists>c1 c2. pd q1 = Some c1 \<and> pd q2 = Some c2 \<and> List.length c2 \<le> List.length c1"
    by (rule squiggle_value_fewer_arcs [where mn = 0 and mx = 8 and ka = "[(''count'', 1)]" and x = 1
        and kb = "[(''count'', 7)]" and y = 7, OF q1 q2 u]) (simp_all add: scenario_edge_def)
  then obtain c1 c2 where c: "pd q1 = Some c1" "pd q2 = Some c2" "List.length c2 \<le> List.length c1"
    by blast
  have "c1 = generateSimpleWavyPath (0, 0) (60, 80) 25 (squiggleFrequency 0 8 1)"
    "c2 = generateSimpleWavyPath (0, 0) (60, 80) 25 (squiggleFrequency 0 8 7)"
    using lineParallel_squiggle_path [OF u _ _ _ _ q1] lineParallel_squiggle_path [OF u _ _ _ _ q2] c
    by (simp_all add: scenario_edge_def)
  then have "List.length c1 = 21" "List.length c2 = 3"
    by (simp_all add: length_generateSimpleWavyPath squiggleFrequency_def Let_def sqrt_10000)
  with q1 q2 c show ?thesis by blast
qed

end
