(* ===== verification/Charts.thy ===== *)
theory Charts
  imports Instructions
begin

text \<open>
  The chart placement of \<open>src/editor/src/utils/vegaliteHelpers.ts\<close>:
  \<open>drawVegaLiteEdges\<close> (lines 8--100), \<open>drawVegaLiteNodes\<close> (lines 103--140) and the
  placement step of \<open>createAndPlaceVegaLiteSVG\<close> (lines 143--194).  The chart itself is
  rendered by the external \<open>vega-embed\<close>, which is assumed to return an SVG element; a
  chart is kept as the data it was given and its transform.  The SVG elements of the
  overlay pane are an association list from element id to chart.  The conversion of a
  number to a string (\<open>x + ''\<close>) is a parameter \<open>numStr\<close>; \<open>String.replace\<close> with a
  string pattern removes the first occurrence only.  The callbacks of the
  \<open>forEach(async ...)\<close> run to their first \<open>await\<close> in list order; the placements
  happen when \<open>vega-embed\<close> resolves, in any order: \<open>placeCharts\<close> takes the
  placements in the order given.  A transform whose offsets are \<open>undefined\<close> (an
  orientation other than parallel and perpendicular) is \<open>NaN\<close>, \<open>None\<close> here.
\<close>

record chart_transform =
  tx :: real
  ty :: real
  rot :: real

record vega_chart =
  vdata :: attrs
  vtransform :: "chart_transform option"

type_synonym chart_pane = "(string \<times> vega_chart) list"

type_synonym placement = "string \<times> attrs \<times> chart_transform option"
  \<comment> \<open>the arguments \<open>{id, dataValues, transform}\<close> of \<open>createAndPlaceVegaLiteSVG\<close>\<close>

fun removeFirst :: "char \<Rightarrow> string \<Rightarrow> string" where
  \<comment> \<open>\<open>s.replace(c, '')\<close> with a one-character string pattern\<close>
  "removeFirst c [] = []"
| "removeFirst c (x # xs) = (if x = c then xs else x # removeFirst c xs)"

definition chartId :: "(real \<Rightarrow> string) \<Rightarrow> real \<Rightarrow> string" where
  \<comment> \<open>\<open>'t' + (v + '').replace('.', '').replace('-', '') + 'svg'\<close>\<close>
  "chartId numStr v = ''t'' @ removeFirst CHR ''-'' (removeFirst CHR ''.'' (numStr v)) @ ''svg''"

definition chartOrientationAngle :: "orientation option \<Rightarrow> real" where
  "chartOrientationAngle ori = (if ori = Some Perpendicular then 90 else 0)"

definition isHorizontal :: "real \<Rightarrow> bool" where
  "isHorizontal b = (\<bar>js_rem b 180 - 90\<bar> < 45)"

definition chartOffsets :: "orientation option \<Rightarrow> bool \<Rightarrow> (real \<times> real) option" where
  "chartOffsets ori horiz =
     (if ori = Some Parallel then Some (if horiz then (-100, 0) else (-180, 20))
      else if ori = Some Perpendicular then Some (-200, 25)
      else None)"

definition edgeChart :: "(real \<Rightarrow> string) \<Rightarrow> leaflet_map \<Rightarrow> unit_spec \<Rightarrow> edge \<Rightarrow> edge \<times> placement" where
  \<comment> \<open>the synchronous part of one \<open>forEach\<close> callback (lines 22--72): the chart fold of
      the edge (in place), its data, id and transform\<close>
  "edgeChart numStr mp u e0 =
     (let dataValues = (case attributes e0 of None \<Rightarrow> [] | Some a \<Rightarrow> a);
          e = normalizeEdgeChart e0;
          off = chartOffsets (orientation u) (isHorizontal (bearing e));
          p0 = latLngToLayerPoint mp (point0 e); p1 = latLngToLayerPoint mp (point1 e);
          mx = (fst p0 + fst p1) / 2; my = (snd p0 + snd p1) / 2;
          angle = bearing e + 90 + chartOrientationAngle (orientation u);
          tr = map_option (\<lambda>(xo, yo). \<lparr>tx = mx - 250 / 2 + xo, ty = my - 150 / 2 + yo, rot = angle\<rparr>) off
      in (e, (chartId numStr (mx + my), dataValues, tr)))"

definition nodeChart :: "(real \<Rightarrow> string) \<Rightarrow> leaflet_map \<Rightarrow> node \<Rightarrow> placement" where
  \<comment> \<open>one callback of \<open>drawVegaLiteNodes\<close> (lines 110--118)\<close>
  "nodeChart numStr mp n =
     (let dataValues = filter (\<lambda>kv. fst kv \<noteq> ''lat'' \<and> fst kv \<noteq> ''lon'') (node_attributes n);
          pt = latLngToLayerPoint mp \<lparr>lat = node_lat n, lon = node_lon n\<rparr>
      in (chartId numStr (node_lat n + node_lon n), dataValues,
          Some \<lparr>tx = fst pt - 150 / 2, ty = snd pt - 150 / 2, rot = 0\<rparr>))"

definition placeChart :: "chart_pane \<Rightarrow> placement \<Rightarrow> chart_pane" where
  \<comment> \<open>lines 180--193: a new id appends an SVG element with the chart; an id already in
      the pane only gets the new transform\<close>
  "placeChart pane pl =
     (case pl of (cid, dataValues, tr) \<Rightarrow>
        (case map_of pane cid of
           None \<Rightarrow> pane @ [(cid, \<lparr>vdata = dataValues, vtransform = tr\<rparr>)]
         | Some c \<Rightarrow> AList.update cid (c\<lparr>vtransform := tr\<rparr>) pane))"

definition placeCharts :: "chart_pane \<Rightarrow> placement list \<Rightarrow> chart_pane" where
  "placeCharts pane pls = foldl placeChart pane pls"

definition drawVegaLiteEdges ::
  "(real \<Rightarrow> string) \<Rightarrow> leaflet_map \<Rightarrow> unit_spec \<Rightarrow> edge list \<Rightarrow> chart_pane \<Rightarrow> edge list \<times> chart_pane" where
  "drawVegaLiteEdges numStr mp u es pane =
     (let cs = map (edgeChart numStr mp u) es in (map fst cs, placeCharts pane (map snd cs)))"

definition drawVegaLiteNodes ::
  "(real \<Rightarrow> string) \<Rightarrow> leaflet_map \<Rightarrow> node list \<Rightarrow> chart_pane \<Rightarrow> chart_pane" where
  "drawVegaLiteNodes numStr mp ns pane = placeCharts pane (map (nodeChart numStr mp) ns)"

subsection \<open>Sample inputs\<close>

definition test_numStr :: "real \<Rightarrow> string" where
  \<comment> \<open>a number-to-string conversion that is right at 3\<close>
  "test_numStr v = (if v = 3 then ''3'' else ''0'')"

definition chart_edge1 :: edge where
  "chart_edge1 = \<lparr>point0 = \<lparr>lat = 0, lon = 0\<rparr>, point1 = \<lparr>lat = 4, lon = 2\<rparr>, bearing = 30, edge_length = 1,
                   attributes = Some [(''count'', 1)]\<rparr>"

definition chart_edge2 :: edge where
  "chart_edge2 = \<lparr>point0 = \<lparr>lat = 0, lon = 0\<rparr>, point1 = \<lparr>lat = 2, lon = 4\<rparr>, bearing = 60, edge_length = 1,
                   attributes = Some [(''count'', 9)]\<rparr>"

definition chart_node1 :: node where
  "chart_node1 = \<lparr>node_lat = 40.1, node_lon = -74, node_attributes = [(''count'', 2)]\<rparr>"

definition chart_node2 :: node where
  "chart_node2 = \<lparr>node_lat = 40, node_lon = -73.9, node_attributes = [(''count'', 5)]\<rparr>"

subsection \<open>Lemmas on the placement\<close>

lemma edgeChart_id:
  "fst (snd (edgeChart numStr mp u e)) =
     chartId numStr ((fst (latLngToLayerPoint mp (point0 e)) + fst (latLngToLayerPoint mp (point1 e))) / 2 +
                     (snd (latLngToLayerPoint mp (point0 e)) + snd (latLngToLayerPoint mp (point1 e))) / 2)"
  by (simp add: edgeChart_def Let_def normalizeEdgeChart_cases swapEnds_def algebra_simps)

lemma edgeChart_data: "fst (snd (snd (edgeChart numStr mp u e))) = (case attributes e of None \<Rightarrow> [] | Some a \<Rightarrow> a)"
  by (simp add: edgeChart_def Let_def)

lemma placeCharts_same_id:
  assumes "fst pl0 = c" and "\<forall>pl \<in> set pls. fst pl = c" and "map_of pane c = None"
  shows "placeCharts pane (pl0 # pls) =
           pane @ [(c, \<lparr>vdata = fst (snd pl0), vtransform = snd (snd (last (pl0 # pls)))\<rparr>)]"
  using assms
proof (induction pls arbitrary: pl0 rule: rev_induct)
  case Nil
  then show ?case by (cases pl0) (simp add: placeCharts_def placeChart_def)
next
  case (snoc pl pls)
  obtain c' d tr where pl: "pl = (c', d, tr)" by (metis prod.exhaust)
  have "c' = c" using snoc.prems pl by simp
  then show ?case
    using snoc.IH [of pl0] snoc.prems
    by (simp add: placeCharts_def placeChart_def pl map_of_append map_add_def update_append_fresh)
qed

subsection \<open>Properties of the chart placement\<close>

text \<open>C30: Two edges whose projected midpoints have the same coordinate sum get the same chart
  id, so the second chart is never drawn: the pane holds one chart, with the first edge's
  data, moved to the second edge's place.\<close>

theorem edge_charts_collide:
  assumes "fst (latLngToLayerPoint mp (point0 e1)) + fst (latLngToLayerPoint mp (point1 e1)) +
           snd (latLngToLayerPoint mp (point0 e1)) + snd (latLngToLayerPoint mp (point1 e1)) =
           fst (latLngToLayerPoint mp (point0 e2)) + fst (latLngToLayerPoint mp (point1 e2)) +
           snd (latLngToLayerPoint mp (point0 e2)) + snd (latLngToLayerPoint mp (point1 e2))"
    and "map_of pane (fst (snd (edgeChart numStr mp u e1))) = None"
  shows "snd (drawVegaLiteEdges numStr mp u [e1, e2] pane) =
           pane @ [(fst (snd (edgeChart numStr mp u e1)),
                    \<lparr>vdata = (case attributes e1 of None \<Rightarrow> [] | Some a \<Rightarrow> a),
                     vtransform = snd (snd (snd (edgeChart numStr mp u e2)))\<rparr>)]"
proof -
  have "(fst (latLngToLayerPoint mp (point0 e2)) + fst (latLngToLayerPoint mp (point1 e2))) / 2 +
        (snd (latLngToLayerPoint mp (point0 e2)) + snd (latLngToLayerPoint mp (point1 e2))) / 2 =
        (fst (latLngToLayerPoint mp (point0 e1)) + fst (latLngToLayerPoint mp (point1 e1))) / 2 +
        (snd (latLngToLayerPoint mp (point0 e1)) + snd (latLngToLayerPoint mp (point1 e1))) / 2"
    using assms(1) by argo
  then have same: "fst (snd (edgeChart numStr mp u e2)) = fst (snd (edgeChart numStr mp u e1))"
    by (simp only: edgeChart_id)
  obtain c1 d1 t1 where 1: "snd (edgeChart numStr mp u e1) = (c1, d1, t1)" by (metis prod.exhaust)
  obtain c2 d2 t2 where 2: "snd (edgeChart numStr mp u e2) = (c2, d2, t2)" by (metis prod.exhaust)
  have "c2 = c1" using same 1 2 by simp
  moreover have "d1 = (case attributes e1 of None \<Rightarrow> [] | Some a \<Rightarrow> a)" using edgeChart_data [of numStr mp u e1] 1 by simp
  ultimately show ?thesis
    using assms(2) 1 2
    by (simp add: drawVegaLiteEdges_def placeCharts_def placeChart_def map_of_append map_add_def update_append_fresh)
qed

theorem edge_charts_collide_witness:
  "snd (drawVegaLiteEdges test_numStr test_map example_unit [chart_edge1, chart_edge2] []) =
     [(''t3svg'', \<lparr>vdata = [(''count'', 1)],
                   vtransform = snd (snd (snd (edgeChart test_numStr test_map example_unit chart_edge2)))\<rparr>)]"
proof -
  have id: "fst (snd (edgeChart test_numStr test_map example_unit chart_edge1)) = ''t3svg''"
    by (simp add: edgeChart_id test_map_def chart_edge1_def chartId_def test_numStr_def)
  have "snd (drawVegaLiteEdges test_numStr test_map example_unit [chart_edge1, chart_edge2] []) =
        [] @ [(fst (snd (edgeChart test_numStr test_map example_unit chart_edge1)),
               \<lparr>vdata = (case attributes chart_edge1 of None \<Rightarrow> [] | Some a \<Rightarrow> a),
                vtransform = snd (snd (snd (edgeChart test_numStr test_map example_unit chart_edge2)))\<rparr>)]"
    by (rule edge_charts_collide) (simp_all add: test_map_def chart_edge1_def chart_edge2_def)
  then show ?thesis by (simp only: id) (simp add: chart_edge1_def)
qed

text \<open>All nodes with the same \<open>lat + lon\<close> (every node of a street running north-west
  to south-east, say) share one chart id: the pane holds a single chart, with the data of the
  first node, at the place of the last.\<close>

lemma node_charts_collide:
  assumes "ns \<noteq> []" and "\<forall>n \<in> set ns. node_lat n + node_lon n = v"
    and "map_of pane (chartId numStr v) = None"
  shows "drawVegaLiteNodes numStr mp ns pane =
           pane @ [(chartId numStr v, \<lparr>vdata = fst (snd (nodeChart numStr mp (hd ns))),
                                      vtransform = snd (snd (nodeChart numStr mp (last ns)))\<rparr>)]"
proof -
  obtain n0 rest where ns: "ns = n0 # rest" using assms(1) by (cases ns) auto
  have ids: "\<forall>pl \<in> set (map (nodeChart numStr mp) rest). fst pl = chartId numStr v"
    using assms(2) by (auto simp: ns nodeChart_def Let_def)
  have "fst (nodeChart numStr mp n0) = chartId numStr v"
    using assms(2) by (simp add: ns nodeChart_def Let_def)
  from placeCharts_same_id [OF this ids assms(3)]
  show ?thesis by (simp add: drawVegaLiteNodes_def ns last_map)
qed

theorem node_charts_collide_witness:
  "drawVegaLiteNodes test_numStr test_map [chart_node1, chart_node2] [] =
     [(chartId test_numStr (-33.9), \<lparr>vdata = [(''count'', 2)],
        vtransform = Some \<lparr>tx = -73.9 - 75, ty = 40 - 75, rot = 0\<rparr>\<rparr>)]"
proof -
  have "\<forall>n \<in> set [chart_node1, chart_node2]. node_lat n + node_lon n = -33.9"
    by (simp add: chart_node1_def chart_node2_def)
  from node_charts_collide [where numStr = test_numStr and pane = "[]" and mp = test_map, OF _ this]
  show ?thesis by (simp add: nodeChart_def chart_node1_def chart_node2_def test_map_def)
qed

end
