(* ===== verification/Draw.thy ===== *)
theory Draw
  imports Charts
begin

text \<open>
  The two drawing steps that turn instructions into the document: \<open>drawSegments\<close> of
  \<open>src/editor/src/utils/d3Helpers.ts\<close> (lines 308--370), a D3 data join keyed by the
  instruction id, and the rendering part of \<open>createAndPlaceVegaLiteSVG\<close> of
  \<open>src/editor/src/utils/vegaliteHelpers.ts\<close> (lines 143--193), which renders each chart
  into a hidden \<open><div>\<close> of the document body before placing it with \<open>placeChart\<close>.

  An SVG group is the list of its elements, each named by the key of its bound datum
  and carrying that datum (the attributes D3 sets are functions of it); a matrix element
  carries its colour bands, which the inner join (by index) replaces entirely.  The
  vega-embed renderer is a parameter saying whether the rendered view contains an
  \<open><svg>\<close>.
\<close>

subsection \<open>\<open>drawSegments\<close>\<close>

type_synonym svg_group = "(nat \<times> instruction) list"

definition instrKey :: "instruction \<Rightarrow> nat" where
  \<comment> \<open>the key function \<open>d => d.id\<close>\<close>
  "instrKey ins = (case ins of PathI p \<Rightarrow> iid p | MatrixI i _ _ _ \<Rightarrow> i)"

definition joinUpdate :: "svg_group \<Rightarrow> instruction \<Rightarrow> svg_group" where
  \<comment> \<open>a datum whose key an element has updates that element; any other datum enters as a
      new element\<close>
  "joinUpdate g ins = AList.update (instrKey ins) ins g"

definition drawSegments :: "draw_method option \<Rightarrow> svg_group \<Rightarrow> instruction list \<Rightarrow> svg_group" where
  \<comment> \<open>the matrix branch removes the exit selection (line 331); the path branch
      (lines 356--367) has no exit, so elements whose key is not in the data stay\<close>
  "drawSegments method svgGroup instructions =
     (let g = foldl joinUpdate svgGroup instructions in
      if method = Some Matrix then filter (\<lambda>kv. fst kv \<in> set (map instrKey instructions)) g
      else g)"

subsection \<open>Rendering a chart\<close>

record chart_dom =
  chartPane :: chart_pane
  bodyDivs :: "string list"   \<comment> \<open>the ids of the \<open><div>\<close> elements appended to the body\<close>

definition createAndPlaceVegaLiteSVG :: "(placement \<Rightarrow> bool) \<Rightarrow> chart_dom \<Rightarrow> placement \<Rightarrow> chart_dom" where
  \<comment> \<open>the temporary \<open><div>\<close> is removed only when the view has no \<open><svg>\<close>\<close>
  "createAndPlaceVegaLiteSVG hasSvg cd pl =
     (if hasSvg pl
      then \<lparr>chartPane = placeChart (chartPane cd) pl, bodyDivs = bodyDivs cd @ [''vg-temp-'' @ fst pl]\<rparr>
      else cd)"

definition placeAll :: "(placement \<Rightarrow> bool) \<Rightarrow> chart_dom \<Rightarrow> placement list \<Rightarrow> chart_dom" where
  \<comment> \<open>the charts of one draw call, or of one \<open>move zoom\<close> event of the node handlers\<close>
  "placeAll hasSvg cd pls = foldl (createAndPlaceVegaLiteSVG hasSvg) cd pls"


subsection \<open>Properties of the drawing steps\<close>

lemma map_of_foldl_joinUpdate:
  "map_of (foldl joinUpdate g ins) k =
     (let ds = filter (\<lambda>d. instrKey d = k) ins in if ds = [] then map_of g k else Some (last ds))"
  by (induction ins rule: rev_induct) (auto simp: joinUpdate_def update_conv' Let_def)

lemma distinct_foldl_joinUpdate:
  "distinct (map fst g) \<Longrightarrow> distinct (map fst (foldl joinUpdate g ins))"
  by (induction ins arbitrary: g) (simp_all add: joinUpdate_def distinct_update)

lemma filter_key_distinct:
  "distinct (map f xs) \<Longrightarrow> x \<in> set xs \<Longrightarrow> filter (\<lambda>y. f y = f x) xs = [x]"
proof (induction xs)
  case (Cons a xs)
  then show ?case by (auto simp: filter_empty_conv) (metis image_eqI)
qed simp

lemma map_of_filter_key:
  "map_of (filter (\<lambda>kv. fst kv \<in> A) g) k = (if k \<in> A then map_of g k else None)"
  by (induction g) auto

text \<open>C21: After \<open>drawSegments\<close> with instructions of distinct ids, the group has one
  element per instruction, bound to it; an element whose id is not among the instructions
  is removed by a matrix layer and kept unchanged by the other methods, which have no exit.\<close>

theorem drawSegments_join:
  assumes "distinct (map instrKey instructions)"
  shows "(\<forall>d \<in> set instructions. map_of (drawSegments method svgGroup instructions) (instrKey d) = Some d) \<and>
         (k \<notin> instrKey ` set instructions \<longrightarrow>
            map_of (drawSegments method svgGroup instructions) k =
              (if method = Some Matrix then None else map_of svgGroup k))"
proof -
  have "map_of (foldl joinUpdate svgGroup instructions) (instrKey d) = Some d"
    if "d \<in> set instructions" for d
    using filter_key_distinct [OF assms that] by (simp add: map_of_foldl_joinUpdate Let_def)
  moreover have "map_of (foldl joinUpdate svgGroup instructions) k = map_of svgGroup k"
    if "k \<notin> instrKey ` set instructions"
  proof -
    have "filter (\<lambda>d. instrKey d = k) instructions = []"
      using that by (auto simp: filter_empty_conv)
    then show ?thesis by (simp add: map_of_foldl_joinUpdate)
  qed
  ultimately show ?thesis
    by (auto simp: drawSegments_def Let_def map_of_filter_key)
qed

theorem drawSegments_join_witness:
  "map_of (drawSegments (Some Line) [(5, PathI (emptyInstr 5))] [PathI (emptyInstr 0), PathI (emptyInstr 1)]) 1
     = Some (PathI (emptyInstr 1)) \<and>
   map_of (drawSegments (Some Line) [(5, PathI (emptyInstr 5))] [PathI (emptyInstr 0), PathI (emptyInstr 1)]) 5
     = Some (PathI (emptyInstr 5))"
  using drawSegments_join [of "[PathI (emptyInstr 0), PathI (emptyInstr 1)]" "Some Line"
      "[(5, PathI (emptyInstr 5))]" 5]
  by (simp add: instrKey_def)


end
