(* ===== verification/Parser.thy ===== *)
theory Parser
  imports Style
begin

text \<open>
  The specification parser \<open>parseSpecification\<close> of \<open>src/streetweave/src/parser.ts\<close>
  (lines 33--55) and the \<open>color-hex\<close> format it registers with Ajv (lines 10--13).  A
  JSON value is the datatype \<open>json\<close>; \<open>JSON.parse\<close> is a parameter that returns
  \<open>None\<close> where it throws a \<open>SyntaxError\<close> (which \<open>parseSpecification\<close> does not
  catch).  An object is the list of its members in text order; a member read by name
  is the last one of that name, as \<open>JSON.parse\<close> keeps it.

  The schema \<open>schema.json\<close> the parser compiles is not in the repository; \<open>validLayer\<close>
  and \<open>layerDefaults\<close> model it from the specification (section 4.1 and the data
  model) and the \<open>ParsedSpec\<close> type: the required fields, the enumerations, the
  \<open>color-hex\<close> format of \<open>map.streetColor\<close>, and the two defaults the specification
  names (\<open>unit.alignment = "center"\<close>, \<open>relation.spatial = "none"\<close>), which Ajv's
  \<open>useDefaults\<close> writes into the data.  The validated object is the \<open>ParsedSpec\<close>;
  \<open>decodeLayer\<close> reads it into the records of \<open>Types\<close>, with the map-wide and query
  fields the pipeline does not read kept beside it in \<open>parsed_spec\<close>.
\<close>

datatype json = JNull | JBool bool | JNum real | JStr string | JArr "json list"
  | JObj "(string \<times> json) list"

datatype parse_error = SyntaxError

record parsed_spec =
  ps_layer :: layer_spec
  ps_name :: "string option"
  streetColor :: "string option"
  streetWidth :: "real option"
  queryAddress :: "string option"
  queryRadius :: "real option"

subsection \<open>The colour format\<close>

definition hexDigits :: string where
  "hexDigits = ''ABCDEFabcdef0123456789''"

definition hexFormat :: "string \<Rightarrow> bool" where
  \<comment> \<open>\<open>/^#([A-Fa-f0-9]{6}|[A-Fa-f0-9]{3})$/.test(data)\<close>\<close>
  "hexFormat s =
     (case s of
        [] \<Rightarrow> False
      | c # ds \<Rightarrow> c = CHR ''#'' \<and>
                 ((List.length ds = 6 \<and> list_all (\<lambda>d. d \<in> set hexDigits) ds) \<or>
                  (List.length ds = 3 \<and> list_all (\<lambda>d. d \<in> set hexDigits) ds)))"

subsection \<open>Reading JSON values\<close>

definition jget :: "json \<Rightarrow> string \<Rightarrow> json option" where
  "jget j k = (case j of JObj kvs \<Rightarrow> map_of (rev kvs) k | _ \<Rightarrow> None)"

fun jpath :: "json \<Rightarrow> string list \<Rightarrow> json option" where
  "jpath j [] = Some j"
| "jpath j (k # ks) = (case jget j k of None \<Rightarrow> None | Some j' \<Rightarrow> jpath j' ks)"

definition jsTruthy :: "json \<Rightarrow> bool" where
  "jsTruthy j = (case j of JNull \<Rightarrow> False | JBool b \<Rightarrow> b | JNum r \<Rightarrow> r \<noteq> 0 | JStr s \<Rightarrow> s \<noteq> []
                 | _ \<Rightarrow> True)"

subsection \<open>The schema\<close>

definition isObj :: "json \<Rightarrow> bool" where
  "isObj j = (case j of JObj _ \<Rightarrow> True | _ \<Rightarrow> False)"

definition isStr :: "json \<Rightarrow> bool" where
  "isStr j = (case j of JStr _ \<Rightarrow> True | _ \<Rightarrow> False)"

definition isNum :: "json \<Rightarrow> bool" where
  "isNum j = (case j of JNum _ \<Rightarrow> True | _ \<Rightarrow> False)"

definition numOrStr :: "json \<Rightarrow> bool" where
  "numOrStr j = (isNum j \<or> isStr j)"

definition isCount :: "json \<Rightarrow> bool" where
  \<comment> \<open>a non-negative integer\<close>
  "isCount j = (case j of JNum r \<Rightarrow> 0 \<le> r \<and> r = of_int \<lfloor>r\<rfloor> | _ \<Rightarrow> False)"

definition enumStr :: "string list \<Rightarrow> json \<Rightarrow> bool" where
  "enumStr xs j = (case j of JStr s \<Rightarrow> s \<in> set xs | _ \<Rightarrow> False)"

definition colorHex :: "json \<Rightarrow> bool" where
  "colorHex j = (case j of JStr s \<Rightarrow> hexFormat s | _ \<Rightarrow> False)"

definition zoomPair :: "json \<Rightarrow> bool" where
  "zoomPair j = (case j of JArr [JNum _, JNum _] \<Rightarrow> True | _ \<Rightarrow> False)"

definition optField :: "json \<Rightarrow> string \<Rightarrow> (json \<Rightarrow> bool) \<Rightarrow> bool" where
  "optField j k P = (case jget j k of None \<Rightarrow> True | Some v \<Rightarrow> P v)"

definition reqPath :: "json \<Rightarrow> string list \<Rightarrow> (json \<Rightarrow> bool) \<Rightarrow> bool" where
  "reqPath j ks P = (case jpath j ks of None \<Rightarrow> False | Some v \<Rightarrow> P v)"

definition validUnit :: "json \<Rightarrow> bool" where
  "validUnit u =
     (isObj u \<and> reqPath u [''type''] (enumStr [''segment'', ''node'']) \<and>
      optField u ''method'' (enumStr [''line'', ''rect'', ''matrix'']) \<and>
      optField u ''orientation'' (enumStr [''parallel'', ''perpendicular'', ''fixed'']) \<and>
      optField u ''alignment'' (enumStr [''left'', ''center'', ''right'']) \<and>
      optField u ''density'' numOrStr \<and> optField u ''opacity'' numOrStr \<and>
      optField u ''width'' numOrStr \<and> optField u ''height'' numOrStr \<and>
      optField u ''color'' isStr \<and> optField u ''squiggle'' isStr \<and> optField u ''dash'' isStr \<and>
      optField u ''rows'' isCount \<and> optField u ''columns'' isCount)"

definition validRelation :: "json \<Rightarrow> bool" where
  "validRelation r =
     (isObj r \<and> optField r ''spatial'' (enumStr [''contains'', ''nn'', ''buffer'', ''none'']) \<and>
      optField r ''value'' isNum \<and> optField r ''type'' (enumStr [''sum'', ''mean'', ''min'', ''max'']))"

definition validMap :: "json \<Rightarrow> bool" where
  "validMap m = (isObj m \<and> optField m ''streetColor'' colorHex \<and> optField m ''streetWidth'' isNum)"

definition validQuery :: "json \<Rightarrow> bool" where
  "validQuery q = (isObj q \<and> optField q ''address'' isStr \<and> optField q ''radius'' isNum)"

definition validLayer :: "json \<Rightarrow> bool" where
  "validLayer j =
     (isObj j \<and> optField j ''name'' isStr \<and> reqPath j [''unit''] validUnit \<and>
      reqPath j [''data'', ''physical'', ''path''] isStr \<and>
      reqPath j [''data'', ''thematic'', ''path''] isStr \<and>
      reqPath j [''data'', ''thematic'', ''latColumn''] isStr \<and>
      reqPath j [''data'', ''thematic'', ''lonColumn''] isStr \<and>
      optField j ''relation'' validRelation \<and> optField j ''zoom'' zoomPair \<and>
      optField j ''map'' validMap \<and> optField j ''query'' validQuery)"

subsection \<open>Defaults\<close>

definition addDefault :: "string \<Rightarrow> json \<Rightarrow> json \<Rightarrow> json" where
  "addDefault k v j = (case j of JObj kvs \<Rightarrow> (case jget j k of None \<Rightarrow> JObj (kvs @ [(k, v)]) | Some _ \<Rightarrow> j)
                       | _ \<Rightarrow> j)"

definition modifyField :: "string \<Rightarrow> (json \<Rightarrow> json) \<Rightarrow> json \<Rightarrow> json" where
  "modifyField k f j = (case j of JObj kvs \<Rightarrow> JObj (map (\<lambda>kv. if fst kv = k then (k, f (snd kv)) else kv) kvs)
                        | _ \<Rightarrow> j)"

definition layerDefaults :: "json \<Rightarrow> json" where
  "layerDefaults j =
     modifyField ''relation'' (addDefault ''spatial'' (JStr ''none''))
       (modifyField ''unit'' (addDefault ''alignment'' (JStr ''center'')) j)"

subsection \<open>Decoding\<close>

definition strOf :: "json option \<Rightarrow> string" where
  "strOf v = (case v of Some (JStr s) \<Rightarrow> s | _ \<Rightarrow> [])"

definition strOpt :: "json option \<Rightarrow> string option" where
  "strOpt v = (case v of Some (JStr s) \<Rightarrow> Some s | _ \<Rightarrow> None)"

definition numOpt :: "json option \<Rightarrow> real option" where
  "numOpt v = (case v of Some (JNum r) \<Rightarrow> Some r | _ \<Rightarrow> None)"

definition styleOf :: "json option \<Rightarrow> style_name" where
  "styleOf v = (case v of Some (JNum r) \<Rightarrow> SNum r | Some (JStr s) \<Rightarrow> SStr s | _ \<Rightarrow> SUndef)"

definition countOf :: "json option \<Rightarrow> nat option" where
  "countOf v = (case v of Some (JNum r) \<Rightarrow> Some (nat \<lfloor>r\<rfloor>) | _ \<Rightarrow> None)"

definition chartOf :: "json option \<Rightarrow> string option" where
  \<comment> \<open>the template is opaque: a string is kept, any other value is read only for its truthiness\<close>
  "chartOf v = (case v of None \<Rightarrow> None | Some (JStr s) \<Rightarrow> Some s
                | Some c \<Rightarrow> Some (if jsTruthy c then ''{}'' else []))"

definition enumOf :: "(string \<times> 'a) list \<Rightarrow> json option \<Rightarrow> 'a option" where
  "enumOf tbl v = (case v of Some (JStr s) \<Rightarrow> map_of tbl s | _ \<Rightarrow> None)"

definition methodTbl :: "(string \<times> draw_method) list" where
  "methodTbl = [(''line'', Line), (''rect'', Rect), (''matrix'', Matrix)]"

definition orientationTbl :: "(string \<times> orientation) list" where
  "orientationTbl = [(''parallel'', Parallel), (''perpendicular'', Perpendicular), (''fixed'', Fixed)]"

definition alignmentTbl :: "(string \<times> alignment) list" where
  "alignmentTbl = [(''left'', Left), (''center'', Center), (''right'', Right)]"

definition spatialTbl :: "(string \<times> spatial_relation) list" where
  "spatialTbl = [(''contains'', Contains), (''nn'', NN), (''buffer'', Buffer)]"

definition aggTbl :: "(string \<times> aggregation_type) list" where
  "aggTbl = [(''sum'', AggSum), (''mean'', AggMean), (''min'', AggMin), (''max'', AggMax)]"

definition decodeUnit :: "json \<Rightarrow> unit_spec" where
  "decodeUnit u =
     \<lparr>utype = (if jget u ''type'' = Some (JStr ''node'') then UNode else USegment),
      density = styleOf (jget u ''density''), umethod = enumOf methodTbl (jget u ''method''),
      opacity = styleOf (jget u ''opacity''), color = styleOf (jget u ''color''),
      squiggle = strOpt (jget u ''squiggle''), dash = strOpt (jget u ''dash''),
      width = styleOf (jget u ''width''), height = styleOf (jget u ''height''),
      chart = chartOf (jget u ''chart''), rows = countOf (jget u ''rows''),
      columns = countOf (jget u ''columns''),
      orientation = enumOf orientationTbl (jget u ''orientation''),
      alignment = enumOf alignmentTbl (jget u ''alignment'')\<rparr>"

definition decodeRelation :: "json \<Rightarrow> relation_spec" where
  "decodeRelation r = \<lparr>spatial = enumOf spatialTbl (jget r ''spatial''), rvalue = numOpt (jget r ''value''),
                        rtype = enumOf aggTbl (jget r ''type'')\<rparr>"

definition zoomOf :: "json option \<Rightarrow> (real \<times> real) option" where
  "zoomOf v = (case v of Some (JArr [JNum a, JNum b]) \<Rightarrow> Some (a, b) | _ \<Rightarrow> None)"

definition decodeLayer :: "json \<Rightarrow> parsed_spec" where
  "decodeLayer j =
     \<lparr>ps_layer =
        \<lparr>layer_unit = decodeUnit (case jget j ''unit'' of Some u \<Rightarrow> u | None \<Rightarrow> JNull),
         physical_path = strOf (jpath j [''data'', ''physical'', ''path'']),
         thematic_path = strOf (jpath j [''data'', ''thematic'', ''path'']),
         latColumn = strOf (jpath j [''data'', ''thematic'', ''latColumn'']),
         lonColumn = strOf (jpath j [''data'', ''thematic'', ''lonColumn'']),
         relation = map_option decodeRelation (jget j ''relation''),
         zoom = zoomOf (jget j ''zoom'')\<rparr>,
      ps_name = strOpt (jget j ''name''),
      streetColor = strOpt (jpath j [''map'', ''streetColor'']),
      streetWidth = numOpt (jpath j [''map'', ''streetWidth'']),
      queryAddress = strOpt (jpath j [''query'', ''address'']),
      queryRadius = numOpt (jpath j [''query'', ''radius''])\<rparr>"

subsection \<open>The parser\<close>

definition parseSpecification ::
  "(string \<Rightarrow> json option) \<Rightarrow> string \<Rightarrow> parse_error + parsed_spec list" where
  "parseSpecification jsonParse specJson =
     (case jsonParse specJson of
        None \<Rightarrow> Inl SyntaxError
      | Some parsedJson \<Rightarrow>
          (let layerSpecs = (case parsedJson of JArr xs \<Rightarrow> xs | _ \<Rightarrow> [parsedJson])
           in if \<not> list_all validLayer layerSpecs then Inr []
              else Inr (map decodeLayer (filter jsTruthy (map layerDefaults layerSpecs)))))"


subsection \<open>Printing a specification\<close>

text \<open>
  The inverse of the parser, used to state its round trip: \<open>encodeLayer\<close> prints a
  \<open>parsed_spec\<close> as the JSON object the schema describes, omitting the members whose
  value is absent (\<open>jfields\<close>).  \<open>wfSpec\<close> names the specifications the parser can
  return: an alignment is set (the schema default fills it), a colour channel is a
  string (the schema's \<open>color\<close> is a string), and a street colour is a hex colour.
\<close>

definition jfields :: "(string \<times> json option) list \<Rightarrow> (string \<times> json) list" where
  "jfields kvs = concat (map (\<lambda>kv. case snd kv of None \<Rightarrow> [] | Some v \<Rightarrow> [(fst kv, v)]) kvs)"

primrec kindName :: "unit_kind \<Rightarrow> string" where
  "kindName USegment = ''segment''" | "kindName UNode = ''node''"

primrec methodName :: "draw_method \<Rightarrow> string" where
  "methodName Line = ''line''" | "methodName Rect = ''rect''" | "methodName Matrix = ''matrix''"

primrec orientationName :: "orientation \<Rightarrow> string" where
  "orientationName Parallel = ''parallel''" | "orientationName Perpendicular = ''perpendicular''"
| "orientationName Fixed = ''fixed''"

primrec alignmentName :: "alignment \<Rightarrow> string" where
  "alignmentName Left = ''left''" | "alignmentName Center = ''center''" | "alignmentName Right = ''right''"

primrec spatialName :: "spatial_relation \<Rightarrow> string" where
  "spatialName Contains = ''contains''" | "spatialName NN = ''nn''" | "spatialName Buffer = ''buffer''"

primrec aggName :: "aggregation_type \<Rightarrow> string" where
  "aggName AggSum = ''sum''" | "aggName AggMean = ''mean''" | "aggName AggMin = ''min''" | "aggName AggMax = ''max''"

primrec styleJ :: "style_name \<Rightarrow> json option" where
  "styleJ (SNum r) = Some (JNum r)" | "styleJ (SStr s) = Some (JStr s)" | "styleJ SUndef = None"

definition encodeUnit :: "unit_spec \<Rightarrow> json" where
  "encodeUnit u = JObj (jfields
     [(''type'', Some (JStr (kindName (utype u)))), (''density'', styleJ (density u)),
      (''method'', map_option (JStr \<circ> methodName) (umethod u)), (''opacity'', styleJ (opacity u)),
      (''color'', styleJ (color u)), (''squiggle'', map_option JStr (squiggle u)),
      (''dash'', map_option JStr (dash u)), (''width'', styleJ (width u)), (''height'', styleJ (height u)),
      (''chart'', map_option JStr (chart u)), (''rows'', map_option (JNum \<circ> of_nat) (rows u)),
      (''columns'', map_option (JNum \<circ> of_nat) (columns u)),
      (''orientation'', map_option (JStr \<circ> orientationName) (orientation u)),
      (''alignment'', map_option (JStr \<circ> alignmentName) (alignment u))])"

definition encodeRelation :: "relation_spec \<Rightarrow> json" where
  "encodeRelation r = JObj (jfields
     [(''spatial'', map_option (JStr \<circ> spatialName) (spatial r)), (''value'', map_option JNum (rvalue r)),
      (''type'', map_option (JStr \<circ> aggName) (rtype r))])"

definition encodeLayer :: "parsed_spec \<Rightarrow> json" where
  "encodeLayer p = JObj (jfields
     [(''name'', map_option JStr (ps_name p)), (''unit'', Some (encodeUnit (layer_unit (ps_layer p)))),
      (''data'', Some (JObj [(''physical'', JObj [(''path'', JStr (physical_path (ps_layer p)))]),
                            (''thematic'', JObj [(''path'', JStr (thematic_path (ps_layer p))),
                                                (''latColumn'', JStr (latColumn (ps_layer p))),
                                                (''lonColumn'', JStr (lonColumn (ps_layer p)))])])),
      (''relation'', map_option encodeRelation (relation (ps_layer p))),
      (''zoom'', map_option (\<lambda>z. JArr [JNum (fst z), JNum (snd z)]) (zoom (ps_layer p))),
      (''map'', Some (JObj (jfields [(''streetColor'', map_option JStr (streetColor p)),
                                  (''streetWidth'', map_option JNum (streetWidth p))]))),
      (''query'', Some (JObj (jfields [(''address'', map_option JStr (queryAddress p)),
                                    (''radius'', map_option JNum (queryRadius p))])))])"

definition wfSpec :: "parsed_spec \<Rightarrow> bool" where
  "wfSpec p = (alignment (layer_unit (ps_layer p)) \<noteq> None \<and>
               (case color (layer_unit (ps_layer p)) of SNum _ \<Rightarrow> False | _ \<Rightarrow> True) \<and>
               (case streetColor p of None \<Rightarrow> True | Some c \<Rightarrow> hexFormat c))"

subsection \<open>Reading printed objects\<close>

lemma map_of_rev_jfields:
  "distinct (map fst kvs) \<Longrightarrow> map_of (rev (jfields kvs)) k = (case map_of kvs k of None \<Rightarrow> None | Some v \<Rightarrow> v)"
proof (induction kvs rule: rev_induct)
  case Nil
  then show ?case by (simp add: jfields_def)
next
  case (snoc kv kvs)
  then show ?case
    by (cases kv) (auto simp: jfields_def map_of_append split: option.splits; metis fst_conv image_eqI)
qed

lemma jfields_append [simp]: "jfields (xs @ ys) = jfields xs @ jfields ys"
  by (simp add: jfields_def)

lemma jget_jfields:
  "distinct (map fst kvs) \<Longrightarrow> jget (JObj (jfields kvs)) k = (case map_of kvs k of None \<Rightarrow> None | Some v \<Rightarrow> v)"
  by (simp add: jget_def map_of_rev_jfields)

lemma modifyField_jfields:
  "modifyField k f (JObj (jfields kvs)) =
     JObj (jfields (map (\<lambda>kv. if fst kv = k then (k, map_option f (snd kv)) else kv) kvs))"
  by (induction kvs) (auto simp: modifyField_def jfields_def split: option.splits)

lemma addDefault_present: "jget j k \<noteq> None \<Longrightarrow> addDefault k v j = j"
  by (auto simp: addDefault_def split: json.splits option.splits)

lemma name_tables [simp]:
  "map_of methodTbl (methodName m) = Some m" "map_of orientationTbl (orientationName o') = Some o'"
  "map_of alignmentTbl (alignmentName a) = Some a" "map_of spatialTbl (spatialName sp) = Some sp"
  "map_of aggTbl (aggName t) = Some t"
  apply (cases m; simp add: methodTbl_def)
  apply (cases o'; simp add: orientationTbl_def)
  apply (cases a; simp add: alignmentTbl_def)
  apply (cases sp; simp add: spatialTbl_def)
  apply (cases t; simp add: aggTbl_def)
  done

lemma enumOf_names [simp]:
  "(\<And>v. map_of tbl (nm v) = Some v) \<Longrightarrow> enumOf tbl (map_option (JStr \<circ> nm) x) = x"
  by (cases x) (simp_all add: enumOf_def)

lemma enumOf_JStr [simp]: "enumOf tbl (Some (JStr s)) = map_of tbl s"
  by (simp add: enumOf_def)

lemma decode_values [simp]:
  "styleOf (styleJ s) = s" "strOpt (map_option JStr x) = x" "numOpt (map_option JNum r) = r"
  "chartOf (map_option JStr c) = c" "countOf (map_option (JNum \<circ> of_nat) n) = n"
  apply (cases s; simp add: styleOf_def)
  apply (cases x; simp add: strOpt_def)
  apply (cases r; simp add: numOpt_def)
  apply (cases c; simp add: chartOf_def)
  apply (cases n; simp add: countOf_def)
  done

lemma decode_encodeUnit: "decodeUnit (encodeUnit u) = u"
  by (cases "utype u") (simp_all add: decodeUnit_def encodeUnit_def jget_jfields)

lemma jget_addDefault:
  "jget (addDefault k v (JObj kvs)) k' =
     (if k' = k \<and> jget (JObj kvs) k = None then Some v else jget (JObj kvs) k')"
  by (auto simp: addDefault_def jget_def split: option.splits)

lemma decode_encodeRelation:
  "decodeRelation (addDefault ''spatial'' (JStr ''none'') (encodeRelation r)) = r"
proof (cases r)
  case (fields sp v t)
  have "map_of spatialTbl ''none'' = None" by (simp add: spatialTbl_def)
  with fields show ?thesis
    by (cases sp) (simp_all add: decodeRelation_def encodeRelation_def jget_addDefault jget_jfields)
qed

lemma layerDefaults_encodeLayer:
  assumes "alignment (layer_unit (ps_layer p)) \<noteq> None"
  shows "layerDefaults (encodeLayer p) = JObj (jfields
     [(''name'', map_option JStr (ps_name p)), (''unit'', Some (encodeUnit (layer_unit (ps_layer p)))),
      (''data'', Some (JObj [(''physical'', JObj [(''path'', JStr (physical_path (ps_layer p)))]),
                            (''thematic'', JObj [(''path'', JStr (thematic_path (ps_layer p))),
                                                (''latColumn'', JStr (latColumn (ps_layer p))),
                                                (''lonColumn'', JStr (lonColumn (ps_layer p)))])])),
      (''relation'', map_option (addDefault ''spatial'' (JStr ''none'') \<circ> encodeRelation) (relation (ps_layer p))),
      (''zoom'', map_option (\<lambda>z. JArr [JNum (fst z), JNum (snd z)]) (zoom (ps_layer p))),
      (''map'', Some (JObj (jfields [(''streetColor'', map_option JStr (streetColor p)),
                                  (''streetWidth'', map_option JNum (streetWidth p))]))),
      (''query'', Some (JObj (jfields [(''address'', map_option JStr (queryAddress p)),
                                    (''radius'', map_option JNum (queryRadius p))])))])"
proof -
  have "jget (encodeUnit (layer_unit (ps_layer p))) ''alignment'' \<noteq> None"
    using assms by (simp add: encodeUnit_def jget_jfields)
  then show ?thesis
    by (simp add: layerDefaults_def encodeLayer_def modifyField_jfields addDefault_present option.map_comp)
qed

lemma decode_encodeLayer:
  assumes "alignment (layer_unit (ps_layer p)) \<noteq> None"
  shows "decodeLayer (layerDefaults (encodeLayer p)) = p"
proof -
  have r: "map_option decodeRelation (map_option (\<lambda>x. addDefault ''spatial'' (JStr ''none'') (encodeRelation x)) x) = x"
    for x by (cases x) (simp_all add: decode_encodeRelation)
  have z: "zoomOf (map_option (\<lambda>z. JArr [JNum (fst z), JNum (snd z)]) x) = x" for x
    by (cases x) (auto simp: zoomOf_def)
  show ?thesis
    by (simp add: layerDefaults_encodeLayer [OF assms] decodeLayer_def jget_def map_of_rev_jfields decode_encodeUnit r z strOf_def comp_def strOpt_def numOpt_def split: option.split)
qed

subsection \<open>Printed layers pass the schema\<close>

lemma names_in_enums [simp]:
  "enumStr [''segment'', ''node''] (JStr (kindName k))"
  "enumStr [''line'', ''rect'', ''matrix''] (JStr (methodName m))"
  "enumStr [''parallel'', ''perpendicular'', ''fixed''] (JStr (orientationName o'))"
  "enumStr [''left'', ''center'', ''right''] (JStr (alignmentName a))"
  "enumStr [''contains'', ''nn'', ''buffer'', ''none''] (JStr (spatialName sp))"
  "enumStr [''sum'', ''mean'', ''min'', ''max''] (JStr (aggName t))"
  unfolding enumStr_def
  apply (cases k; simp)
  apply (cases m; simp)
  apply (cases o'; simp)
  apply (cases a; simp)
  apply (cases sp; simp)
  apply (cases t; simp)
  done

lemma encodeUnit_isObj [simp]: "isObj (encodeUnit u)"
  by (simp add: encodeUnit_def isObj_def)

lemma style_numOrStr: "(case styleJ s of Some v \<Rightarrow> numOrStr v | None \<Rightarrow> True)"
  by (cases s) (simp_all add: numOrStr_def isNum_def isStr_def)

lemma jget_encodeUnit:
  "jget (encodeUnit u) k = (case map_of
     [(''type'', Some (JStr (kindName (utype u)))), (''density'', styleJ (density u)),
      (''method'', map_option (JStr \<circ> methodName) (umethod u)), (''opacity'', styleJ (opacity u)),
      (''color'', styleJ (color u)), (''squiggle'', map_option JStr (squiggle u)),
      (''dash'', map_option JStr (dash u)), (''width'', styleJ (width u)), (''height'', styleJ (height u)),
      (''chart'', map_option JStr (chart u)), (''rows'', map_option (JNum \<circ> of_nat) (rows u)),
      (''columns'', map_option (JNum \<circ> of_nat) (columns u)),
      (''orientation'', map_option (JStr \<circ> orientationName) (orientation u)),
      (''alignment'', map_option (JStr \<circ> alignmentName) (alignment u))] k of None \<Rightarrow> None | Some v \<Rightarrow> v)"
  unfolding encodeUnit_def by (rule jget_jfields) simp

lemma case_option_all [simp]: "(\<And>v. P v) \<Longrightarrow> (case x of None \<Rightarrow> True | Some v \<Rightarrow> P v)"
  by (cases x) simp_all

lemma valid_encodeUnit:
  assumes "case color u of SNum _ \<Rightarrow> False | _ \<Rightarrow> True"
  shows "validUnit (encodeUnit u)"
proof -
  have col: "(case styleJ (color u) of Some v \<Rightarrow> isStr v | None \<Rightarrow> True)"
    using assms by (cases "color u") (simp_all add: isStr_def)
  have cnt: "isCount (JNum (of_nat n))" for n by (simp add: isCount_def)
  show ?thesis
    unfolding validUnit_def optField_def
    by (simp add: reqPath_def jget_encodeUnit style_numOrStr col cnt isStr_def)
qed

lemma valid_encodeRelation: "validRelation (encodeRelation r)"
proof -
  have "distinct (map fst [(''spatial'', map_option (JStr \<circ> spatialName) (spatial r)),
      (''value'', map_option JNum (rvalue r)), (''type'', map_option (JStr \<circ> aggName) (rtype r))])"
    by simp
  then show ?thesis
    unfolding validRelation_def optField_def encodeRelation_def
    by (simp add: jget_jfields isObj_def isNum_def)
qed

lemma jget_encodeLayer:
  "jget (encodeLayer p) k = (case map_of
     [(''name'', map_option JStr (ps_name p)), (''unit'', Some (encodeUnit (layer_unit (ps_layer p)))),
      (''data'', Some (JObj [(''physical'', JObj [(''path'', JStr (physical_path (ps_layer p)))]),
                            (''thematic'', JObj [(''path'', JStr (thematic_path (ps_layer p))),
                                                (''latColumn'', JStr (latColumn (ps_layer p))),
                                                (''lonColumn'', JStr (lonColumn (ps_layer p)))])])),
      (''relation'', map_option encodeRelation (relation (ps_layer p))),
      (''zoom'', map_option (\<lambda>z. JArr [JNum (fst z), JNum (snd z)]) (zoom (ps_layer p))),
      (''map'', Some (JObj (jfields [(''streetColor'', map_option JStr (streetColor p)),
                                  (''streetWidth'', map_option JNum (streetWidth p))]))),
      (''query'', Some (JObj (jfields [(''address'', map_option JStr (queryAddress p)),
                                    (''radius'', map_option JNum (queryRadius p))])))] k
     of None \<Rightarrow> None | Some v \<Rightarrow> v)"
  unfolding encodeLayer_def by (rule jget_jfields) simp

lemma jget_JObj: "jget (JObj kvs) k = map_of (rev kvs) k"
  by (simp add: jget_def)

lemma valid_encodeLayer:
  assumes "wfSpec p"
  shows "validLayer (encodeLayer p)"
proof -
  have unit: "validUnit (encodeUnit (layer_unit (ps_layer p)))"
    using assms by (simp add: wfSpec_def valid_encodeUnit)
  have sc: "(case streetColor p of Some v \<Rightarrow> colorHex (JStr v) | None \<Rightarrow> True)"
    using assms by (cases "streetColor p") (simp_all add: wfSpec_def colorHex_def)
  have m: "validMap (JObj (jfields [(''streetColor'', map_option JStr (streetColor p)),
                                  (''streetWidth'', map_option JNum (streetWidth p))]))"
    using sc by (cases "streetColor p") (simp_all add: validMap_def optField_def jget_jfields isObj_def isNum_def)
  have q: "validQuery (JObj (jfields [(''address'', map_option JStr (queryAddress p)),
                                    (''radius'', map_option JNum (queryRadius p))]))"
    by (simp add: validQuery_def optField_def jget_jfields isObj_def isNum_def isStr_def)
  have obj: "isObj (encodeLayer p)" by (simp add: encodeLayer_def isObj_def)
  show ?thesis
    unfolding validLayer_def optField_def
    apply (intro conjI)
    apply (rule obj)
    apply (simp add: jget_encodeLayer isStr_def)
    apply (simp add: reqPath_def jget_encodeLayer unit)
    apply (simp add: reqPath_def jget_encodeLayer jget_JObj isStr_def)
    apply (simp add: reqPath_def jget_encodeLayer jget_JObj isStr_def)
    apply (simp add: reqPath_def jget_encodeLayer jget_JObj isStr_def)
    apply (simp add: reqPath_def jget_encodeLayer jget_JObj isStr_def)
    apply (simp add: jget_encodeLayer valid_encodeRelation)
    apply (simp add: jget_encodeLayer zoomPair_def)
    apply (simp add: jget_encodeLayer m)
    apply (simp add: jget_encodeLayer q)
    done
qed

lemma hexValue_digit: "(hexValue d \<noteq> None) = (d \<in> set hexDigits)"
proof -
  have "(d \<in> set hexDigits) = ((of_char d :: nat) \<in> of_char ` set hexDigits)"
    by (auto simp: inj_image_mem_iff inj_def)
  also have "\<dots> = (let n = of_char d :: nat in 48 \<le> n \<and> n \<le> 57 \<or> 65 \<le> n \<and> n \<le> 70 \<or> 97 \<le> n \<and> n \<le> 102)"
    unfolding Let_def by (simp add: hexDigits_def) presburger
  finally show ?thesis by (simp add: hexValue_def Let_def)
qed

text \<open>C15: The \<open>color-hex\<close> format the parser registers with Ajv accepts exactly the
  strings styleHelpers' \<open>isHexColor\<close> accepts: the two regular expressions
  \<open>/^#([A-Fa-f0-9]{6}|[A-Fa-f0-9]{3})$/\<close> and \<open>/^#([0-9A-F]{3}|[0-9A-F]{6})$/i\<close> agree.\<close>

theorem hexFormat_isHexColor: "hexFormat s = Style.isHexColor s"
  unfolding hexFormat_def isHexColor_def hexValue_digit by (auto split: list.split)

lemma map_of_map_modify:
  "map_of (map (\<lambda>kv. if fst kv = k then (k, f (snd kv)) else kv) xs) k' =
     (if k' = k then map_option f (map_of xs k) else map_of xs k')"
  by (induction xs) auto

lemma jget_modifyField:
  "jget (modifyField k f j) k' = (if k' = k then map_option f (jget j k) else jget j k')"
  by (simp add: modifyField_def jget_def rev_map map_of_map_modify split: json.split)

lemma isObj_modifyField: "isObj (modifyField k f j) = isObj j"
  by (simp add: modifyField_def isObj_def split: json.split)

lemma jsTruthy_layerDefaults:
  assumes "isObj j" shows "jsTruthy (layerDefaults j)"
proof -
  obtain kvs where "j = JObj kvs" using assms by (cases j) (simp_all add: isObj_def)
  then show ?thesis by (simp add: layerDefaults_def modifyField_def jsTruthy_def)
qed

lemma validLayer_isObj: "validLayer j \<Longrightarrow> isObj j"
  by (simp add: validLayer_def)

lemma decodeLayer_alignment:
  assumes "validLayer j"
  shows "alignment (layer_unit (ps_layer (decodeLayer (layerDefaults j)))) \<noteq> None"
proof -
  obtain u where u: "jget j ''unit'' = Some u" "validUnit u"
    using assms by (auto simp: validLayer_def reqPath_def split: option.splits)
  then obtain kvs where kvs: "u = JObj kvs" by (auto simp: validUnit_def isObj_def split: json.splits)
  have "jget (layerDefaults j) ''unit'' = Some (addDefault ''alignment'' (JStr ''center'') u)"
    by (simp add: layerDefaults_def jget_modifyField u)
  moreover have "enumOf alignmentTbl (jget (addDefault ''alignment'' (JStr ''center'') u) ''alignment'') \<noteq> None"
  proof (cases "jget u ''alignment''")
    case None
    then show ?thesis by (simp add: kvs jget_addDefault enumOf_def alignmentTbl_def)
  next
    case (Some v)
    then have "enumStr [''left'', ''center'', ''right''] v"
      using u(2) by (simp add: validUnit_def optField_def)
    then obtain a where "v = JStr a" "a \<in> {''left'', ''center'', ''right''}"
      by (cases v) (simp_all add: enumStr_def)
    with Some show ?thesis by (auto simp: kvs jget_addDefault enumOf_def alignmentTbl_def)
  qed
  ultimately show ?thesis by (simp add: decodeLayer_def decodeUnit_def)
qed

subsection \<open>Properties of the parser\<close>



text \<open>Text that \<open>JSON.parse\<close> rejects makes \<open>parseSpecification\<close> throw its
  \<open>SyntaxError\<close>, and nothing else does.\<close>

lemma parseSpecification_syntaxError:
  "(parseSpecification jsonParse specJson = Inl SyntaxError) = (jsonParse specJson = None)"
  by (simp add: parseSpecification_def Let_def split: option.split)

text \<open>C13: Validation is all or nothing: one layer of the array that fails the schema makes
  the parser return no layer at all, the valid ones included.\<close>

theorem parseSpecification_all_or_nothing:
  assumes "jsonParse specJson = Some (JArr xs)" and "x \<in> set xs" and "\<not> validLayer x"
  shows "parseSpecification jsonParse specJson = Inr []"
  using assms by (auto simp: parseSpecification_def list_all_iff)

theorem parseSpecification_all_or_nothing_witness:
  "parseSpecification (\<lambda>_. Some (JArr [JObj [], JNum 1])) ''[{}, 1]'' = Inr []"
  by (rule parseSpecification_all_or_nothing [where xs = "[JObj [], JNum 1]" and x = "JNum 1"])
     (simp_all add: validLayer_def isObj_def)

text \<open>A single object is parsed as the one-element array holding it.\<close>

theorem parseSpecification_single_object:
  assumes "jsonParse specJson = Some (JObj kvs)"
  shows "parseSpecification jsonParse specJson = parseSpecification (\<lambda>_. Some (JArr [JObj kvs])) specJson"
  using assms by (simp add: parseSpecification_def)

theorem parseSpecification_single_object_witness:
  "parseSpecification (\<lambda>_. Some (JObj [(''name'', JStr ''a'')])) ''{}''
     = parseSpecification (\<lambda>_. Some (JArr [JObj [(''name'', JStr ''a'')]])) ''{}''"
  by (rule parseSpecification_single_object) simp

text \<open>C14: Every layer the parser returns has an alignment: an absent
  \<open>unit.alignment\<close> is filled with the schema default \<open>center\<close>, and a present one
  is one of the three names.\<close>

theorem parseSpecification_alignment:
  assumes "parseSpecification jsonParse specJson = Inr ps" and "p \<in> set ps"
  shows "alignment (layer_unit (ps_layer p)) \<noteq> None"
proof -
  obtain v where v: "jsonParse specJson = Some v"
    using assms(1) by (cases "jsonParse specJson") (simp_all add: parseSpecification_def)
  define xs where "xs = (case v of JArr xs \<Rightarrow> xs | _ \<Rightarrow> [v])"
  have "ps = [] \<or> (list_all validLayer xs \<and> ps = map decodeLayer (filter jsTruthy (map layerDefaults xs)))"
    using assms(1) v unfolding xs_def by (auto simp: parseSpecification_def Let_def split: if_splits)
  with assms(2) obtain x where "x \<in> set xs" "validLayer x" "p = decodeLayer (layerDefaults x)"
    by (auto simp: list_all_iff)
  then show ?thesis by (simp add: decodeLayer_alignment)
qed

theorem parseSpecification_alignment_witness:
  "alignment (layer_unit (ps_layer (decodeLayer (layerDefaults
     (JObj [(''unit'', JObj [(''type'', JStr ''segment'')]),
      (''data'', JObj [(''physical'', JObj [(''path'', JStr ''s.geojson'')]),
                      (''thematic'', JObj [(''path'', JStr ''t.csv''), (''latColumn'', JStr ''lat''),
                                          (''lonColumn'', JStr ''lon'')])])]))))) \<noteq> None"
  by (rule parseSpecification_alignment [where jsonParse = "\<lambda>_. Some (JArr [(JObj [(''unit'', JObj [(''type'', JStr ''segment'')]),
      (''data'', JObj [(''physical'', JObj [(''path'', JStr ''s.geojson'')]),
                      (''thematic'', JObj [(''path'', JStr ''t.csv''), (''latColumn'', JStr ''lat''),
                                          (''lonColumn'', JStr ''lon'')])])])])"
      and specJson = "''[...]''" and ps = "[decodeLayer (layerDefaults (JObj [(''unit'', JObj [(''type'', JStr ''segment'')]),
      (''data'', JObj [(''physical'', JObj [(''path'', JStr ''s.geojson'')]),
                      (''thematic'', JObj [(''path'', JStr ''t.csv''), (''latColumn'', JStr ''lat''),
                                          (''lonColumn'', JStr ''lon'')])])]))]"])
     (simp_all add: parseSpecification_def validLayer_def validUnit_def reqPath_def optField_def
      jget_def isObj_def isStr_def enumStr_def jsTruthy_def layerDefaults_def modifyField_def)

end
