(* ===== verification/Render.thy ===== *)
theory Render
  imports Instructions
begin

text \<open>
  The render pass of \<open>src/editor/src/components/MapVisualization.tsx\<close>: the effect on
  \<open>[map, parsedSpec]\<close> (lines 277--326, its cleanup run first), the synchronous prefix
  and the continuation after \<open>await loadSegmentData\<close> of \<open>renderSegmentLayer\<close>
  (lines 364--422), \<open>renderNodeLayer\<close> (lines 501--551), and the \<open>moveend\<close>/\<open>zoomend\<close>
  handlers they bind.  JavaScript runs one continuation at a time, so the pass is a
  state machine: \<open>Apply specs\<close> is one run of the effect (every layer runs up to its
  first \<open>await\<close>), \<open>LoadDone k fails\<close> resumes the \<open>k\<close>-th pending layer after its
  load (loads complete in any order; \<open>fails\<close> says whether its first redraw throws,
  which the \<open>try\<close> catches), and \<open>MapMoved\<close> runs every bound handler.  A layer is
  identified by the pass that started it and its index in that pass.  The state keeps
  what the code keeps: the alignment counters (\<open>alignmentCounters\<close>), the layers
  registered in \<open>currentLayersRef\<close>, the SVG layers on the map, the bound handlers, and,
  per layer, the counter value its last redraw read (the multiplier of
  \<open>getOffsetDistance(map)\<close>).  The DOM work of the layers (panes, SVG groups, the
  Vega-Lite charts) is not modelled.  \<open>render_inv\<close> is the invariant of the reachable
  states, proved by rule induction over \<open>render_reachable\<close>; the properties of the
  pass are read off it or follow from one step.
\<close>

datatype layer_kind = SegKind | NodeKind

type_synonym layer_id = "nat \<times> nat"

record render_state =
  passNo :: nat
  passSpecs :: "layer_spec list"
  leftCount :: nat
  rightCount :: nat
  pending :: "(layer_id \<times> layer_spec) list"
  currentLayers :: "layer_id list"
  onMap :: "layer_id list"
  handlers :: "(layer_id \<times> layer_spec \<times> layer_kind) list"
  drawnMult :: "(layer_id \<times> nat) list"

datatype render_event = Apply "layer_spec list" | LoadDone nat bool | MapMoved

definition render_init :: render_state where
  "render_init = \<lparr>passNo = 0, passSpecs = [], leftCount = 0, rightCount = 0, pending = [],
                  currentLayers = [], onMap = [], handlers = [], drawnMult = []\<rparr>"

definition isSegment :: "layer_spec \<Rightarrow> bool" where
  "isSegment spec = (utype (layer_unit spec) = USegment)"

definition counterFor :: "render_state \<Rightarrow> layer_spec \<Rightarrow> nat" where
  \<comment> \<open>\<open>alignment === "left" ? counters.left : counters.right\<close> (line 406)\<close>
  "counterFor s spec = (if alignment (layer_unit spec) = Some Left then leftCount s else rightCount s)"

definition startLayer :: "nat \<Rightarrow> render_state \<Rightarrow> nat \<times> layer_spec \<Rightarrow> render_state" where
  \<comment> \<open>one iteration of the loop of lines 300--312, up to the layer's first \<open>await\<close>: a
      segment layer adds its SVG layer and bumps its alignment counter (lines 379--391)\<close>
  "startLayer p s ispec =
     (case ispec of (i, spec) \<Rightarrow>
        if isSegment spec then
          s\<lparr>onMap := onMap s @ [(p, i)],
            leftCount := leftCount s + (if alignment (layer_unit spec) = Some Left then 1 else 0),
            rightCount := rightCount s + (if alignment (layer_unit spec) = Some Right then 1 else 0),
            pending := pending s @ [((p, i), spec)]\<rparr>
        else s\<lparr>pending := pending s @ [((p, i), spec)]\<rparr>)"

definition applySpecs :: "layer_spec list \<Rightarrow> render_state \<Rightarrow> render_state" where
  \<comment> \<open>the cleanup of the previous run (lines 315--325) and the effect body: the
      registered layers leave the map; a node layer's \<open>onRemove\<close> unbinds its handlers, a
      segment layer's handlers stay (\<open>map.off('move zoom')\<close> names other events);
      counters reset; then every layer starts\<close>
  "applySpecs specs s =
     (let p = Suc (passNo s); removed = currentLayers s;
          s1 = s\<lparr>passNo := p, passSpecs := specs, leftCount := 0, rightCount := 0,
                 currentLayers := [],
                 onMap := filter (\<lambda>l. l \<notin> set removed) (onMap s),
                 handlers := filter (\<lambda>h. fst h \<notin> set removed \<or> snd (snd h) = SegKind) (handlers s)\<rparr>
      in foldl (startLayer p) s1 (enumerate 0 specs))"

definition finishSegment :: "render_state \<Rightarrow> layer_id \<Rightarrow> layer_spec \<Rightarrow> bool \<Rightarrow> render_state" where
  \<comment> \<open>\<open>renderSegmentLayer\<close> after \<open>await loadSegmentData\<close> (lines 394--421): a layer without
      chart redraws (reading its counter, line 406), then binds its handler and registers; a
      chart layer hands over to Vega-Lite.  A redraw that throws skips the rest (the \<open>catch\<close>)\<close>
  "finishSegment s l spec fails =
     (if chartTruthy (chart (layer_unit spec)) then s
      else (let s1 = s\<lparr>drawnMult := AList.update l (counterFor s spec) (drawnMult s)\<rparr>
            in if fails then s1
               else s1\<lparr>handlers := handlers s1 @ [(l, spec, SegKind)],
                       currentLayers := currentLayers s1 @ [l]\<rparr>))"

definition finishNode :: "render_state \<Rightarrow> layer_id \<Rightarrow> layer_spec \<Rightarrow> bool \<Rightarrow> render_state" where
  \<comment> \<open>\<open>renderNodeLayer\<close> after \<open>await loadNodeData\<close> (lines 508--545): add the SVG layer,
      redraw, bind the two handlers (unbound by the layer's \<open>onRemove\<close>) and register\<close>
  "finishNode s l spec fails =
     (let s1 = s\<lparr>onMap := onMap s @ [l]\<rparr>
      in if fails then s1
         else s1\<lparr>handlers := handlers s1 @ [(l, spec, NodeKind)],
                 currentLayers := currentLayers s1 @ [l]\<rparr>)"

definition finishLayer :: "render_state \<Rightarrow> layer_id \<Rightarrow> layer_spec \<Rightarrow> bool \<Rightarrow> render_state" where
  \<comment> \<open>the continuation of the layer's own render function (lines 303--308)\<close>
  "finishLayer s l spec fails =
     (if isSegment spec then finishSegment s l spec fails else finishNode s l spec fails)"

definition moveRedraw :: "render_state \<Rightarrow> render_state" where
  \<comment> \<open>\<open>moveend\<close>: every bound segment handler redraws with the counters as they are now\<close>
  "moveRedraw s =
     s\<lparr>drawnMult := foldl (\<lambda>dm h. if snd (snd h) = SegKind
                                  then AList.update (fst h) (counterFor s (fst (snd h))) dm else dm)
                     (drawnMult s) (handlers s)\<rparr>"

fun render_step :: "render_state \<Rightarrow> render_event \<Rightarrow> render_state" where
  "render_step s (Apply specs) = applySpecs specs s"
| "render_step s (LoadDone k fails) =
     (if k < List.length (pending s)
      then (case pending s ! k of (l, spec) \<Rightarrow>
              finishLayer (s\<lparr>pending := take k (pending s) @ drop (Suc k) (pending s)\<rparr>) l spec fails)
      else s)"
| "render_step s MapMoved = moveRedraw s"

fun render_run :: "render_state \<Rightarrow> render_event list \<Rightarrow> render_state" where
  "render_run s [] = s"
| "render_run s (ev # evs) = render_run (render_step s ev) evs"

inductive render_reachable :: "render_state \<Rightarrow> bool" where
  init: "render_reachable render_init"
| step: "render_reachable s \<Longrightarrow> render_reachable (render_step s ev)"

definition leftSegs :: "layer_spec list \<Rightarrow> nat" where
  \<comment> \<open>the number of left-aligned segment layers of a pass\<close>
  "leftSegs specs = List.length (filter (\<lambda>sp. isSegment sp \<and> alignment (layer_unit sp) = Some Left) specs)"

definition rightSegs :: "layer_spec list \<Rightarrow> nat" where
  "rightSegs specs = List.length (filter (\<lambda>sp. isSegment sp \<and> alignment (layer_unit sp) = Some Right) specs)"

definition render_inv :: "render_state \<Rightarrow> bool" where
  \<comment> \<open>what every reachable state satisfies: the counters count the pass, and every pending
      layer, handler and recorded multiplier of the current pass belongs to its specification\<close>
  "render_inv s \<longleftrightarrow>
     leftCount s = leftSegs (passSpecs s) \<and> rightCount s = rightSegs (passSpecs s) \<and>
     (\<forall>q i sp. ((q, i), sp) \<in> set (pending s) \<longrightarrow> q \<le> passNo s \<and>
        (q = passNo s \<longrightarrow> i < List.length (passSpecs s) \<and> passSpecs s ! i = sp)) \<and>
     (\<forall>q i sp k. ((q, i), sp, k) \<in> set (handlers s) \<longrightarrow> q \<le> passNo s \<and>
        (q = passNo s \<longrightarrow> i < List.length (passSpecs s) \<and> passSpecs s ! i = sp)) \<and>
     (\<forall>q i m. ((q, i), m) \<in> set (drawnMult s) \<longrightarrow> q \<le> passNo s \<and>
        (q = passNo s \<longrightarrow> m = counterFor s (passSpecs s ! i)))"

definition leftSpec :: layer_spec where
  \<comment> \<open>the example street layer, aligned left\<close>
  "leftSpec = (example_spec AggSum)\<lparr>layer_unit := example_unit\<lparr>alignment := Some Left\<rparr>\<rparr>"

subsection \<open>The invariant of the render pass\<close>

lemmas finishLayer_defs = finishLayer_def finishSegment_def finishNode_def

lemma foldl_startLayer:
  "foldl (startLayer p) s (enumerate n xs) =
     s\<lparr>onMap := onMap s @ map (\<lambda>isp. (p, fst isp)) (filter (\<lambda>isp. isSegment (snd isp)) (enumerate n xs)),
       leftCount := leftCount s + leftSegs xs, rightCount := rightCount s + rightSegs xs,
       pending := pending s @ map (\<lambda>isp. ((p, fst isp), snd isp)) (enumerate n xs)\<rparr>"
  by (induction xs arbitrary: s n) (simp_all add: startLayer_def leftSegs_def rightSegs_def)

lemma render_init_inv: "render_inv render_init"
  by (simp add: render_inv_def render_init_def leftSegs_def rightSegs_def)

lemma applySpecs_inv:
  assumes "render_inv s"
  shows "render_inv (applySpecs specs s)"
  using assms
  by (fastforce simp: render_inv_def applySpecs_def Let_def foldl_startLayer in_set_enumerate_eq counterFor_def)

lemma set_update_sub: "x \<in> set (AList.update k v xs) \<Longrightarrow> x = (k, v) \<or> x \<in> set xs"
  by (induction xs) (auto split: if_splits)

lemma counterFor_upd [simp]:
  "counterFor (s\<lparr>pending := ps\<rparr>) = counterFor s"
  "counterFor (s\<lparr>drawnMult := dm\<rparr>) = counterFor s"
  "counterFor (s\<lparr>handlers := hs\<rparr>) = counterFor s"
  "counterFor (s\<lparr>currentLayers := cs\<rparr>) = counterFor s"
  "counterFor (s\<lparr>onMap := om\<rparr>) = counterFor s"
  by (simp_all add: counterFor_def fun_eq_iff)

lemma render_inv_pending:
  "render_inv s \<Longrightarrow> set ps \<subseteq> set (pending s) \<Longrightarrow> render_inv (s\<lparr>pending := ps\<rparr>)"
  by (auto simp: render_inv_def)

lemma finishLayer_inv:
  assumes "render_inv s" "q \<le> passNo s"
    and "q = passNo s \<Longrightarrow> i < List.length (passSpecs s) \<and> passSpecs s ! i = spec"
  shows "render_inv (finishLayer s (q, i) spec fails)"
  using assms
  by (auto simp: render_inv_def finishLayer_defs Let_def dest!: set_update_sub; blast)


lemma foldl_redraw_set:
  "x \<in> set (foldl (\<lambda>dm h. if snd (snd h) = SegKind then AList.update (fst h) (c (fst (snd h))) dm else dm) dm hs)
   \<Longrightarrow> x \<in> set dm \<or> (\<exists>h\<in>set hs. x = (fst h, c (fst (snd h))))"
  by (induction hs arbitrary: dm) (auto split: if_splits dest!: set_update_sub)

lemma moveRedraw_inv:
  assumes "render_inv s"
  shows "render_inv (moveRedraw s)"
proof -
  have "q \<le> passNo s \<and> (q = passNo s \<longrightarrow> m = counterFor s (passSpecs s ! i))"
    if "((q, i), m) \<in> set (drawnMult (moveRedraw s))" for q i m
    using foldl_redraw_set [OF that [unfolded moveRedraw_def, simplified]] assms
    unfolding render_inv_def by fastforce
  then show ?thesis
    using assms by (simp add: render_inv_def moveRedraw_def)
qed

lemma set_take_drop_sub: "set (take k xs @ drop (Suc k) xs) \<subseteq> set xs"
  using set_take_subset [of k xs] set_drop_subset [of "Suc k" xs] by auto

lemma render_step_inv:
  assumes "render_inv s"
  shows "render_inv (render_step s ev)"
proof (cases ev)
  case (Apply specs)
  then show ?thesis using applySpecs_inv [OF assms] by simp
next
  case (LoadDone k fails)
  show ?thesis
  proof (cases "k < List.length (pending s)")
    case True
    obtain q i spec where pk: "pending s ! k = ((q, i), spec)" by (metis prod.exhaust)
    have mem: "((q, i), spec) \<in> set (pending s)" using True pk nth_mem by metis
    let ?s' = "s\<lparr>pending := take k (pending s) @ drop (Suc k) (pending s)\<rparr>"
    have inv': "render_inv ?s'" by (rule render_inv_pending [OF assms set_take_drop_sub])
    have "q \<le> passNo s" "q = passNo s \<Longrightarrow> i < List.length (passSpecs s) \<and> passSpecs s ! i = spec"
      using assms mem unfolding render_inv_def by blast+
    then have "render_inv (finishLayer ?s' (q, i) spec fails)"
      using finishLayer_inv [OF inv'] by simp
    then show ?thesis using LoadDone True pk by simp
  next
    case False
    then show ?thesis using LoadDone assms by simp
  qed
next
  case MapMoved
  then show ?thesis using moveRedraw_inv [OF assms] by simp
qed

lemma reachable_inv: "render_reachable s \<Longrightarrow> render_inv s"
  by (induction rule: render_reachable.induct) (auto intro: render_init_inv render_step_inv)

lemma render_run_reachable: "render_reachable s \<Longrightarrow> render_reachable (render_run s evs)"
  by (induction evs arbitrary: s) (auto intro: render_reachable.step)


lemma applySpecs_handlers:
  "handlers (applySpecs specs s) = filter (\<lambda>h. fst h \<notin> set (currentLayers s) \<or> snd (snd h) = SegKind) (handlers s)"
  by (simp add: applySpecs_def Let_def foldl_startLayer)

lemma finishLayer_handlers: "set (handlers s) \<subseteq> set (handlers (finishLayer s l spec fails))"
  by (auto simp: finishLayer_defs Let_def)

lemma pending_LoadDone0:
  "pending s \<noteq> [] \<Longrightarrow> pending (render_step s (LoadDone 0 fails)) = tl (pending s)"
  by (cases "pending s") (auto simp: finishLayer_defs Let_def)

lemma leftSpec_facts [simp]:
  "isSegment leftSpec" "alignment (layer_unit leftSpec) = Some Left" "\<not> chartTruthy (chart (layer_unit leftSpec))"
  by (simp_all add: leftSpec_def isSegment_def example_spec_def example_unit_def chartTruthy_def)

lemmas render_eval = render_init_def applySpecs_def Let_def startLayer_def finishLayer_defs counterFor_def
  leftSegs_def rightSegs_def

text \<open>C3: The alignment counters of every reachable render state equal the number of left-aligned and
  right-aligned segment layers of the current pass: a counter is a total over the pass, not
  the ordinal of a layer.\<close>

theorem render_counters:
  "render_reachable s \<Longrightarrow> leftCount s = leftSegs (passSpecs s) \<and> rightCount s = rightSegs (passSpecs s)"
  using reachable_inv unfolding render_inv_def by blast

theorem render_counters_witness:
  "leftCount (render_run render_init [Apply [leftSpec, leftSpec]]) = 2"
proof -
  have "render_reachable (render_run render_init [Apply [leftSpec, leftSpec]])"
    by (rule render_run_reachable [OF render_reachable.init])
  from render_counters [OF this] show ?thesis
    by (simp add: render_eval)
qed

text \<open>C4: Every left-aligned segment layer of the current pass is drawn with the same offset
  multiplier, the number of left-aligned segment layers in the pass, so two left layers are drawn
  at the same offset and overlap.\<close>

theorem left_layers_share_offset:
  assumes "render_reachable s" "((passNo s, i), m) \<in> set (drawnMult s)"
    and "alignment (layer_unit (passSpecs s ! i)) = Some Left"
  shows "m = leftSegs (passSpecs s)"
  using reachable_inv [OF assms(1)] assms(2,3) unfolding render_inv_def counterFor_def by fastforce

theorem left_layers_share_offset_witness:
  "((1, 0), 2) \<in> set (drawnMult (render_run render_init [Apply [leftSpec, leftSpec], LoadDone 0 False, LoadDone 0 False])) \<and>
   ((1, 1), 2) \<in> set (drawnMult (render_run render_init [Apply [leftSpec, leftSpec], LoadDone 0 False, LoadDone 0 False])) \<and>
   leftSegs (passSpecs (render_run render_init [Apply [leftSpec, leftSpec], LoadDone 0 False, LoadDone 0 False])) = 2"
proof -
  define s where "s = render_run render_init [Apply [leftSpec, leftSpec], LoadDone 0 False, LoadDone 0 False]"
  have r: "render_reachable s" unfolding s_def by (rule render_run_reachable [OF render_reachable.init])
  have d: "drawnMult s = [((1, 0), 2), ((1, 1), 2)]" and p: "passNo s = 1"
    and ps: "passSpecs s = [leftSpec, leftSpec]"
    unfolding s_def by (simp_all add: render_eval)
  have "2 = leftSegs (passSpecs s)"
    by (rule left_layers_share_offset [OF r, of 1]) (simp_all add: d p ps)
  then show ?thesis unfolding s_def [symmetric] by (simp add: d)
qed

text \<open>C27: A bound segment-layer handler is never unbound: no event (a new pass, a load, a map
  move) removes it, so handlers of removed layers keep redrawing.\<close>

theorem segment_handlers_persist:
  assumes "(l, sp, SegKind) \<in> set (handlers s)"
  shows "(l, sp, SegKind) \<in> set (handlers (render_step s ev))"
proof (cases ev)
  case (LoadDone k fails)
  then show ?thesis
    using assms by (auto split: prod.splits intro: finishLayer_handlers [THEN subsetD])
qed (use assms in \<open>simp_all add: applySpecs_handlers moveRedraw_def\<close>)

theorem segment_handlers_persist_witness:
  "((1, 0), leftSpec, SegKind) \<in> set (handlers (render_run render_init [Apply [leftSpec], LoadDone 0 False, Apply []]))"
proof -
  define s where "s = render_run render_init [Apply [leftSpec], LoadDone 0 False]"
  have h: "((1, 0), leftSpec, SegKind) \<in> set (handlers s)"
    unfolding s_def by (simp add: render_eval)
  have "render_run render_init [Apply [leftSpec], LoadDone 0 False, Apply []] = render_step s (Apply [])"
    by (simp add: s_def)
  then show ?thesis using segment_handlers_persist [OF h, of "Apply []"] by simp
qed

text \<open>C26: A load that completes registers its layer in the current layers whatever pass started
  it, so a layer of an earlier pass that finishes after a new pass began is registered (no
  cancellation).\<close>

theorem load_registers_any_pass:
  assumes "k < List.length (pending s)" "pending s ! k = (l, spec)"
    and "\<not> chartTruthy (chart (layer_unit spec))"
  shows "l \<in> set (currentLayers (render_step s (LoadDone k False)))"
  using assms by (simp add: finishLayer_defs Let_def)

theorem load_registers_any_pass_witness:
  "(1, 0) \<in> set (currentLayers (render_run render_init [Apply [leftSpec], Apply [leftSpec], LoadDone 0 False])) \<and>
   passNo (render_run render_init [Apply [leftSpec], Apply [leftSpec], LoadDone 0 False]) = 2"
proof -
  define s where "s = render_run render_init [Apply [leftSpec], Apply [leftSpec]]"
  have k: "0 < List.length (pending s)" and p: "pending s ! 0 = ((1, 0), leftSpec)" and n: "passNo s = 2"
    unfolding s_def by (simp_all add: render_eval)
  have e: "render_run render_init [Apply [leftSpec], Apply [leftSpec], LoadDone 0 False] = render_step s (LoadDone 0 False)"
    by (simp add: s_def)
  have "(1, 0) \<in> set (currentLayers (render_step s (LoadDone 0 False)))"
    by (rule load_registers_any_pass [OF k p]) simp
  moreover have "passNo (render_step s (LoadDone 0 False)) = 2"
    using k p n by (simp add: finishLayer_defs Let_def)
  ultimately show ?thesis unfolding e by blast
qed


end
