(* ===== verification/MapEffects.thy ===== *)
theory MapEffects
  imports Parser Render
begin

text \<open>
  The application shell and the map widget around the render pass: \<open>applySpec\<close> of
  \<open>src/editor/src/App.tsx\<close>, which stores the parsed layers and mounts
  \<open>MapVisualization\<close>; the effects of \<open>src/editor/src/components/MapVisualization.tsx\<close>
  other than the render pass of \<open>Render\<close>, namely the map initialisation (lines 71--97), the
  mimic street layer (lines 100--155), the street-width updates of the apply effect
  (lines 283--290), the geocoding of the query address (lines 43--66) and the mimic street
  style (lines 330--352); the \<open><svg>\<close> a node layer adds and the one it draws into
  (lines 508--512); and the pane handling of \<open>renderSegmentLayer\<close> (lines 371--382)
  with \<open>createPaneIfNeeded\<close> and \<open>initializeMap\<close> of \<open>src/editor/src/utils/mapHelpers.ts\<close>.

  The Leaflet map is the record \<open>leaflet_dom\<close>: its view, its tile layer, its panes with
  their z-index, and the \<open><svg>\<close> elements attached to each pane in document order (an
  \<open><svg>\<close> is named by the index of the layer that created it).  The fetches
  (\<open>d3.json\<close>, the Nominatim geocoder) are parameters; a React state update is committed
  with the last value set in the effect, as React batches the updates of one effect.
\<close>

subsection \<open>The application shell\<close>

definition applySpec ::
  "(string \<Rightarrow> json option) \<Rightarrow> parsed_spec list \<Rightarrow> string \<Rightarrow> parse_error + parsed_spec list" where
  \<comment> \<open>\<open>App.applySpec\<close>: the layers replace the shown ones only when there are some\<close>
  "applySpec jsonParse parsedSpec spec =
     bindE (parseSpecification jsonParse spec)
       (\<lambda>parsedLayers. Inr (if parsedLayers \<noteq> [] then parsedLayers else parsedSpec))"

definition mapMounted :: "parsed_spec list \<Rightarrow> bool" where
  \<comment> \<open>\<open>{parsedSpec.length > 0 && <MapVisualization .../>}\<close>\<close>
  "mapMounted parsedSpec = (parsedSpec \<noteq> [])"

subsection \<open>The Leaflet map\<close>

record leaflet_dom =
  viewCenter :: "real \<times> real"
  viewZoom :: real
  tileUrl :: string
  tileMaxZoom :: nat
  panes :: "(string \<times> nat) list"            \<comment> \<open>pane name and its z-index\<close>
  paneSvgs :: "(string \<times> nat list) list"     \<comment> \<open>the \<open><svg>\<close> elements in a pane\<close>

definition leafletPanes :: "(string \<times> nat) list" where
  \<comment> \<open>the panes Leaflet creates with every map, with their CSS z-index\<close>
  "leafletPanes = [(''tilePane'', 200), (''overlayPane'', 400), (''shadowPane'', 500),
                   (''markerPane'', 600), (''tooltipPane'', 650), (''popupPane'', 700)]"

definition initializeMap :: "real \<Rightarrow> real \<Rightarrow> real \<Rightarrow> string \<Rightarrow> leaflet_dom" where
  "initializeMap initialLat initialLon initialZoom backgroundValue =
     (let dark = (backgroundValue = ''dark'') in
      \<lparr>viewCenter = (initialLat, initialLon), viewZoom = initialZoom,
       tileUrl = (if dark then ''https://{s}.basemaps.cartocdn.com/dark_nolabels/{z}/{x}/{y}{r}.png''
                  else ''https://{s}.basemaps.cartocdn.com/light_nolabels/{z}/{x}/{y}{r}.png''),
       tileMaxZoom = (if dark then 19 else 20), panes = leafletPanes, paneSvgs = []\<rparr>)"

definition setPaneZ :: "string \<Rightarrow> nat \<Rightarrow> leaflet_dom \<Rightarrow> leaflet_dom" where
  \<comment> \<open>\<open>map.createPane(name); map.getPane(name).style.zIndex = z\<close>\<close>
  "setPaneZ name z lm = lm\<lparr>panes := AList.update name z (panes lm)\<rparr>"

definition createPaneIfNeeded :: "string \<Rightarrow> leaflet_dom \<Rightarrow> leaflet_dom" where
  "createPaneIfNeeded paneName lm =
     (if map_of (panes lm) paneName = None then setPaneZ paneName 400 lm else lm)"

subsection \<open>Map initialisation\<close>

definition initialZoom :: "parsed_spec list \<Rightarrow> real" where
  \<comment> \<open>\<open>parsedSpec[0]?.zoom?.[0] ?? 17\<close> (line 30)\<close>
  "initialZoom parsedSpec =
     (case parsedSpec of p # _ \<Rightarrow> (case zoom (ps_layer p) of Some (z, _) \<Rightarrow> z | None \<Rightarrow> 17) | [] \<Rightarrow> 17)"

definition initMapEffect ::
  "geo_lib \<Rightarrow> (string \<Rightarrow> geojson option) \<Rightarrow> parsed_spec list \<Rightarrow> bool \<Rightarrow> js_error + leaflet_dom option" where
  \<comment> \<open>the body of the mount effect after its \<open>await\<close>; \<open>cancelled\<close> is set by an unmount
      before the load completes, and \<open>None\<close> is a map never created\<close>
  "initMapEffect g fetchJson parsedSpec cancelled =
     (case parsedSpec of
        [] \<Rightarrow> Inl TypeError
      | p # _ \<Rightarrow>
          (let physData = loadPhysicalData g (fetchJson (physical_path (ps_layer p))) in
           if cancelled then Inr None
           else (case physData of
                   [] \<Rightarrow> Inl TypeError
                 | e # _ \<Rightarrow>
                     Inr (Some (setPaneZ ''mimicStreetPane'' 350
                       (initializeMap (lat (point0 e)) (lon (point0 e)) (initialZoom parsedSpec) ''light''))))))"

subsection \<open>The panes of segment layers\<close>

definition alignText :: "alignment option \<Rightarrow> string" where
  \<comment> \<open>a template literal prints an absent field as \<open>undefined\<close>\<close>
  "alignText a = (case a of None \<Rightarrow> ''undefined'' | Some x \<Rightarrow> alignmentName x)"

definition orientText :: "orientation option \<Rightarrow> string" where
  "orientText a = (case a of None \<Rightarrow> ''undefined'' | Some x \<Rightarrow> orientationName x)"

definition segmentPane :: "unit_spec \<Rightarrow> string" where
  "segmentPane u =
     (if alignment u = Some Center then ''overlayPane''
      else alignText (alignment u) @ ''-'' @ orientText (orientation u))"

definition paneSvgsOf :: "leaflet_dom \<Rightarrow> string \<Rightarrow> nat list" where
  "paneSvgsOf lm pn = (case map_of (paneSvgs lm) pn of None \<Rightarrow> [] | Some xs \<Rightarrow> xs)"

definition startSegmentSvg :: "leaflet_dom \<Rightarrow> nat \<Rightarrow> layer_spec \<Rightarrow> leaflet_dom" where
  \<comment> \<open>lines 376--379: create the pane, remove every \<open><svg>\<close> in it, add the layer's own\<close>
  "startSegmentSvg lm i layerSpec =
     (let pn = segmentPane (layer_unit layerSpec);
          d1 = createPaneIfNeeded pn lm;
          d2 = d1\<lparr>paneSvgs := AList.update pn [] (paneSvgs d1)\<rparr>
      in d2\<lparr>paneSvgs := AList.update pn (paneSvgsOf d2 pn @ [i]) (paneSvgs d2)\<rparr>)"

definition drawTarget :: "leaflet_dom \<Rightarrow> layer_spec \<Rightarrow> nat option" where
  \<comment> \<open>\<open>d3.select(map.getPanes()[paneName]).select('svg')\<close> (line 382): the first \<open><svg>\<close>\<close>
  "drawTarget lm layerSpec =
     (case paneSvgsOf lm (segmentPane (layer_unit layerSpec)) of [] \<Rightarrow> None | x # _ \<Rightarrow> Some x)"

definition startSegmentSvgs :: "leaflet_dom \<Rightarrow> layer_spec list \<Rightarrow> leaflet_dom" where
  \<comment> \<open>the synchronous part of the loop of lines 300--312: the segment layers of a pass, in
      order, each up to its first \<open>await\<close>\<close>
  "startSegmentSvgs lm parsedSpec =
     foldl (\<lambda>lm index. startSegmentSvg lm index (parsedSpec ! index)) lm
       (filter (\<lambda>index. isSegment (parsedSpec ! index)) [0..<length parsedSpec])"

definition startNodeSvg :: "leaflet_dom \<Rightarrow> nat \<Rightarrow> leaflet_dom" where
  \<comment> \<open>lines 510--512 of \<open>renderNodeLayer\<close>, after its load: \<open>L.svg().addTo(map)\<close> appends
      an \<open><svg>\<close> to \<open>overlayPane\<close> without removing any\<close>
  "startNodeSvg lm i =
     lm\<lparr>paneSvgs := AList.update ''overlayPane'' (paneSvgsOf lm ''overlayPane'' @ [i]) (paneSvgs lm)\<rparr>"

definition nodeDrawTarget :: "leaflet_dom \<Rightarrow> nat option" where
  \<comment> \<open>\<open>d3.select(map.getPanes().overlayPane).select("svg")\<close>: the first \<open><svg>\<close> of the pane\<close>
  "nodeDrawTarget lm = (case paneSvgsOf lm ''overlayPane'' of [] \<Rightarrow> None | x # _ \<Rightarrow> Some x)"

subsection \<open>The mimic street layer\<close>

record mimic_layer =
  mimicFeatures :: "(feature \<times> real \<times> real) list"   \<comment> \<open>geometry and \<open>{Bearing, Length}\<close>\<close>
  mimicStyles :: "(string \<times> real option \<times> real) list"  \<comment> \<open>per feature: colour, weight, opacity\<close>

definition mimicFeature :: "edge \<Rightarrow> feature \<times> real \<times> real" where
  "mimicFeature e =
     (\<lparr>fgeometry = Some (LineString [(lon (point0 e), lat (point0 e)), (lon (point1 e), lat (point1 e))])\<rparr>,
      bearing e, edge_length e)"

definition orDefault :: "string option \<Rightarrow> string \<Rightarrow> string" where
  \<comment> \<open>\<open>s || d\<close> on an optional string: \<open>undefined\<close> and the empty string give \<open>d\<close>\<close>
  "orDefault s d = (case s of Some x \<Rightarrow> if x = [] then d else x | None \<Rightarrow> d)"

definition streetColorOf :: "parsed_spec list \<Rightarrow> string" where
  \<comment> \<open>\<open>parsedSpec[0]?.map?.streetColor || '#d3d3d6'\<close>\<close>
  "streetColorOf parsedSpec = orDefault (case parsedSpec of p # _ \<Rightarrow> streetColor p | [] \<Rightarrow> None) ''#d3d3d6''"

definition mimicLayerEffect ::
  "geo_lib \<Rightarrow> (string \<Rightarrow> geojson option) \<Rightarrow> parsed_spec list \<Rightarrow> leaflet_dom \<Rightarrow> leaflet_dom \<times> mimic_layer option" where
  \<comment> \<open>lines 105--146, after the previous mimic layer is removed; a \<open>TypeError\<close> of
      \<open>parsedSpec[0].data\<close> is caught by the \<open>try\<close> and leaves no layer\<close>
  "mimicLayerEffect g fetchJson parsedSpec lm =
     (let lm' = (if map_of (panes lm) ''mimicStreetPane'' = None then setPaneZ ''mimicStreetPane'' 450 lm
                 else lm)
      in (lm', (case parsedSpec of
                  [] \<Rightarrow> None
                | p # _ \<Rightarrow>
                    (let data = loadPhysicalData g (fetchJson (physical_path (ps_layer p))) in
                     Some \<lparr>mimicFeatures = map mimicFeature data,
                           mimicStyles = map (\<lambda>_. (streetColorOf parsedSpec, Some 0, 4 / 5)) data\<rparr>))))"

definition streetWidthOf :: "parsed_spec list \<Rightarrow> real option" where
  "streetWidthOf parsedSpec = (case parsedSpec of p # _ \<Rightarrow> streetWidth p | [] \<Rightarrow> None)"

definition commitState :: "'a \<Rightarrow> 'a list \<Rightarrow> 'a" where
  \<comment> \<open>React applies the queued updates of one effect in order: the last one wins\<close>
  "commitState cur ups = foldl (\<lambda>_ v. v) cur ups"

definition applyWidthUpdates :: "parsed_spec list \<Rightarrow> real list" where
  \<comment> \<open>lines 283--290: \<open>setMimicWidth(streetWidth)\<close> when it is defined, then \<open>setMimicWidth(0)\<close>\<close>
  "applyWidthUpdates parsedSpec =
     (case streetWidthOf parsedSpec of Some w \<Rightarrow> [w] | None \<Rightarrow> []) @ [0]"

definition applyEffectWidth :: "bool \<Rightarrow> parsed_spec list \<Rightarrow> real \<Rightarrow> real" where
  \<comment> \<open>the apply effect returns early while the map is \<open>null\<close>\<close>
  "applyEffectWidth mapReady parsedSpec mimicWidth =
     (if \<not> mapReady then mimicWidth else commitState mimicWidth (applyWidthUpdates parsedSpec))"

definition sliderChange :: "nat \<Rightarrow> real" where
  \<comment> \<open>\<open>setMimicWidth(Number(e.target.value))\<close> of the range input \<open>0..100\<close> (line 579)\<close>
  "sliderChange v = real (min v 100)"

definition shouldUpdate ::
  "(pos \<Rightarrow> pos list \<Rightarrow> real) \<Rightarrow> parsed_spec list \<Rightarrow> (real \<times> real) option \<Rightarrow> feature \<Rightarrow> bool" where
  \<comment> \<open>lines 335--344; \<open>Number(undefined)\<close> is \<open>NaN\<close>, and \<open>distance > NaN\<close> is false\<close>
  "shouldUpdate pointToLineDistance parsedSpec addressCoords f =
     (case addressCoords of
        None \<Rightarrow> True
      | Some (alat, alon) \<Rightarrow>
          (let coords = (case fgeometry f of Some (LineString cs) \<Rightarrow> cs | _ \<Rightarrow> []);
               distance = pointToLineDistance (alon, alat) coords
           in \<not> (case (case parsedSpec of p # _ \<Rightarrow> queryRadius p | [] \<Rightarrow> None) of
                    Some r \<Rightarrow> distance > r | None \<Rightarrow> False)))"

definition mimicStyleEffect ::
  "(pos \<Rightarrow> pos list \<Rightarrow> real) \<Rightarrow> parsed_spec list \<Rightarrow> real \<Rightarrow> (real \<times> real) option
   \<Rightarrow> mimic_layer option \<Rightarrow> mimic_layer option" where
  \<comment> \<open>lines 330--352: restyle every street of the mimic layer, if there is one\<close>
  "mimicStyleEffect pointToLineDistance parsedSpec mimicWidth addressCoords ml =
     map_option (\<lambda>l. l\<lparr>mimicStyles := map (\<lambda>fp.
         (streetColorOf parsedSpec,
          if shouldUpdate pointToLineDistance parsedSpec addressCoords (fst fp) then Some mimicWidth
          else streetWidthOf parsedSpec,
          4 / 5)) (mimicFeatures l)\<rparr>) ml"

subsection \<open>Geocoding the query address\<close>

text \<open>
  The effect of lines 43--66 runs when \<open>parsedSpec[0]?.query?.address\<close> differs from the
  one of the previous render.  Each run owns a \<open>cancelled\<close> flag, which the run's cleanup
  sets before the next run starts; a run with an address starts one geocoding request,
  whose completion sets \<open>addressCoords\<close> unless the run's flag is set or the answer is
  empty or an error.  A run without an address clears \<open>addressCoords\<close>.
\<close>

record addr_state =
  addrRuns :: "(string option \<times> bool) list"    \<comment> \<open>each run: the address it read, its \<open>cancelled\<close>\<close>
  addrPending :: "nat list"                      \<comment> \<open>runs whose request has not completed\<close>
  addressCoords :: "(real \<times> real) option"

datatype addr_event =
    AddrRender "string option"                  \<comment> \<open>a render reading this address\<close>
  | GeocodeDone nat "(real \<times> real) option"     \<comment> \<open>a request completes: \<open>data[0]\<close>, or none\<close>
  | AddrUnmount

definition addrInit :: addr_state where
  "addrInit = \<lparr>addrRuns = [], addrPending = [], addressCoords = None\<rparr>"

definition truthyStr :: "string option \<Rightarrow> bool" where
  "truthyStr a = (case a of Some s \<Rightarrow> s \<noteq> [] | None \<Rightarrow> False)"

definition cancelLast :: "addr_state \<Rightarrow> addr_state" where
  \<comment> \<open>the cleanup \<open>() => { cancelled = true; }\<close> of the latest run\<close>
  "cancelLast s =
     s\<lparr>addrRuns := (case rev (addrRuns s) of [] \<Rightarrow> [] | r # rs \<Rightarrow> rev rs @ [(fst r, True)])\<rparr>"

definition runAddrEffect :: "string option \<Rightarrow> addr_state \<Rightarrow> addr_state" where
  "runAddrEffect address s =
     (let n = length (addrRuns s); s1 = s\<lparr>addrRuns := addrRuns s @ [(address, False)]\<rparr> in
      if truthyStr address then s1\<lparr>addrPending := addrPending s @ [n]\<rparr>
      else s1\<lparr>addressCoords := None\<rparr>)"

fun addr_step :: "addr_state \<Rightarrow> addr_event \<Rightarrow> addr_state" where
  "addr_step s (AddrRender address) =
     (if addrRuns s \<noteq> [] \<and> fst (last (addrRuns s)) = address then s
      else runAddrEffect address (cancelLast s))"
| "addr_step s (GeocodeDone i r) =
     (if i \<notin> set (addrPending s) then s
      else (let s1 = s\<lparr>addrPending := removeAll i (addrPending s)\<rparr> in
            case r of
              Some c \<Rightarrow> if snd (addrRuns s ! i) then s1 else s1\<lparr>addressCoords := Some c\<rparr>
            | None \<Rightarrow> s1))"
| "addr_step s AddrUnmount = cancelLast s"

definition addr_run :: "addr_state \<Rightarrow> addr_event list \<Rightarrow> addr_state" where
  "addr_run s es = foldl addr_step s es"

inductive addr_reachable :: "addr_state \<Rightarrow> bool" where
  addr_init: "addr_reachable addrInit"
| addr_next: "addr_reachable s \<Longrightarrow> addr_reachable (addr_step s e)"

definition addr_inv :: "addr_state \<Rightarrow> bool" where
  \<comment> \<open>every run but the latest is cancelled; pending requests belong to runs with an address\<close>
  "addr_inv s =
     ((\<forall>i. Suc i < length (addrRuns s) \<longrightarrow> snd (addrRuns s ! i)) \<and>
      distinct (addrPending s) \<and>
      (\<forall>i \<in> set (addrPending s). i < length (addrRuns s) \<and> truthyStr (fst (addrRuns s ! i))))"


subsection \<open>Properties of the panes\<close>

lemma paneSvgsOf_startSegmentSvg:
  "paneSvgsOf (startSegmentSvg lm i sp) pn =
     (if segmentPane (layer_unit sp) = pn then [i] else paneSvgsOf lm pn)"
  by (simp add: startSegmentSvg_def paneSvgsOf_def createPaneIfNeeded_def setPaneZ_def Let_def update_conv')

lemma paneSvgsOf_fold:
  "paneSvgsOf (foldl (\<lambda>lm index. startSegmentSvg lm index (specs ! index)) lm is) pn =
     (let js = filter (\<lambda>i. segmentPane (layer_unit (specs ! i)) = pn) is in
      if js = [] then paneSvgsOf lm pn else [last js])"
  by (induction "is" rule: rev_induct) (auto simp: paneSvgsOf_startSegmentSvg Let_def)

text \<open>C17: After the segment layers of a pass have started, each pane holds a single
  \<open><svg>\<close>, the one of the last segment layer drawn in that pane: a layer followed by
  another with the same alignment and orientation draws into a detached element and is not
  shown.\<close>

theorem startSegmentSvgs_last_wins:
  "paneSvgsOf (startSegmentSvgs lm parsedSpec) pn =
     (let js = filter (\<lambda>i. isSegment (parsedSpec ! i) \<and> segmentPane (layer_unit (parsedSpec ! i)) = pn)
                [0..<length parsedSpec] in
      if js = [] then paneSvgsOf lm pn else [last js])"
  by (simp add: startSegmentSvgs_def paneSvgsOf_fold conj_commute)

subsection \<open>Properties of the mimic street layer\<close>

lemma featureEdges_mkEdge: "e \<in> set (featureEdges g f) \<Longrightarrow> \<exists>s t. e = mkEdge g s t"
  by (auto simp: featureEdges_def split: option.splits geometry.splits if_splits; metis prod.collapse)

lemma mimic_featureEdges: "featureEdges g (fst (mimicFeature (mkEdge g s t))) = [mkEdge g s t]"
  by (simp add: featureEdges_def mimicFeature_def mkEdge_def)

lemma reload_mimic:
  assumes "\<forall>e \<in> set es. \<exists>s t. e = mkEdge g s t"
  shows "concat (map (\<lambda>e. featureEdges g (fst (mimicFeature e))) es) = es"
  using assms by (induction es) (auto simp: mimic_featureEdges)

lemma loadPhysicalData_collection:
  "loadPhysicalData g (Some (FeatureCollection (Some fs))) = concat (map (featureEdges g) fs)"
  by (simp add: loadPhysicalData_def)

text \<open>The mimic street layer is a faithful copy of the street network: its features, read
  by \<open>loadPhysicalData\<close>, give back exactly the edges loaded for the first layer.\<close>

lemma mimicLayer_roundtrip:
  "map_option (\<lambda>l. loadPhysicalData g (Some (FeatureCollection (Some (map fst (mimicFeatures l))))))
     (snd (mimicLayerEffect g fetchJson (p # ps) lm))
   = Some (loadPhysicalData g (fetchJson (physical_path (ps_layer p))))"
proof -
  define es where "es = loadPhysicalData g (fetchJson (physical_path (ps_layer p)))"
  have "\<forall>e \<in> set es. \<exists>s t. e = mkEdge g s t"
    unfolding es_def using loadPhysicalData_feature featureEdges_mkEdge by blast
  then have "concat (map (\<lambda>e. featureEdges g (fst (mimicFeature e))) es) = es"
    by (rule reload_mimic)
  then show ?thesis
    by (simp add: mimicLayerEffect_def Let_def loadPhysicalData_collection es_def [symmetric] comp_def)
qed

subsection \<open>Properties of the address geocoding\<close>

lemma addrRuns_cancelLast:
  "addrRuns (cancelLast s) =
     (if addrRuns s = [] then [] else butlast (addrRuns s) @ [(fst (last (addrRuns s)), True)])"
proof (cases "addrRuns s" rule: rev_exhaust)
  case Nil then show ?thesis by (simp add: cancelLast_def)
next
  case (snoc rs r) then show ?thesis by (simp add: cancelLast_def)
qed

lemma cancelLast_fields [simp]:
  "addrPending (cancelLast s) = addrPending s" "addressCoords (cancelLast s) = addressCoords s"
  by (simp_all add: cancelLast_def)

lemma cancelLast_runs [simp]:
  "length (addrRuns (cancelLast s)) = length (addrRuns s)"
  "i < length (addrRuns s) \<Longrightarrow> snd (addrRuns (cancelLast s) ! i) = (Suc i = length (addrRuns s) \<or> snd (addrRuns s ! i))"
  by (auto simp: addrRuns_cancelLast nth_append nth_butlast last_conv_nth)

lemma cancelLast_fst [simp]:
  "i < length (addrRuns s) \<Longrightarrow> fst (addrRuns (cancelLast s) ! i) = fst (addrRuns s ! i)"
  by (cases "i = length (addrRuns s) - 1") (auto simp: addrRuns_cancelLast nth_append nth_butlast last_conv_nth)

lemma latest_live:
  "\<forall>i. Suc i < length xs \<longrightarrow> snd (xs ! i) \<Longrightarrow> i < length xs \<Longrightarrow> \<not> snd (xs ! i) \<Longrightarrow> Suc i = length xs"
  by (cases "Suc i < length xs") auto

lemma addr_inv_init: "addr_inv addrInit"
  by (simp add: addr_inv_def addrInit_def)

lemma addr_inv_cancelLast: "addr_inv s \<Longrightarrow> addr_inv (cancelLast s)"
  by (auto simp: addr_inv_def intro: latest_live)

lemma addr_inv_render:
  assumes "addr_inv s"
  shows "addr_inv (runAddrEffect a (cancelLast s))"
proof -
  let ?c = "cancelLast s"
  have all: "\<forall>i < length (addrRuns ?c). snd (addrRuns ?c ! i)"
    using assms by (auto simp: addr_inv_def intro: latest_live)
  have inv: "addr_inv ?c" using assms by (rule addr_inv_cancelLast)
  then show ?thesis using all
    by (auto simp: runAddrEffect_def Let_def addr_inv_def nth_append intro: latest_live)
qed

lemma addr_inv_step:
  assumes "addr_inv s" shows "addr_inv (addr_step s e)"
proof (cases e)
  case (AddrRender a) then show ?thesis using assms addr_inv_render by simp
next
  case (GeocodeDone i r) then show ?thesis using assms
    by (auto simp: addr_inv_def Let_def distinct_removeAll split: option.split)
next
  case AddrUnmount then show ?thesis using assms addr_inv_cancelLast by simp
qed

lemma addr_reachable_inv: "addr_reachable s \<Longrightarrow> addr_inv s"
  by (induction rule: addr_reachable.induct) (simp_all add: addr_inv_init addr_inv_step)

lemma addr_reachable_run: "addr_reachable s \<Longrightarrow> addr_reachable (addr_run s es)"
  by (induction es arbitrary: s) (simp_all add: addr_run_def addr_next)

text \<open>C16: In every reachable state of the address effect, a completing geocoding request
  changes \<open>addressCoords\<close> only if it belongs to the latest run, which is not cancelled
  and has an address; the coordinates are then the request's answer.\<close>

theorem addr_commit_latest:
  assumes "addr_reachable s"
    and "addressCoords (addr_step s (GeocodeDone i r)) \<noteq> addressCoords s"
  shows "Suc i = length (addrRuns s) \<and> \<not> snd (last (addrRuns s)) \<and> truthyStr (fst (last (addrRuns s)))
         \<and> addressCoords (addr_step s (GeocodeDone i r)) = r"
proof -
  have inv: "addr_inv s" using assms(1) by (rule addr_reachable_inv)
  have pend: "i \<in> set (addrPending s)" and live: "\<not> snd (addrRuns s ! i)"
    and c: "addressCoords (addr_step s (GeocodeDone i r)) = r"
    using assms(2) by (auto simp: Let_def split: if_splits option.splits)
  have lt: "i < length (addrRuns s)" and tr: "truthyStr (fst (addrRuns s ! i))"
    using inv pend by (auto simp: addr_inv_def)
  have "Suc i = length (addrRuns s)"
    using inv live lt by (auto simp: addr_inv_def intro: latest_live)
  then have "last (addrRuns s) = addrRuns s ! i" by (cases "addrRuns s" rule: rev_exhaust) auto
  then show ?thesis using \<open>Suc i = length (addrRuns s)\<close> live tr c by simp
qed

theorem addr_commit_latest_witness:
  "Suc 0 = length (addrRuns (addr_run addrInit [AddrRender (Some ''Main St'')]))
   \<and> \<not> snd (last (addrRuns (addr_run addrInit [AddrRender (Some ''Main St'')])))
   \<and> truthyStr (fst (last (addrRuns (addr_run addrInit [AddrRender (Some ''Main St'')]))))
   \<and> addressCoords (addr_step (addr_run addrInit [AddrRender (Some ''Main St'')]) (GeocodeDone 0 (Some (40, -74))))
       = Some (40, -74)"
  by (rule addr_commit_latest [OF addr_reachable_run [OF addr_init]])
     (simp add: addr_run_def addrInit_def cancelLast_def runAddrEffect_def truthyStr_def)

text \<open>Changing the address to one the geocoder does not find keeps the coordinates of the
  previous address.\<close>

lemma addr_stale_coordinates:
  "let s = addr_run addrInit [AddrRender (Some ''A''), GeocodeDone 0 (Some (1, 2)),
                              AddrRender (Some ''B''), GeocodeDone 1 None]
   in addressCoords s = Some (1, 2) \<and> fst (last (addrRuns s)) = Some ''B''"
  by (simp add: addr_run_def addrInit_def cancelLast_def runAddrEffect_def truthyStr_def)

subsection \<open>Properties of the map initialisation and the apply effect\<close>

text \<open>C18: The mount effect throws \<open>TypeError\<close>, and no map is ever created, exactly when
  there is no layer or the first layer's street network has no edge (for instance when its
  file cannot be loaded).\<close>

theorem initMapEffect_TypeError:
  "(initMapEffect g fetchJson parsedSpec False = Inl TypeError) =
     (parsedSpec = [] \<or> loadPhysicalData g (fetchJson (physical_path (ps_layer (hd parsedSpec)))) = [])"
  by (simp add: initMapEffect_def Let_def split: list.split)

text \<open>The z-index 450 of the mimic effect never applies: the mount effect has already
  created the pane with z-index 350.\<close>

lemma initMap_mimicPane:
  assumes "initMapEffect g fetchJson parsedSpec False = Inr (Some lm)"
  shows "map_of (panes (fst (mimicLayerEffect g fetchJson parsedSpec lm))) ''mimicStreetPane'' = Some 350"
  using assms
  by (auto simp: initMapEffect_def mimicLayerEffect_def setPaneZ_def Let_def update_conv'
      split: list.splits if_splits)

lemma applyEffectWidth_zero: "applyEffectWidth True parsedSpec w = 0"
  by (simp add: applyEffectWidth_def commitState_def applyWidthUpdates_def)

text \<open>C19: After an apply, \<open>mimicWidth\<close> is 0 whatever \<open>map.streetWidth\<close> says, so
  the mimic streets within the query radius of the geocoded address get weight 0 and the
  others the specification's street width.\<close>

theorem apply_hides_nearby_streets:
  assumes "queryRadius p = Some r"
  shows "mimicStyleEffect pointToLineDistance (p # ps) (applyEffectWidth True (p # ps) w) (Some (alat, alon)) (Some l) =
    Some (l\<lparr>mimicStyles := map (\<lambda>fp.
      (streetColorOf (p # ps),
       if pointToLineDistance (alon, alat) (case fgeometry (fst fp) of Some (LineString cs) \<Rightarrow> cs | _ \<Rightarrow> []) \<le> r
       then Some 0 else streetWidth p,
       4 / 5)) (mimicFeatures l)\<rparr>)"
  using assms
  by (simp add: applyEffectWidth_zero mimicStyleEffect_def shouldUpdate_def streetWidthOf_def not_less)

text \<open>C20: A document with a layer that fails the schema leaves the shown layers unchanged:
  the application keeps rendering the previous specification.\<close>

theorem applySpec_invalid_keeps:
  assumes "jsonParse spec = Some (JArr xs)" and "x \<in> set xs" and "\<not> validLayer x"
  shows "applySpec jsonParse parsedSpec spec = Inr parsedSpec"
  using assms by (auto simp: applySpec_def parseSpecification_def bindE_def list_all_iff)

theorem apply_hides_nearby_streets_witness:
  "mimicStyleEffect (\<lambda>a cs. if a = (2, 1) then 10 else 100) [\<lparr>ps_layer = \<lparr>layer_unit = \<lparr>utype = USegment, density = SUndef, umethod = Some Line,
        opacity = SNum 1, color = SStr ''#ff0000'', squiggle = None, dash = None, width = SNum 4,
        height = SUndef, chart = None, rows = None, columns = None, orientation = None,
        alignment = Some Center\<rparr>,
        physical_path = ''streets.geojson'', thematic_path = ''data.csv'', latColumn = ''lat'',
        lonColumn = ''lon'', relation = None, zoom = None\<rparr>, ps_name = None,
        streetColor = None, streetWidth = Some 3, queryAddress = Some ''Main St'', queryRadius = Some 50\<rparr>] (applyEffectWidth True [\<lparr>ps_layer = \<lparr>layer_unit = \<lparr>utype = USegment, density = SUndef, umethod = Some Line,
        opacity = SNum 1, color = SStr ''#ff0000'', squiggle = None, dash = None, width = SNum 4,
        height = SUndef, chart = None, rows = None, columns = None, orientation = None,
        alignment = Some Center\<rparr>,
        physical_path = ''streets.geojson'', thematic_path = ''data.csv'', latColumn = ''lat'',
        lonColumn = ''lon'', relation = None, zoom = None\<rparr>, ps_name = None,
        streetColor = None, streetWidth = Some 3, queryAddress = Some ''Main St'', queryRadius = Some 50\<rparr>] 8) (Some (1, 2))
     (Some \<lparr>mimicFeatures = [(\<lparr>fgeometry = Some (LineString [(2, 1), (3, 1)])\<rparr>, 0, 10)],
            mimicStyles = [(''#d3d3d6'', Some 0, 4 / 5)]\<rparr>) =
   Some \<lparr>mimicFeatures = [(\<lparr>fgeometry = Some (LineString [(2, 1), (3, 1)])\<rparr>, 0, 10)],
         mimicStyles = [(''#d3d3d6'', Some 0, 4 / 5)]\<rparr>"
  using apply_hides_nearby_streets [where pointToLineDistance = "\<lambda>a cs. if a = (2, 1) then 10 else 100"
     and ps = "[]" and w = 8 and alat = 1 and alon = 2
     and l = "\<lparr>mimicFeatures = [(\<lparr>fgeometry = Some (LineString [(2, 1), (3, 1)])\<rparr>, 0, 10)],
            mimicStyles = [(''#d3d3d6'', Some 0, 4 / 5)]\<rparr>" and p = "\<lparr>ps_layer = \<lparr>layer_unit = \<lparr>utype = USegment, density = SUndef, umethod = Some Line,
        opacity = SNum 1, color = SStr ''#ff0000'', squiggle = None, dash = None, width = SNum 4,
        height = SUndef, chart = None, rows = None, columns = None, orientation = None,
        alignment = Some Center\<rparr>,
        physical_path = ''streets.geojson'', thematic_path = ''data.csv'', latColumn = ''lat'',
        lonColumn = ''lon'', relation = None, zoom = None\<rparr>, ps_name = None,
        streetColor = None, streetWidth = Some 3, queryAddress = Some ''Main St'', queryRadius = Some 50\<rparr>" and r = 50]
  by (simp add: streetColorOf_def orDefault_def)

theorem applySpec_invalid_keeps_witness:
  "applySpec (\<lambda>_. Some (JArr [JNum 1])) [\<lparr>ps_layer = \<lparr>layer_unit = \<lparr>utype = USegment, density = SUndef, umethod = Some Line,
        opacity = SNum 1, color = SStr ''#ff0000'', squiggle = None, dash = None, width = SNum 4,
        height = SUndef, chart = None, rows = None, columns = None, orientation = None,
        alignment = Some Center\<rparr>,
        physical_path = ''streets.geojson'', thematic_path = ''data.csv'', latColumn = ''lat'',
        lonColumn = ''lon'', relation = None, zoom = None\<rparr>, ps_name = None,
        streetColor = None, streetWidth = Some 3, queryAddress = Some ''Main St'', queryRadius = Some 50\<rparr>] ''[1]'' = Inr [\<lparr>ps_layer = \<lparr>layer_unit = \<lparr>utype = USegment, density = SUndef, umethod = Some Line,
        opacity = SNum 1, color = SStr ''#ff0000'', squiggle = None, dash = None, width = SNum 4,
        height = SUndef, chart = None, rows = None, columns = None, orientation = None,
        alignment = Some Center\<rparr>,
        physical_path = ''streets.geojson'', thematic_path = ''data.csv'', latColumn = ''lat'',
        lonColumn = ''lon'', relation = None, zoom = None\<rparr>, ps_name = None,
        streetColor = None, streetWidth = Some 3, queryAddress = Some ''Main St'', queryRadius = Some 50\<rparr>]"
  by (rule applySpec_invalid_keeps [where xs = "[JNum 1]" and x = "JNum 1"]) (simp_all add: validLayer_def isObj_def)


lemma paneSvgsOf_startNodeSvg:
  "paneSvgsOf (startNodeSvg lm i) pn = (if pn = ''overlayPane'' then paneSvgsOf lm pn @ [i] else paneSvgsOf lm pn)"
  by (simp add: startNodeSvg_def paneSvgsOf_def update_conv')

text \<open>A node layer draws into the first \<open><svg>\<close> of \<open>overlayPane\<close>, whichever layer added it:
  when the pass has a center segment layer, the glyphs of every node layer that completes
  later go into the last such layer's \<open><svg>\<close>, not into the node layer's own.\<close>

lemma nodes_draw_into_segment_svg:
  assumes "paneSvgsOf lm ''overlayPane'' = [k]"
  shows "nodeDrawTarget (foldl startNodeSvg lm ns) = Some k"
proof -
  have "paneSvgsOf (foldl startNodeSvg lm ns) ''overlayPane'' = k # ns"
    using assms by (induction ns rule: rev_induct) (simp_all add: paneSvgsOf_startNodeSvg)
  then show ?thesis by (simp add: nodeDrawTarget_def)
qed

end
