(* ===== verification/Session.thy ===== *)
theory Session
  imports MapEffects
begin

text \<open>
  The editing session: the text area and the Apply button of
  \<open>src/editor/src/components/TextEditor.tsx\<close> composed with \<open>App.applySpec\<close>
  (\<open>MapEffects\<close>), and the initialisation of the parser module
  (\<open>src/streetweave/src/parser.ts\<close>, lines 8--31).  The session state holds the text of
  the editor, the layers the application shows, and the exceptions the Apply handler let
  escape (a \<open>SyntaxError\<close> of \<open>JSON.parse\<close> is not caught by the handler, so React reports
  it and the state stays as it was).  Editor events and clicks are a step function over a
  datatype of events, and the reachable sessions an inductive set.
\<close>

datatype module_error = AddSchemaFailed | CompileFailed

definition loadParserModule :: "bool \<Rightarrow> bool \<Rightarrow> module_error + unit" where
  \<comment> \<open>lines 16--31: a failing \<open>ajv.addSchema\<close> or \<open>ajv.compile\<close> is rethrown as an \<open>Error\<close>
      while the module loads, so nothing that imports the parser runs\<close>
  "loadParserModule addSchemaOk compileOk =
     (if \<not> addSchemaOk then Inl AddSchemaFailed
      else if \<not> compileOk then Inl CompileFailed
      else Inr ())"

record session =
  inputSpec :: string
  shownSpec :: "parsed_spec list"
  uncaught :: "parse_error list"

datatype ui_event =
    EditText string    \<comment> \<open>\<open>handleInputChange\<close>: \<open>setInputSpec(event.target.value)\<close>\<close>
  | ClickApply         \<comment> \<open>\<open>handleApplyClick\<close>: \<open>onApply(inputSpec)\<close>\<close>

definition sessionInit :: session where
  \<comment> \<open>\<open>useState<string>('')\<close> and \<open>useState<ParsedSpec[]>([])\<close>\<close>
  "sessionInit = \<lparr>inputSpec = [], shownSpec = [], uncaught = []\<rparr>"

fun session_step :: "(string \<Rightarrow> json option) \<Rightarrow> session \<Rightarrow> ui_event \<Rightarrow> session" where
  "session_step jsonParse s (EditText v) = s\<lparr>inputSpec := v\<rparr>"
| "session_step jsonParse s ClickApply =
     (case applySpec jsonParse (shownSpec s) (inputSpec s) of
        Inl err \<Rightarrow> s\<lparr>uncaught := uncaught s @ [err]\<rparr>
      | Inr parsedSpec \<Rightarrow> s\<lparr>shownSpec := parsedSpec\<rparr>)"

definition session_run :: "(string \<Rightarrow> json option) \<Rightarrow> session \<Rightarrow> ui_event list \<Rightarrow> session" where
  "session_run jsonParse s es = foldl (session_step jsonParse) s es"

inductive session_reachable :: "(string \<Rightarrow> json option) \<Rightarrow> session \<Rightarrow> bool" for jsonParse where
  session_init: "session_reachable jsonParse sessionInit"
| session_next: "session_reachable jsonParse s \<Longrightarrow> session_reachable jsonParse (session_step jsonParse s e)"

subsection \<open>The abstract session\<close>

text \<open>What the session promises: the map shows the layers of the last applied text that
  parses to a non-empty list, and nothing before such a text.\<close>

fun appliedTexts :: "string \<Rightarrow> ui_event list \<Rightarrow> string list" where
  "appliedTexts cur [] = []"
| "appliedTexts cur (EditText v # es) = appliedTexts v es"
| "appliedTexts cur (ClickApply # es) = cur # appliedTexts cur es"

definition shownResults :: "(string \<Rightarrow> json option) \<Rightarrow> string list \<Rightarrow> parsed_spec list list" where
  "shownResults jsonParse ts =
     concat (map (\<lambda>t. case parseSpecification jsonParse t of
                        Inr ps \<Rightarrow> if ps \<noteq> [] then [ps] else [] | Inl _ \<Rightarrow> []) ts)"

definition session_inv :: "(string \<Rightarrow> json option) \<Rightarrow> session \<Rightarrow> bool" where
  "session_inv jsonParse s =
     (shownSpec s = [] \<or> (\<exists>t. parseSpecification jsonParse t = Inr (shownSpec s)))"


subsection \<open>Properties of the session\<close>

lemma shownSpec_step:
  "shownSpec (session_step jsonParse s ClickApply) =
     (case parseSpecification jsonParse (inputSpec s) of
        Inr ps \<Rightarrow> if ps \<noteq> [] then ps else shownSpec s | Inl _ \<Rightarrow> shownSpec s)"
  by (simp add: applySpec_def bindE_def split: sum.split)

lemma shownResults_Cons:
  "shownResults jsonParse (t # ts) =
     (case parseSpecification jsonParse t of Inr ps \<Rightarrow> if ps \<noteq> [] then [ps] else [] | Inl _ \<Rightarrow> [])
     @ shownResults jsonParse ts"
  by (simp add: shownResults_def)

lemma session_run_shown:
  "shownSpec (session_run jsonParse s es) =
     last (shownSpec s # shownResults jsonParse (appliedTexts (inputSpec s) es))"
proof (induction es arbitrary: s)
  case Nil then show ?case by (simp add: session_run_def shownResults_def)
next
  case (Cons e es)
  show ?case
  proof (cases e)
    case (EditText v)
    then show ?thesis using Cons.IH [of "s\<lparr>inputSpec := v\<rparr>"] by (simp add: session_run_def)
  next
    case ClickApply
    have inp: "inputSpec (session_step jsonParse s ClickApply) = inputSpec s"
      by (simp add: applySpec_def bindE_def split: sum.split)
    have ih: "shownSpec (session_run jsonParse s (e # es)) =
        last (shownSpec (session_step jsonParse s ClickApply) # shownResults jsonParse (appliedTexts (inputSpec s) es))"
      using Cons.IH [of "session_step jsonParse s ClickApply"] ClickApply inp by (simp add: session_run_def)
    show ?thesis
    proof (cases "parseSpecification jsonParse (inputSpec s)")
      case (Inl err)
      then have "shownSpec (session_step jsonParse s ClickApply) = shownSpec s"
        by (simp only: shownSpec_step) simp
      then show ?thesis using ih ClickApply Inl by (simp del: session_step.simps add: shownResults_Cons)
    next
      case (Inr ps)
      then have "shownSpec (session_step jsonParse s ClickApply) = (if ps \<noteq> [] then ps else shownSpec s)"
        by (simp only: shownSpec_step) simp
      then show ?thesis using ih ClickApply Inr
        by (cases "shownResults jsonParse (appliedTexts (inputSpec s) es) = []")
           (simp_all del: session_step.simps add: shownResults_Cons)
    qed
  qed
qed

lemma parse_Inl_iff: "(\<exists>err. parseSpecification jsonParse t = Inl err) = (jsonParse t = None)"
  by (simp add: parseSpecification_def Let_def split: option.split)

lemma session_run_uncaught:
  "uncaught (session_run jsonParse s es) =
     uncaught s @ map (\<lambda>_. SyntaxError) (filter (\<lambda>t. jsonParse t = None) (appliedTexts (inputSpec s) es))"
proof (induction es arbitrary: s)
  case Nil then show ?case by (simp add: session_run_def)
next
  case (Cons e es)
  show ?case
  proof (cases e)
    case (EditText v)
    then show ?thesis using Cons.IH [of "s\<lparr>inputSpec := v\<rparr>"] by (simp add: session_run_def)
  next
    case ClickApply
    have "inputSpec (session_step jsonParse s ClickApply) = inputSpec s"
      by (simp add: applySpec_def bindE_def split: sum.split)
    moreover have "uncaught (session_step jsonParse s ClickApply) =
        uncaught s @ (if jsonParse (inputSpec s) = None then [SyntaxError] else [])"
      by (auto simp: applySpec_def bindE_def parseSpecification_def Let_def
          split: sum.split option.split)
    ultimately show ?thesis using Cons.IH [of "session_step jsonParse s ClickApply"] ClickApply
      by (simp del: session_step.simps add: session_run_def)
  qed
qed

text \<open>C23: The session implements its abstract specification: after any sequence of edits
  and clicks the application shows the layers of the last applied text that parses to a
  non-empty list (nothing if there is none), and the clicks on text that is not JSON are
  exactly the uncaught \<open>SyntaxError\<close>s, in order.\<close>

theorem session_refines:
  "shownSpec (session_run jsonParse sessionInit es) = last ([] # shownResults jsonParse (appliedTexts [] es)) \<and>
   uncaught (session_run jsonParse sessionInit es) =
     map (\<lambda>_. SyntaxError) (filter (\<lambda>t. jsonParse t = None) (appliedTexts [] es))"
  using session_run_shown [of jsonParse sessionInit es] session_run_uncaught [of jsonParse sessionInit es]
  by (simp add: sessionInit_def)

lemma session_inv_step:
  assumes "session_inv jsonParse s" shows "session_inv jsonParse (session_step jsonParse s e)"
proof (cases e)
  case (EditText v) then show ?thesis using assms by (simp add: session_inv_def)
next
  case ClickApply
  then show ?thesis using assms
    by (auto simp: session_inv_def applySpec_def bindE_def split: sum.split)
qed

lemma session_reachable_run:
  "session_reachable jsonParse s \<Longrightarrow> session_reachable jsonParse (session_run jsonParse s es)"
  by (induction es arbitrary: s) (simp_all add: session_run_def session_next)



end
