(* ===== verification/Spec2Isabelle.thy ===== *)
theory Spec2Isabelle
  imports Draw Session
begin

text \<open>
  \<^bold>\<open>A verification model of StreetWeave's specification-to-geometry pipeline.\<close>

  StreetWeave (\<open>src/editor\<close>, \<open>src/streetweave\<close>) renders a street network with
  point-sampled thematic data joined onto its edges, as a JSON specification
  prescribes.  A render pass (\<open>MapVisualization.tsx\<close>) starts one asynchronous
  render function per layer; a segment layer loads its data (\<open>dataLoader.ts\<close>: the
  two loaders of \<open>geoHelpers.ts\<close>, the spatial join of \<open>aggregation.ts\<close>, the
  density subdivider), then on every redraw builds one drawing instruction per edge
  (\<open>d3Helpers.ts\<close>), resolving each style channel (\<open>styleHelpers.ts\<close>) and offsetting
  the edge by the zoom-dependent distance (\<open>mapHelpers.ts\<close>) times its alignment
  counter.  The theories, in import order:

  \<^item> \<open>Prelude\<close>: JavaScript numbers as \<open>real\<close>, objects used as dictionaries as
    association lists (key order matters to the code), the primitives \<open>%\<close>
    (\<open>js_rem\<close>), \<open>Math.round\<close> and \<open>Math.atan2\<close>, the \<open>TypeError\<close> the code can
    throw, and the sequencing \<open>bindE\<close>, \<open>foldE\<close>, \<open>sequenceE\<close> of computations that
    may throw.
  \<^item> \<open>Types\<close>: \<open>src/streetweave/src/types/index.ts\<close> (\<open>PhysicalEdge\<close> as the
    record \<open>edge\<close>, \<open>ParsedSpec\<close> as \<open>layer_spec\<close>, the string enumerations as
    datatypes).
  \<^item> \<open>Geometry\<close>: \<open>calculateMidpoint\<close>, \<open>getCardinalDirection\<close>, \<open>offsetPoint\<close>,
    the two bearing folds and the zoom functions.  Lemmas: the line fold puts every
    bearing in [0, 180) and is idempotent, the two folds undo each other,
    \<open>offsetPoint\<close> at distance 0 is the identity and keeps the latitude in
    [-90, 90], negative bearings have no cardinal direction, the offset distance
    drops below 6 just under zoom 18.
  \<^item> \<open>Turf\<close>: the geometry library the code calls, an interface record \<open>geo_lib\<close>
    (buffer as a point-in-polygon test, distance, bearing, length); every lemma
    holds for every instance, \<open>taxicab_lib\<close> is a concrete one for the examples.
  \<^item> \<open>Aggregation\<close>: \<open>aggregation.ts\<close> (\<open>aggregateValues\<close>, the three joins,
    \<open>applySpatialAggregation\<close>, \<open>processEdgesToNodes\<close>).  Lemmas: the statistics
    table holds exactly the extremes of every attribute (its invariant), the buffer
    join sums exactly the points in the buffer, the nearest-neighbour join selects
    the \<open>min(100, n)\<close> closest points, the node reduction equals a reference
    definition, the contains join tests transposed coordinates.
  \<^item> \<open>Loader\<close>: \<open>loadThematicData\<close> and \<open>loadPhysicalData\<close> of \<open>geoHelpers.ts\<close> from
    the parsed file contents on.  Lemmas: the thematic statistics over all rows,
    dropped ones included; a polyline of \<open>N\<close> vertices gives \<open>N - 1\<close> edges whose
    ends read back the vertices.
  \<^item> \<open>Style\<close>: \<open>styleHelpers.ts\<close>, with \<open>d3.scaleLinear\<close> and the interpolators
    written out.  Lemmas: the scaled value on every branch, the \<open>TypeError\<close> of a
    missing statistics entry, the default range [0, 1], the dash and squiggle
    buckets and their out-of-domain cases, the alternation of the wavy path.
  \<^item> \<open>Subdivide\<close>: \<open>dataLoader.ts\<close> (\<open>subdivideEdges\<close>, \<open>loadSegmentData\<close>,
    \<open>loadNodeData\<close>).  The split loop runs to a real bound; it is the function
    \<open>splitLoop\<close>, total by the measure \<open>\<lceil>numSplits\<rceil> - i\<close>, and runs exactly that
    many times (no fuel is needed).  Lemmas: the number, length and end points of
    the pieces (their lengths add up to more than the edge, the last one ends
    beyond it).
  \<^item> \<open>Instructions\<close>: \<open>buildD3Instructions\<close> with its five method branches and the
    node glyphs of \<open>drawD3Nodes\<close>, over an interface record of the Leaflet map
    (projection, zoom) and the two colour ramps.  Lemmas: the loop refines mapping
    the per-edge callback over the indexed edges, the first error aborting; one
    instruction per edge with its index as id; a matrix has a single colour; a
    higher squiggle value draws fewer arcs.
  \<^item> \<open>Render\<close>: the render pass as a deterministic step function over events (a run
    of the effect, the completion of a pending load in any order, a map move) and
    the inductive set of reachable states.  Lemmas, by rule induction over an
    invariant: the alignment counters count the layers of the pass, so every left
    layer is drawn at the same offset; segment handlers are never unbound; a load of
    a superseded pass is registered; pending loads drain.
  \<^item> \<open>Charts\<close>: the chart placement of \<open>vegaliteHelpers.ts\<close> (the data, offsets,
    angle and element id of every chart, and the placement step that appends a new
    element or moves an existing one).  Lemmas: two edges whose screen midpoints have
    the same coordinate sum, and all nodes with the same \<open>lat + lon\<close>, share one
    element, so only one of their charts is drawn.
  \<^item> \<open>Draw\<close>: \<open>drawSegments\<close> of \<open>d3Helpers.ts\<close> as a data join keyed by the
    instruction id over the elements of a group, and \<open>createAndPlaceVegaLiteSVG\<close> of
    \<open>vegaliteHelpers.ts\<close> with the hidden \<open><div>\<close> it renders each chart into.  Lemmas:
    a draw leaves one element per instruction (a matrix layer removes the others, the
    other methods keep them); rendering places charts exactly as \<open>placeCharts\<close> and
    leaves one hidden \<open><div>\<close> per chart in the body.
  \<^item> \<open>Parser\<close>: \<open>parseSpecification\<close> of \<open>src/streetweave/src/parser.ts\<close> over a
    datatype of JSON values, with \<open>JSON.parse\<close> a parameter (\<open>None\<close> where it throws),
    the \<open>color-hex\<close> format, validation with Ajv's defaults, and the reading of the
    validated object into the records of \<open>Types\<close>.  The schema file is not in the
    repository; the schema and its two defaults are modelled from the specification.
    Lemmas: a printed list of well-formed layers parses back to itself; one invalid
    layer empties the result; a \<open>SyntaxError\<close> is thrown exactly for text that is not
    JSON; every parsed layer has an alignment; the parser's hex format and
    \<open>isHexColor\<close> of \<open>styleHelpers.ts\<close> accept the same strings.
  \<^item> \<open>MapEffects\<close>: \<open>App.applySpec\<close>, the map initialisation (\<open>initializeMap\<close>,
    \<open>createPaneIfNeeded\<close>), the panes and \<open><svg>\<close> elements of segment layers, the mimic
    street layer with its style effect and the street-width updates, and the address
    geocoding effect as an inductive step relation whose runs own their \<open>cancelled\<close>
    flags.  Lemmas: only the latest run's answer is committed (by rule induction over an
    invariant), a changed address that is not found keeps the old coordinates, each pane
    keeps only the last segment layer drawn in it, the map is never created when the
    first layer has no street, an apply sets the mimic width to 0 so the streets near
    the address vanish, an invalid document keeps the previous layers, and the mimic
    layer reads back as the loaded network; a node layer draws its glyphs into the first
    \<open><svg>\<close> of the overlay pane, which is a center segment layer's when one is shown.
  \<^item> \<open>Session\<close>: the editor of \<open>TextEditor.tsx\<close> and its Apply button composed with
    \<open>App.applySpec\<close>, a step function over edit and click events with the reachable
    sessions as an inductive set, and the parser module's Ajv initialisation.  Lemmas:
    the session refines the abstract one that shows the last applied text parsing to a
    non-empty list, with one uncaught \<open>SyntaxError\<close> per click on text that is not JSON;
    a reachable session only shows parse results and never unmounts the map.
  \<^item> This theory: properties across the components (a segment load never throws;
    the style of a processed edge lies in its range; a latitude column not named
    \<open>lat\<close> is aggregated; a colour naming a string column makes the builder throw; segment
    layers left at the default alignment share a pane and hide each other).

  \<^bold>\<open>Not modelled.\<close>  IEEE rounding, NaN (beyond the value \<open>VNaN\<close> a width
  takes, and the \<open>NaN\<close> of a missing query radius) and the infinities; the D3 drawing
  beyond the bound data of the elements (the attribute strings D3 writes, the SVG group of
  a node layer, the \<open>onRemove\<close> of an SVG layer); the Vega-Lite chart renderer \<open>vega-embed\<close> itself
  and the number-to-string conversion of the element ids (a parameter of \<open>Charts\<close>);
  the fetches of the loaders and the geocoder, which are parameters; the exact content
  of \<open>schema.json\<close>, which is not in the repository (the schema is modelled from the
  specification); the React components' markup and style sheets; the Vite build configuration
  (\<open>vite.config.ts\<close>), which has no run-time behaviour; \<open>calculateCentroid\<close> of
  \<open>geoHelpers.ts\<close>, which nothing calls.
\<close>

definition street_line :: feature where
  "street_line = \<lparr>fgeometry = Some (LineString [(-74, 40), (-74, 40.0009)])\<rparr>"

definition str_rows :: "csv_row list" where
  \<comment> \<open>a CSV with a string column \<open>name\<close>\<close>
  "str_rows = [[(''lat'', CNum 40.0004), (''lon'', CNum (-74)), (''name'', CStr ''oak'')]]"

definition name_unit :: unit_spec where
  "name_unit = example_unit\<lparr>color := SStr ''name''\<rparr>"

section \<open>Properties across components\<close>


text \<open>C33: Every channel of a processed edge that names one of its attributes, resolved
  against the processed edges' own statistics, yields a number inside the channel's
  numeric range: the statistics table is the right domain for those channels.\<close>

theorem processed_edges_style_in_range:
  assumes "e \<in> set (edges (applySpatialAggregation g (loadPhysicalData g pf) td spec))"
    and "attributes e = Some a" and "map_of a s = Some v" and "\<not> isHexColor s" and "r0 \<le> r1"
  shows "\<exists>y. getDynamicStyleValue (SStr s) (attributes e)
              (Some (attributeStats (applySpatialAggregation g (loadPhysicalData g pf) td spec))) (RNum r0 r1) =
            Inr (VNum y) \<and> r0 \<le> y \<and> y \<le> r1"
proof -
  obtain mn mx where "map_of (attributeStats (applySpatialAggregation g (loadPhysicalData g pf) td spec)) s = Some (mn, mx)"
    and "mn \<le> v" and "v \<le> mx"
    using applySpatialAggregation_covers [OF _ assms(1-3)] loadPhysicalData_no_attributes by blast
  then show ?thesis using getDynamicStyleValue_bounded [OF assms(4) assms(3)] assms(2,5) by simp
qed

lemma processed_edges_style_in_range_witness:
  "\<exists>y. getDynamicStyleValue (SStr ''count'') (Some [(''count'', 10)])
        (Some (attributeStats (applySpatialAggregation taxicab_lib (loadPhysicalData taxicab_lib (Some (Feature street_line)))
           scenario_points (example_spec AggSum)))) (RNum 0 10) = Inr (VNum y) \<and> 0 \<le> y \<and> y \<le> 10"
proof -
  let ?e = "\<lparr>point0 = \<lparr>lat = 40, lon = - 74\<rparr>, point1 = \<lparr>lat = 400009 / 10000, lon = - 74\<rparr>, bearing = 0,
     edge_length = 25047 / 250, attributes = Some [(''count'', 10)]\<rparr>"
  have es: "edges (applySpatialAggregation taxicab_lib (loadPhysicalData taxicab_lib (Some (Feature street_line)))
           scenario_points (example_spec AggSum)) = [?e]"
    by (simp add: applySpatialAggregation_def example_spec_def example_relation_def example_unit_def
        loadPhysicalData_def featureEdges_def mkEdge_def street_line_def aggregateSegmentBuffer_def
        aggregateValues_def attributeKeys_def numericValues_def aggregateValue_def d3_sum_def taxicab_lib_def
        calculateMidpoint_def scenario_points_def tpos_def deg_m_def)
  have "\<not> isHexColor ''count''" by (simp add: isHexColor_def)
  from processed_edges_style_in_range [of ?e taxicab_lib "Some (Feature street_line)" scenario_points
      "example_spec AggSum" "[(''count'', 10)]" "''count''" 10 0 10, OF _ _ _ this]
  show ?thesis using es by simp
qed

text \<open>C34: When the latitude column is not called \<open>lat\<close> (nor \<open>lon\<close>), the loader keeps it in
  every row and the aggregation, which removes only \<open>lat\<close> and \<open>lon\<close>, aggregates it: every
  joined edge gets an attribute named after the latitude column (with type sum, the sum
  of the selected points' latitudes).\<close>

theorem latColumn_aggregated:
  assumes "latCol \<noteq> ''lat''" and "latCol \<noteq> ''lon''"
    and "tdata (loadThematicData latCol lonCol (Some rs)) \<noteq> []"
  shows "map_of (aggregateValues pts t (tdata (loadThematicData latCol lonCol (Some rs)))) latCol =
           Some (aggregateValue t (numericValues pts latCol))"
proof -
  obtain p ps where td: "tdata (loadThematicData latCol lonCol (Some rs)) = p # ps"
    using assms(3) by (metis list.exhaust)
  then have "p \<in> set (concat (map (keptPoint latCol lonCol) rs))" by (simp only: loadThematicData_tdata) simp
  then obtain d where "p \<in> set (keptPoint latCol lonCol d)" by auto
  from keptPoint_keys [OF this] have pc: "parseCoord d latCol \<noteq> None"
    and keys: "fst ` set (trow p) = insert ''lat'' (insert ''lon'' (fst ` set d))" by simp_all
  from parseCoord_key [OF pc] have "latCol \<in> fst ` set (trow p)" by (simp add: keys)
  then have "latCol \<in> set (attributeKeys (p # ps))"
    using assms(1,2) by (simp add: attributeKeys_def)
  then show ?thesis by (simp add: map_of_aggregateValues td)
qed

lemma latColumn_aggregated_witness:
  "map_of (aggregateValues (tdata (loadThematicData ''latitude'' ''longitude'' (Some sample_rows))) (Some AggSum)
      (tdata (loadThematicData ''latitude'' ''longitude'' (Some sample_rows)))) ''latitude'' = Some 40"
proof -
  have td: "tdata (loadThematicData ''latitude'' ''longitude'' (Some sample_rows)) =
     [\<lparr>tlat = 40, tlon = -74, trow = [(''latitude'', CNum 40), (''longitude'', CNum (-74)), (''count'', CNum 3),
        (''name'', CStr ''a''), (''lat'', CNum 40), (''lon'', CNum (-74))]\<rparr>,
      \<lparr>tlat = 83 / 2, tlon = -73, trow = [(''latitude'', CStr ''41.5N''), (''longitude'', CNum (-73)),
        (''count'', CNum 1), (''lat'', CNum (83 / 2)), (''lon'', CNum (-73))]\<rparr>]"
    by (simp add: loadThematicData_tdata sample_rows_def keptPoint_def parseCoord_def parseFloatStr_def
        isDigit_def digitsNat_def)
  have "''latitude'' \<noteq> ''lat''" "''latitude'' \<noteq> ''lon''" by simp_all
  from latColumn_aggregated [OF this, of "''longitude''" sample_rows]
  show ?thesis by (simp add: td numericValues_def aggregateValue_def d3_sum_def)
qed


text \<open>C7: A colour channel that names a string column of the CSV makes the line renderer throw:
  the aggregation gives every joined edge that column as an attribute (the sum of no numbers,
  0), the thematic statistics, built from numeric cells only, have no entry for it, and the
  colour is resolved against the thematic statistics.\<close>

theorem string_column_color_throws:
  assumes "e \<in> set es" "attributes e = Some a" "map_of a s \<noteq> None" "rowNums s (concat rs) = []"
    and "color u = SStr s" "\<not> isHexColor s" "umethod u = Some Line" "orientation u = Some Parallel"
    and "\<not> chartTruthy (squiggle u)"
  shows "buildD3Instructions cl es u pe (loadThematicData latCol lonCol (Some rs)) d t mp = Inl TypeError"
  unfolding buildD3Instructions_def
  by (rule buildLoop_throws [OF assms(1) edgeInstruction_color_throws [OF assms(2,3) tstats_no_numbers [OF assms(4)] assms(5-9)]])


theorem string_column_color_throws_witness:
  "buildD3Instructions test_colors
     (edges (applySpatialAggregation taxicab_lib (loadPhysicalData taxicab_lib (Some (Feature street_line)))
        (tdata (loadThematicData ''lat'' ''lon'' (Some str_rows))) (example_spec AggSum))) name_unit
     (applySpatialAggregation taxicab_lib (loadPhysicalData taxicab_lib (Some (Feature street_line)))
        (tdata (loadThematicData ''lat'' ''lon'' (Some str_rows))) (example_spec AggSum))
     (loadThematicData ''lat'' ''lon'' (Some str_rows)) 0 None test_map = Inl TypeError"
proof -
  let ?e = "\<lparr>point0 = \<lparr>lat = 40, lon = - 74\<rparr>, point1 = \<lparr>lat = 400009 / 10000, lon = - 74\<rparr>, bearing = 0,
     edge_length = 25047 / 250, attributes = Some [(''name'', 0)]\<rparr>"
  have td: "tdata (loadThematicData ''lat'' ''lon'' (Some str_rows)) =
     [\<lparr>tlat = 40.0004, tlon = -74, trow = [(''lat'', CNum 40.0004), (''lon'', CNum (-74)), (''name'', CStr ''oak'')]\<rparr>]"
    by (simp add: loadThematicData_tdata str_rows_def keptPoint_def parseCoord_def)
  have es: "edges (applySpatialAggregation taxicab_lib (loadPhysicalData taxicab_lib (Some (Feature street_line)))
        (tdata (loadThematicData ''lat'' ''lon'' (Some str_rows))) (example_spec AggSum)) = [?e]"
    by (simp add: td applySpatialAggregation_def example_spec_def example_relation_def example_unit_def
        loadPhysicalData_def featureEdges_def mkEdge_def street_line_def aggregateSegmentBuffer_def
        aggregateValues_def attributeKeys_def numericValues_def aggregateValue_def d3_sum_def taxicab_lib_def
        calculateMidpoint_def tpos_def deg_m_def)
  have r: "rowNums ''name'' (concat str_rows) = []" by (simp add: str_rows_def rowNums_def)
  have u: "color name_unit = SStr ''name''" "\<not> isHexColor ''name''" "umethod name_unit = Some Line"
    "orientation name_unit = Some Parallel" "\<not> chartTruthy (squiggle name_unit)"
    by (simp_all add: name_unit_def example_unit_def isHexColor_def chartTruthy_def)
  have att: "attributes ?e = Some [(''name'', 0)]" by simp
  have nm: "map_of [(''name'', 0::real)] ''name'' \<noteq> None" by simp
  show ?thesis
    unfolding es by (rule string_column_color_throws [OF _ att nm r u]) simp
qed


section \<open>Parsing, defaults and panes\<close>

lemma last_filter_upt_ge:
  "j \<in> set (filter P [0..<n]) \<Longrightarrow> j \<le> last (filter P [0..<n])"
  by (induction n) auto

lemma parse_valid_array:
  assumes "jsonParse specJson = Some (JArr xs)" and "list_all validLayer xs"
  shows "parseSpecification jsonParse specJson = Inr (map (\<lambda>x. decodeLayer (layerDefaults x)) xs)"
proof -
  have "filter jsTruthy (map layerDefaults xs) = map layerDefaults xs"
    using assms(2) by (simp add: list_all_iff jsTruthy_layerDefaults validLayer_isObj)
  then show ?thesis using assms by (simp add: parseSpecification_def)
qed

lemma default_center_segment:
  assumes "jget x ''unit'' = Some (JObj kvs)" and "jget (JObj kvs) ''alignment'' = None"
    and "jget (JObj kvs) ''type'' = Some (JStr ''segment'')"
  shows "alignment (layer_unit (ps_layer (decodeLayer (layerDefaults x)))) = Some Center \<and>
         isSegment (ps_layer (decodeLayer (layerDefaults x)))"
proof -
  have "jget (layerDefaults x) ''unit'' = Some (addDefault ''alignment'' (JStr ''center'') (JObj kvs))"
    by (simp add: layerDefaults_def jget_modifyField assms(1))
  then show ?thesis using assms(2,3)
    by (simp add: decodeLayer_def decodeUnit_def isSegment_def jget_addDefault alignmentTbl_def)
qed

text \<open>C25: Two segment layers of a valid document that leave \<open>unit.alignment\<close> unset both
  get the schema default \<open>center\<close>, hence the pane \<open>overlayPane\<close>; starting the later
  one removes the earlier one's \<open><svg>\<close>, so only the last such layer is shown.\<close>

theorem default_alignment_hides_layer:
  assumes "jsonParse specJson = Some (JArr xs)" and "list_all validLayer xs"
    and "parseSpecification jsonParse specJson = Inr ps"
    and "i < j" and "j < length xs"
    and "\<And>k. k \<in> {i, j} \<Longrightarrow> \<exists>kvs. jget (xs ! k) ''unit'' = Some (JObj kvs) \<and>
            jget (JObj kvs) ''alignment'' = None \<and> jget (JObj kvs) ''type'' = Some (JStr ''segment'')"
    and "paneSvgs lm = []"
  shows "i \<notin> set (paneSvgsOf (startSegmentSvgs lm (map ps_layer ps)) ''overlayPane'')"
proof -
  have ps: "ps = map (\<lambda>x. decodeLayer (layerDefaults x)) xs"
    using parse_valid_array [of jsonParse specJson xs, OF assms(1,2)] assms(3) by simp
  have c: "alignment (layer_unit (map ps_layer ps ! k)) = Some Center \<and> isSegment (map ps_layer ps ! k)"
    if kin: "k \<in> {i, j}" for k
  proof -
    obtain kvs where "jget (xs ! k) ''unit'' = Some (JObj kvs)" "jget (JObj kvs) ''alignment'' = None"
      "jget (JObj kvs) ''type'' = Some (JStr ''segment'')" using assms(6) [OF kin] by blast
    moreover have "k < length xs" using kin assms(4,5) by auto
    ultimately have "alignment (layer_unit (ps_layer (decodeLayer (layerDefaults (xs ! k))))) = Some Center \<and>
        isSegment (ps_layer (decodeLayer (layerDefaults (xs ! k))))"
      using default_center_segment by blast
    then show ?thesis using \<open>k < length xs\<close> ps by (simp only: length_map nth_map)
  qed
  define L where "L = map ps_layer ps"
  define P where "P = (\<lambda>k. isSegment (L ! k) \<and> segmentPane (layer_unit (L ! k)) = ''overlayPane'')"
  define js where "js = filter P [0..<length L]"
  have len: "length L = length xs" using ps by (simp add: L_def)
  have "P j" using c [of j] by (simp add: P_def L_def segmentPane_def)
  then have jin: "j \<in> set js" using assms(5) len by (simp add: js_def)
  then have "i < last js" using last_filter_upt_ge [of j P "length L"] assms(4) by (simp add: js_def)
  moreover have "js \<noteq> []" using jin by auto
  moreover have "paneSvgsOf (startSegmentSvgs lm L) ''overlayPane'' = (if js = [] then [] else [last js])"
  proof -
    have "paneSvgsOf lm ''overlayPane'' = []" using assms(7) by (simp add: paneSvgsOf_def)
    then show ?thesis
      by (simp add: startSegmentSvgs_def paneSvgsOf_fold Let_def js_def P_def filter_filter conj_commute)
  qed
  ultimately show ?thesis by (simp add: L_def)
qed

theorem default_alignment_hides_layer_witness:
  "0 \<notin> set (paneSvgsOf (startSegmentSvgs (initializeMap 0 0 17 ''light'')
     (map ps_layer (map (\<lambda>x. decodeLayer (layerDefaults x)) [JObj [(''unit'', JObj [(''type'', JStr ''segment'')]),
      (''data'', JObj [(''physical'', JObj [(''path'', JStr ''s.geojson'')]),
                      (''thematic'', JObj [(''path'', JStr ''t.csv''), (''latColumn'', JStr ''lat''),
                                          (''lonColumn'', JStr ''lon'')])])], JObj [(''unit'', JObj [(''type'', JStr ''segment'')]),
      (''data'', JObj [(''physical'', JObj [(''path'', JStr ''s.geojson'')]),
                      (''thematic'', JObj [(''path'', JStr ''t.csv''), (''latColumn'', JStr ''lat''),
                                          (''lonColumn'', JStr ''lon'')])])]]))) ''overlayPane'')"
proof (rule default_alignment_hides_layer [where jsonParse = "\<lambda>_. Some (JArr [JObj [(''unit'', JObj [(''type'', JStr ''segment'')]),
      (''data'', JObj [(''physical'', JObj [(''path'', JStr ''s.geojson'')]),
                      (''thematic'', JObj [(''path'', JStr ''t.csv''), (''latColumn'', JStr ''lat''),
                                          (''lonColumn'', JStr ''lon'')])])], JObj [(''unit'', JObj [(''type'', JStr ''segment'')]),
      (''data'', JObj [(''physical'', JObj [(''path'', JStr ''s.geojson'')]),
                      (''thematic'', JObj [(''path'', JStr ''t.csv''), (''latColumn'', JStr ''lat''),
                                          (''lonColumn'', JStr ''lon'')])])]])"
      and specJson = "''[...]''" and xs = "[JObj [(''unit'', JObj [(''type'', JStr ''segment'')]),
      (''data'', JObj [(''physical'', JObj [(''path'', JStr ''s.geojson'')]),
                      (''thematic'', JObj [(''path'', JStr ''t.csv''), (''latColumn'', JStr ''lat''),
                                          (''lonColumn'', JStr ''lon'')])])], JObj [(''unit'', JObj [(''type'', JStr ''segment'')]),
      (''data'', JObj [(''physical'', JObj [(''path'', JStr ''s.geojson'')]),
                      (''thematic'', JObj [(''path'', JStr ''t.csv''), (''latColumn'', JStr ''lat''),
                                          (''lonColumn'', JStr ''lon'')])])]]" and j = 1])
  show "list_all validLayer [JObj [(''unit'', JObj [(''type'', JStr ''segment'')]),
      (''data'', JObj [(''physical'', JObj [(''path'', JStr ''s.geojson'')]),
                      (''thematic'', JObj [(''path'', JStr ''t.csv''), (''latColumn'', JStr ''lat''),
                                          (''lonColumn'', JStr ''lon'')])])], JObj [(''unit'', JObj [(''type'', JStr ''segment'')]),
      (''data'', JObj [(''physical'', JObj [(''path'', JStr ''s.geojson'')]),
                      (''thematic'', JObj [(''path'', JStr ''t.csv''), (''latColumn'', JStr ''lat''),
                                          (''lonColumn'', JStr ''lon'')])])]]"
    by (simp add: validLayer_def validUnit_def reqPath_def optField_def jget_def isObj_def isStr_def enumStr_def)
  then show "parseSpecification (\<lambda>_. Some (JArr [JObj [(''unit'', JObj [(''type'', JStr ''segment'')]),
      (''data'', JObj [(''physical'', JObj [(''path'', JStr ''s.geojson'')]),
                      (''thematic'', JObj [(''path'', JStr ''t.csv''), (''latColumn'', JStr ''lat''),
                                          (''lonColumn'', JStr ''lon'')])])], JObj [(''unit'', JObj [(''type'', JStr ''segment'')]),
      (''data'', JObj [(''physical'', JObj [(''path'', JStr ''s.geojson'')]),
                      (''thematic'', JObj [(''path'', JStr ''t.csv''), (''latColumn'', JStr ''lat''),
                                          (''lonColumn'', JStr ''lon'')])])]])) ''[...]'' =
      Inr (map (\<lambda>x. decodeLayer (layerDefaults x)) [JObj [(''unit'', JObj [(''type'', JStr ''segment'')]),
      (''data'', JObj [(''physical'', JObj [(''path'', JStr ''s.geojson'')]),
                      (''thematic'', JObj [(''path'', JStr ''t.csv''), (''latColumn'', JStr ''lat''),
                                          (''lonColumn'', JStr ''lon'')])])], JObj [(''unit'', JObj [(''type'', JStr ''segment'')]),
      (''data'', JObj [(''physical'', JObj [(''path'', JStr ''s.geojson'')]),
                      (''thematic'', JObj [(''path'', JStr ''t.csv''), (''latColumn'', JStr ''lat''),
                                          (''lonColumn'', JStr ''lon'')])])]])"
    by (simp add: parseSpecification_def jsTruthy_def layerDefaults_def modifyField_def)
qed (auto simp: jget_def initializeMap_def)

end
